theory Spec2Isabelle
  imports Main "HOL-Library.Word"
begin

section \<open>Object initialisation (src/server/obj-init.c): common data\<close>

text \<open>
  The error codes the directive callbacks of obj-init.c return.  \<open>PARSE_ERROR_NONE\<close>
  is the code 0.
\<close>

datatype parser_error =
    PARSE_ERROR_NONE
  | PARSE_ERROR_BAD_EXPRESSION_STRING
  | PARSE_ERROR_ELEMENT_NAME_MISMATCH
  | PARSE_ERROR_INTERNAL
  | PARSE_ERROR_INVALID_ALLOCATION
  | PARSE_ERROR_INVALID_COLOR
  | PARSE_ERROR_INVALID_DICE
  | PARSE_ERROR_INVALID_EXPRESSION
  | PARSE_ERROR_INVALID_FLAG
  | PARSE_ERROR_INVALID_ID_TYPE
  | PARSE_ERROR_INVALID_ITEM_NUMBER
  | PARSE_ERROR_INVALID_ITERATE
  | PARSE_ERROR_INVALID_MESSAGE
  | PARSE_ERROR_INVALID_MONSTER_BASE
  | PARSE_ERROR_INVALID_OBJ_PROP_CODE
  | PARSE_ERROR_INVALID_OPERATION
  | PARSE_ERROR_INVALID_PROPERTY
  | PARSE_ERROR_INVALID_SLAY
  | PARSE_ERROR_INVALID_SUBTYPE
  | PARSE_ERROR_INVALID_VALUE
  | PARSE_ERROR_MISSING_FIELD
  | PARSE_ERROR_MISSING_OBJ_PROP_TYPE
  | PARSE_ERROR_MISSING_RECORD_HEADER
  | PARSE_ERROR_NO_KIND_FOR_EGO_TYPE
  | PARSE_ERROR_NOT_SPECIAL_ARTIFACT
  | PARSE_ERROR_OUT_OF_BOUNDS
  | PARSE_ERROR_UNBOUND_EXPRESSION
  | PARSE_ERROR_UNDEFINED_DIRECTIVE
  | PARSE_ERROR_UNRECOGNISED_BRAND
  | PARSE_ERROR_UNRECOGNISED_CURSE
  | PARSE_ERROR_UNRECOGNISED_SLAY
  | PARSE_ERROR_UNRECOGNISED_TVAL

text \<open>
  A callback either returns an error code, leaving the parser state as it has mutated it
  up to the return statement, or it does not return at all: a failed \<open>my_assert\<close>, a
  dereferenced null pointer, an array access out of bounds, a \<open>sscanf\<close> that writes
  past its buffer.
\<close>

datatype fault =
    Assertion_Failed
  | Null_Dereference
  | Out_Of_Bounds
  | Buffer_Overflow

datatype 's outcome =
    Returns parser_error 's
  | Fault fault

text \<open>The struct \<open>random_value\<close> that \<open>parser_getrand\<close> delivers.\<close>

record random_value =
  rv_base :: int
  rv_dice :: int
  rv_sides :: int
  rv_m_bonus :: int

definition random_value_zero :: random_value where
  "random_value_zero = \<lparr>rv_base = 0, rv_dice = 0, rv_sides = 0, rv_m_bonus = 0\<rparr>"

section \<open>The records of the eleven tables\<close>

text \<open>
  A \<open>bitflag\<close> array is the set of the flag numbers whose bit is on.  A string field is
  a \<open>char *\<close> that is null until a directive sets it.  A \<open>next\<close> field of a finished
  row is the index of the row it points to; while a file is parsed the chain of records
  hanging from \<open>parser_priv\<close> is a HOL list, newest record first, and the field is not
  used.  Lazily allocated arrays (\<open>slays\<close>, \<open>brands\<close>, \<open>curses\<close>) are null or the array.
\<close>

type_synonym bitflag = "int set"

datatype el_flag = EL_INFO_HATES | EL_INFO_IGNORE | EL_INFO_RANDOM

record element_info =
  res_level :: int
  el_flags :: "el_flag set"

text \<open>
  \<open>dice_t\<close> and \<open>expression_t\<close> are opaque to obj-init.c.  The model keeps what obj-init.c
  hands to the functions that build them: the dice string with the expressions bound to
  it, and for an expression the base-value function with its operations.
\<close>

datatype expression = Expression "string option" "string list"

datatype dice = Dice string "(string \<times> expression) list"

record effect =
  ef_index :: int
  ef_subtype :: int
  ef_radius :: int
  ef_other :: int
  ef_y :: int
  ef_x :: int
  ef_dice :: "dice option"
  ef_self_msg :: "string option"
  ef_other_msg :: "string option"

datatype att_flag = ATT_SAVE | ATT_DAMAGE | ATT_NON_PHYS | ATT_RAW

record projection =
  pj_index :: int
  pj_name :: "string option"
  pj_type :: "string option"
  pj_desc :: "string option"
  pj_blind_desc :: "string option"
  pj_lash_desc :: "string option"
  pj_numerator :: int
  pj_denominator :: random_value
  pj_divisor :: int
  pj_damage_cap :: int
  pj_msgt :: int
  pj_obvious :: bool
  pj_color :: int
  pj_flags :: "att_flag set"
  pj_threat :: "string option"
  pj_threat_flag :: int
  pj_next :: "nat option"

record object_base =
  kb_name :: "string option"
  kb_tval :: int
  kb_next :: "nat option"
  kb_attr :: int
  kb_flags :: bitflag
  kb_kind_flags :: bitflag
  kb_el_info :: "element_info list"
  kb_break_perc :: int
  kb_max_stack :: int
  kb_num_svals :: int

record slay =
  sl_code :: "string option"
  sl_name :: "string option"
  sl_base :: "string option"
  sl_melee_verb :: "string option"
  sl_range_verb :: "string option"
  sl_race_flag :: int
  sl_multiplier :: int
  sl_power :: int
  sl_esp_chance :: int
  sl_esp_flag :: int
  sl_next :: "nat option"

record brand =
  br_code :: "string option"
  br_name :: "string option"
  br_verb :: "string option"
  br_resist_flag :: int
  br_multiplier :: int
  br_power :: int
  br_active_verb :: "string option"
  br_active_verb_plural :: "string option"
  br_desc_adjective :: "string option"
  br_next :: "nat option"

text \<open>The fields of \<open>struct object\<close> that the curse callbacks reach through \<open>curse->obj\<close>.\<close>

record curse_object =
  ob_kind :: "nat option"
  ob_sval :: int
  ob_to_h :: int
  ob_to_d :: int
  ob_to_a :: int
  ob_flags :: bitflag
  ob_el_info :: "element_info list"
  ob_modifiers :: "int list"
  ob_effect :: "effect list"
  ob_time :: random_value

record curse =
  cu_name :: "string option"
  cu_poss :: "bool list"
  cu_obj :: "curse_object option"
  cu_conflict :: "string option"
  cu_conflict_flags :: bitflag
  cu_desc :: "string option"
  cu_next :: "nat option"

record activation =
  act_name :: "string option"
  act_index :: int
  act_aim :: bool
  act_power :: int
  act_effect :: "effect list"
  act_message :: "string option"
  act_desc :: "string option"
  act_next :: "nat option"

record object_kind =
  k_name :: "string option"
  k_text :: "string option"
  k_base :: "nat option"
  k_next :: "nat option"
  k_kidx :: int
  k_tval :: int
  k_sval :: int
  k_pval :: random_value
  k_to_h :: random_value
  k_to_d :: random_value
  k_to_a :: random_value
  k_ac :: int
  k_dd :: int
  k_ds :: int
  k_weight :: int
  k_cost :: int
  k_flags :: bitflag
  k_kind_flags :: bitflag
  k_modifiers :: "random_value list"
  k_el_info :: "element_info list"
  k_brands :: "bool list option"
  k_slays :: "bool list option"
  k_curses :: "int list option"
  k_d_attr :: int
  k_d_char :: char
  k_alloc_prob :: int
  k_alloc_min :: int
  k_alloc_max :: int
  k_level :: int
  k_activation :: "nat option"
  k_effect :: "effect list"
  k_time :: random_value
  k_charge :: random_value
  k_gen_mult_prob :: int
  k_stack_size :: random_value

text \<open>A \<open>poss_item\<close> list is the list of its \<open>kidx\<close> values, newest first.\<close>

record ego_item =
  e_name :: "string option"
  e_text :: "string option"
  e_eidx :: int
  e_next :: "nat option"
  e_rating :: int
  e_alloc_prob :: int
  e_alloc_min :: int
  e_alloc_max :: int
  e_poss_items :: "int list"
  e_to_h :: random_value
  e_to_d :: random_value
  e_to_a :: random_value
  e_min_to_h :: int
  e_min_to_d :: int
  e_min_to_a :: int
  e_flags :: bitflag
  e_kind_flags :: bitflag
  e_el_info :: "element_info list"
  e_modifiers :: "random_value list"
  e_min_modifiers :: "int list"
  e_brands :: "bool list option"
  e_slays :: "bool list option"
  e_curses :: "int list option"
  e_activation :: "nat option"
  e_time :: random_value

record artifact =
  a_name :: "string option"
  a_text :: "string option"
  a_aidx :: int
  a_next :: "nat option"
  a_tval :: int
  a_sval :: int
  a_to_h :: int
  a_to_d :: int
  a_to_a :: int
  a_ac :: int
  a_dd :: int
  a_ds :: int
  a_weight :: int
  a_flags :: bitflag
  a_modifiers :: "int list"
  a_el_info :: "element_info list"
  a_brands :: "bool list option"
  a_slays :: "bool list option"
  a_curses :: "int list option"
  a_level :: int
  a_alloc_prob :: int
  a_alloc_min :: int
  a_alloc_max :: int
  a_activation :: "nat option"
  a_alt_msg :: "string option"
  a_time :: random_value

datatype obj_property_type =
    OBJ_PROPERTY_NONE
  | OBJ_PROPERTY_STAT
  | OBJ_PROPERTY_MOD
  | OBJ_PROPERTY_FLAG
  | OBJ_PROPERTY_IGNORE
  | OBJ_PROPERTY_RESIST
  | OBJ_PROPERTY_VULN
  | OBJ_PROPERTY_IMM

datatype obj_flag_type =
    OFT_NONE
  | OFT_SUST
  | OFT_PROT
  | OFT_MISC
  | OFT_LIGHT
  | OFT_MELEE
  | OFT_BAD
  | OFT_DIG
  | OFT_THROW
  | OFT_OTHER
  | OFT_ESP

datatype obj_flag_id = OFID_NONE | OFID_NORMAL | OFID_TIMED | OFID_WIELD

record obj_property =
  op_name :: "string option"
  op_type :: obj_property_type
  op_subtype :: obj_flag_type
  op_id_type :: obj_flag_id
  op_index :: int
  op_power :: int
  op_mult :: int
  op_type_mult :: "int list"
  op_adjective :: "string option"
  op_neg_adj :: "string option"
  op_msg :: "string option"
  op_desc :: "string option"
  op_short_desc :: "string option"
  op_next :: "nat option"

datatype power_calc_operation =
    POWER_CALC_NONE
  | POWER_CALC_ADD
  | POWER_CALC_ADD_IF_POSITIVE
  | POWER_CALC_SQUARE_ADD_IF_POSITIVE
  | POWER_CALC_MULTIPLY
  | POWER_CALC_DIVIDE

record power_calc =
  pc_name :: "string option"
  pc_poss_items :: "int list"
  pc_dice :: "dice option"
  pc_operation :: power_calc_operation
  pc_iterate_property_type :: obj_property_type
  pc_iterate_max :: int
  pc_apply_to :: "string option"
  pc_next :: "nat option"

section \<open>What obj-init.c takes from the rest of the repository\<close>

record effect_args =
  ea_eff :: string
  ea_type :: "string option"
  ea_radius :: "int option"
  ea_other :: "int option"

text \<open>
  Tables, constants and helper functions that obj-init.c uses and that are defined in
  other files of the repository.  They are parameters of the model.  The name lists stand
  for the NULL-terminated string arrays.  The lookups into a finished table take the
  table as an argument.  A helper that reports success and writes through a pointer
  returns its outputs in an option: \<open>grab_index_and_int\<close> the value and the index,
  \<open>grab_rand_value\<close> and \<open>grab_int_value\<close> the index of the array entry they set with
  the value they store there (section 4.4 of the spec: "storing the integer at the
  resolved index"), \<open>scan_alloc_range\<close> the two numbers \<open>sscanf\<close> reads with the format
  \<open>"%d to %d"\<close> when it converts both.  \<open>dice_new\<close>, \<open>expression_new\<close> and
  \<open>mem_realloc_ok\<close> say whether the allocation succeeds.
\<close>

record env =
  list_element_names :: "string list"
  list_obj_flag_names :: "string list"
  r_info_flags :: "string list"
  kind_flags :: "string list"
  obj_mods :: "string list"
  TV_MAX :: nat
  FLAG_END :: int
  KF_INSTA_ART :: int
  TV_LIGHT :: int
  COLOUR_RED :: int
  ELEM_BASE_MIN :: nat
  ELEM_HIGH_MIN :: nat
  ELEM_XHIGH_MAX :: int
  ELEM_BASE_MAX :: int
  OF_MAX :: int
  tval_find_idx :: "string \<Rightarrow> int"
  lookup_flag :: "string list \<Rightarrow> string \<Rightarrow> int"
  message_lookup_by_name :: "string \<Rightarrow> int"
  color_text_to_attr :: "string \<Rightarrow> int"
  color_char_to_attr :: "char \<Rightarrow> int"
  lookup_monster_base :: "string \<Rightarrow> bool"
  code_index_in_array :: "string list \<Rightarrow> string \<Rightarrow> int"
  string_append :: "string option \<Rightarrow> string \<Rightarrow> string option"
  scan_alloc_range :: "string \<Rightarrow> (int \<times> int) option"
  grab_index_and_int :: "string list \<Rightarrow> string \<Rightarrow> string \<Rightarrow> (int \<times> int) option"
  grab_rand_value :: "string list \<Rightarrow> string \<Rightarrow> (nat \<times> random_value) option"
  grab_int_value :: "string list \<Rightarrow> string \<Rightarrow> (nat \<times> int) option"
  grab_effect_data :: "effect_args \<Rightarrow> effect \<Rightarrow> parser_error \<times> effect"
  dice_new :: "dice option"
  dice_parse_string :: "dice \<Rightarrow> string \<Rightarrow> dice option"
  expression_new :: "expression option"
  spell_value_base_by_name :: "string \<Rightarrow> string option"
  power_calculation_by_name :: "string \<Rightarrow> string option"
  expression_set_base_value :: "expression \<Rightarrow> string option \<Rightarrow> expression"
  expression_add_operations_string :: "expression \<Rightarrow> string \<Rightarrow> int \<times> expression"
  dice_bind_expression :: "dice \<Rightarrow> string \<Rightarrow> expression \<Rightarrow> int \<times> dice"
  lookup_sval :: "object_kind list \<Rightarrow> int \<Rightarrow> string \<Rightarrow> int"
  lookup_sval_silent :: "object_kind list \<Rightarrow> int \<Rightarrow> string \<Rightarrow> int"
  lookup_kind :: "object_kind list \<Rightarrow> int \<Rightarrow> int \<Rightarrow> nat option"
  lookup_curse :: "curse list \<Rightarrow> string \<Rightarrow> int"
  mem_realloc_ok :: bool

text \<open>
  \<open>ELEM_MAX\<close> and \<open>list_element_names\<close> are generated from the same element list, so
  \<open>ELEM_MAX\<close> is the length of the name list.
\<close>

definition ELEM_MAX :: "env \<Rightarrow> int" where
  "ELEM_MAX env = int (length (list_element_names env))"

text \<open>Likewise \<open>OBJ_MOD_MAX\<close> counts the entries of \<open>obj_mods\<close>.\<close>

definition OBJ_MOD_MAX :: "env \<Rightarrow> int" where
  "OBJ_MOD_MAX env = int (length (obj_mods env))"

text \<open>
  The global tables the parsers of object kinds, ego items, artifacts and power
  calculations read and write.  \<open>z_info->slay_max\<close>, \<open>brand_max\<close>, \<open>curse_max\<close> and
  \<open>act_max\<close> are the lengths of their tables; \<open>z_info->k_max\<close> is kept apart, since
  \<open>write_dummy_object_record\<close> increments it before it knows that \<open>k_info\<close> has grown.
\<close>

record globals =
  g_kb_info :: "object_base list"
  g_k_info :: "object_kind list"
  g_k_max :: int
  g_slays :: "slay list"
  g_brands :: "brand list"
  g_curses :: "curse list"
  g_activations :: "activation list"

section \<open>Zeroed records\<close>

text \<open>What \<open>mem_zalloc\<close> returns for each struct; arrays inside a struct have their size.\<close>

definition element_info_zero :: element_info where
  "element_info_zero = \<lparr>res_level = 0, el_flags = {}\<rparr>"

definition el_info_zero :: "env \<Rightarrow> element_info list" where
  "el_info_zero env = replicate (length (list_element_names env)) element_info_zero"

definition effect_zero :: effect where
  "effect_zero =
     \<lparr>ef_index = 0, ef_subtype = 0, ef_radius = 0, ef_other = 0, ef_y = 0, ef_x = 0,
      ef_dice = None, ef_self_msg = None, ef_other_msg = None\<rparr>"

definition projection_zero :: projection where
  "projection_zero =
     \<lparr>pj_index = 0, pj_name = None, pj_type = None, pj_desc = None, pj_blind_desc = None,
      pj_lash_desc = None, pj_numerator = 0, pj_denominator = random_value_zero,
      pj_divisor = 0, pj_damage_cap = 0, pj_msgt = 0, pj_obvious = False, pj_color = 0,
      pj_flags = {}, pj_threat = None, pj_threat_flag = 0, pj_next = None\<rparr>"

definition object_base_zero :: "env \<Rightarrow> object_base" where
  "object_base_zero env =
     \<lparr>kb_name = None, kb_tval = 0, kb_next = None, kb_attr = 0, kb_flags = {},
      kb_kind_flags = {}, kb_el_info = el_info_zero env,
      kb_break_perc = 0, kb_max_stack = 0, kb_num_svals = 0\<rparr>"

definition slay_zero :: slay where
  "slay_zero =
     \<lparr>sl_code = None, sl_name = None, sl_base = None, sl_melee_verb = None,
      sl_range_verb = None, sl_race_flag = 0, sl_multiplier = 0, sl_power = 0,
      sl_esp_chance = 0, sl_esp_flag = 0, sl_next = None\<rparr>"

definition brand_zero :: brand where
  "brand_zero =
     \<lparr>br_code = None, br_name = None, br_verb = None, br_resist_flag = 0,
      br_multiplier = 0, br_power = 0, br_active_verb = None, br_active_verb_plural = None,
      br_desc_adjective = None, br_next = None\<rparr>"

definition object_new :: "env \<Rightarrow> curse_object" where
  "object_new env =
     \<lparr>ob_kind = None, ob_sval = 0, ob_to_h = 0, ob_to_d = 0, ob_to_a = 0, ob_flags = {},
      ob_el_info = el_info_zero env,
      ob_modifiers = replicate (length (obj_mods env)) 0,
      ob_effect = [], ob_time = random_value_zero\<rparr>"

definition curse_zero :: curse where
  "curse_zero =
     \<lparr>cu_name = None, cu_poss = [], cu_obj = None, cu_conflict = None,
      cu_conflict_flags = {}, cu_desc = None, cu_next = None\<rparr>"

definition activation_zero :: activation where
  "activation_zero =
     \<lparr>act_name = None, act_index = 0, act_aim = False, act_power = 0, act_effect = [],
      act_message = None, act_desc = None, act_next = None\<rparr>"

definition object_kind_zero :: "env \<Rightarrow> object_kind" where
  "object_kind_zero env =
     \<lparr>k_name = None, k_text = None, k_base = None, k_next = None, k_kidx = 0, k_tval = 0,
      k_sval = 0, k_pval = random_value_zero, k_to_h = random_value_zero,
      k_to_d = random_value_zero, k_to_a = random_value_zero, k_ac = 0, k_dd = 0, k_ds = 0,
      k_weight = 0, k_cost = 0, k_flags = {}, k_kind_flags = {},
      k_modifiers = replicate (length (obj_mods env)) random_value_zero,
      k_el_info = el_info_zero env,
      k_brands = None, k_slays = None, k_curses = None, k_d_attr = 0, k_d_char = CHR 0x00,
      k_alloc_prob = 0, k_alloc_min = 0, k_alloc_max = 0, k_level = 0, k_activation = None,
      k_effect = [], k_time = random_value_zero, k_charge = random_value_zero,
      k_gen_mult_prob = 0, k_stack_size = random_value_zero\<rparr>"

definition ego_item_zero :: "env \<Rightarrow> ego_item" where
  "ego_item_zero env =
     \<lparr>e_name = None, e_text = None, e_eidx = 0, e_next = None, e_rating = 0,
      e_alloc_prob = 0, e_alloc_min = 0, e_alloc_max = 0, e_poss_items = [],
      e_to_h = random_value_zero, e_to_d = random_value_zero, e_to_a = random_value_zero,
      e_min_to_h = 0, e_min_to_d = 0, e_min_to_a = 0, e_flags = {}, e_kind_flags = {},
      e_el_info = el_info_zero env,
      e_modifiers = replicate (length (obj_mods env)) random_value_zero,
      e_min_modifiers = replicate (length (obj_mods env)) 0,
      e_brands = None, e_slays = None, e_curses = None, e_activation = None,
      e_time = random_value_zero\<rparr>"

definition artifact_zero :: "env \<Rightarrow> artifact" where
  "artifact_zero env =
     \<lparr>a_name = None, a_text = None, a_aidx = 0, a_next = None, a_tval = 0, a_sval = 0,
      a_to_h = 0, a_to_d = 0, a_to_a = 0, a_ac = 0, a_dd = 0, a_ds = 0, a_weight = 0,
      a_flags = {}, a_modifiers = replicate (length (obj_mods env)) 0,
      a_el_info = el_info_zero env,
      a_brands = None, a_slays = None, a_curses = None, a_level = 0, a_alloc_prob = 0,
      a_alloc_min = 0, a_alloc_max = 0, a_activation = None, a_alt_msg = None,
      a_time = random_value_zero\<rparr>"


definition power_calc_zero :: power_calc where
  "power_calc_zero =
     \<lparr>pc_name = None, pc_poss_items = [], pc_dice = None, pc_operation = POWER_CALC_NONE,
      pc_iterate_property_type = OBJ_PROPERTY_NONE, pc_iterate_max = 0, pc_apply_to = None,
      pc_next = None\<rparr>"

section \<open>Helpers shared by the callbacks\<close>

text \<open>
  \<open>kf_on\<close>, \<open>kf_union\<close> and \<open>kf_has\<close> (macros over the bit-flag functions, defined
  outside src) switch a bit on, or in a second array, and test a bit.
\<close>

definition kf_on :: "bitflag \<Rightarrow> int \<Rightarrow> bitflag" where
  "kf_on flags flag = insert flag flags"

definition kf_union :: "bitflag \<Rightarrow> bitflag \<Rightarrow> bitflag" where
  "kf_union flags1 flags2 = flags1 \<union> flags2"

definition kf_has :: "bitflag \<Rightarrow> int \<Rightarrow> bool" where
  "kf_has flags flag = (flag \<in> flags)"

text \<open>
  Modelled from the spec: \<open>grab_flag\<close> is defined outside src.  Section 4.4 (a): a plain
  flag name is matched against a named flag table, and a match sets the bit in the flag
  set; the callbacks of obj-init.c that look a flag up themselves call \<open>lookup_flag\<close> and
  compare with \<open>FLAG_END\<close>.  The result is 0 (\<open>PARSE_ERROR_NONE\<close>) on a match.
\<close>

definition grab_flag :: "env \<Rightarrow> bitflag \<Rightarrow> string list \<Rightarrow> string \<Rightarrow> parser_error \<times> bitflag" where
  "grab_flag env flags flag_table flag_name =
     (let flag = lookup_flag env flag_table flag_name
      in if flag = FLAG_END env then (PARSE_ERROR_INVALID_FLAG, flags)
         else (PARSE_ERROR_NONE, insert flag flags))"

text \<open>
  The colour idiom that four callbacks spell out: a name of more than one character is
  looked up as text, otherwise its first character (the terminating NUL of an empty
  string) is looked up.
\<close>

definition color_to_attr :: "env \<Rightarrow> string \<Rightarrow> int" where
  "color_to_attr env color =
     (if length color > 1 then color_text_to_attr env color
      else color_char_to_attr env (case color of [] \<Rightarrow> CHR 0x00 | c # _ \<Rightarrow> c))"

text \<open>
  \<open>strtok(s, " |")\<close> called until it returns NULL yields the maximal runs of characters
  of \<open>s\<close> that are neither a blank nor a bar, in order.
\<close>

fun split_tokens :: "(char \<Rightarrow> bool) \<Rightarrow> string \<Rightarrow> string \<Rightarrow> string list" where
  "split_tokens d acc [] = (if acc = [] then [] else [acc])"
| "split_tokens d acc (c # cs) =
     (if d c then (if acc = [] then split_tokens d [] cs else acc # split_tokens d [] cs)
      else split_tokens d (acc @ [c]) cs)"

definition strtok_list :: "string \<Rightarrow> string list" where
  "strtok_list s = split_tokens (\<lambda>c. c = CHR '' '' \<or> c = CHR ''|'') [] s"

text \<open>
  The token loop of the flags and values callbacks:
  \<^verbatim>\<open>t = strtok(s, " |"); while (t) { bool found = false; ...; if (!found) break;
  t = strtok(NULL, " |"); }\<close>.  The statements that set \<open>found\<close> are the parameter
  \<open>body\<close>; the loop returns the tokens from \<open>t\<close> on (none when \<open>t\<close> is null) with the
  record as the bodies left it.
\<close>

fun scan_tokens :: "(string \<Rightarrow> 'r \<Rightarrow> fault + bool \<times> 'r) \<Rightarrow> string list \<Rightarrow> 'r \<Rightarrow> fault + string list \<times> 'r" where
  "scan_tokens body [] r = Inr ([], r)"
| "scan_tokens body (t # ts) r =
     (case body t r of
        Inl f \<Rightarrow> Inl f
      | Inr (found, r') \<Rightarrow> if found then scan_tokens body ts r' else Inr (t # ts, r'))"

text \<open>A write \<open>a[i] = v\<close> into an array of the given contents; none when \<open>i\<close> is outside.\<close>

definition store :: "'a list \<Rightarrow> int \<Rightarrow> 'a \<Rightarrow> 'a list option" where
  "store a i v = (if 0 \<le> i \<and> i < int (length a) then Some (a[nat i := v]) else None)"

text \<open>
  \<open>sscanf(flag_name, "%[^_]_%s", prefix, suffix)\<close> with \<open>char prefix[20], suffix[20]\<close>:
  the number of conversions, with the two strings.  \<open>%[^_]\<close> takes the longest run of
  characters other than the underscore and fails on an empty run; the underscore must
  follow; \<open>%s\<close> skips white space and takes the longest run of other characters.  A run
  of 20 characters or more does not fit its buffer with the terminating NUL.
\<close>

definition isspace :: "char \<Rightarrow> bool" where
  "isspace c = (c \<in> set [CHR '' '', CHR 0x09, CHR 0x0A, CHR 0x0B, CHR 0x0C, CHR 0x0D])"

definition sscanf_prefix_suffix :: "string \<Rightarrow> fault + nat \<times> string \<times> string" where
  "sscanf_prefix_suffix flag_name =
     (let prefix = takeWhile (\<lambda>c. c \<noteq> CHR ''_'') flag_name;
          after = dropWhile (\<lambda>c. c \<noteq> CHR ''_'') flag_name
      in if prefix = [] then Inr (0, [], [])
         else if length prefix \<ge> 20 then Inl Buffer_Overflow
         else (case after of
                 [] \<Rightarrow> Inr (1, prefix, [])
               | u # tail \<Rightarrow>
                   (let suffix = takeWhile (\<lambda>c. \<not> isspace c) (dropWhile isspace tail)
                    in if suffix = [] then Inr (1, prefix, [])
                       else if length suffix \<ge> 20 then Inl Buffer_Overflow
                       else Inr (2, prefix, suffix))))"

text \<open>
  \<open>grab_element_flag\<close>: the loop over the elements returns at the first element whose
  name is the suffix and whose prefix is IGNORE or HATES.
\<close>

fun grab_element_loop :: "string \<Rightarrow> string \<Rightarrow> string list \<Rightarrow> nat \<Rightarrow> element_info list \<Rightarrow> bool \<times> element_info list" where
  "grab_element_loop prefix suffix [] i info = (False, info)"
| "grab_element_loop prefix suffix (name # names) i info =
     (if suffix = name \<and> prefix = ''IGNORE'' then
        (True, info[i := (info ! i)\<lparr>el_flags := insert EL_INFO_IGNORE (el_flags (info ! i))\<rparr>])
      else if suffix = name \<and> prefix = ''HATES'' then
        (True, info[i := (info ! i)\<lparr>el_flags := insert EL_INFO_HATES (el_flags (info ! i))\<rparr>])
      else grab_element_loop prefix suffix names (Suc i) info)"

definition grab_element_flag :: "env \<Rightarrow> element_info list \<Rightarrow> string \<Rightarrow> fault + bool \<times> element_info list" where
  "grab_element_flag env info flag_name =
     (case sscanf_prefix_suffix flag_name of
        Inl f \<Rightarrow> Inl f
      | Inr (n, prefix, suffix) \<Rightarrow>
          if n \<noteq> 2 then Inr (False, info)
          else Inr (grab_element_loop prefix suffix (list_element_names env) 0 info))"

text \<open>
  Modelled from the spec: the dispatcher and \<open>parse_file_quit_not_found\<close> are in the
  parser code outside src.  A file reaches the callbacks as the sequence of its directive
  lines, each with its arguments already coerced; "any non-none code aborts processing of
  the current file immediately" (section 7).
\<close>

fun run_lines :: "('l \<Rightarrow> 's \<Rightarrow> 's outcome) \<Rightarrow> 'l list \<Rightarrow> 's \<Rightarrow> 's outcome" where
  "run_lines cb [] s = Returns PARSE_ERROR_NONE s"
| "run_lines cb (l # ls) s =
     (case cb l s of
        Returns e s' \<Rightarrow> if e = PARSE_ERROR_NONE then run_lines cb ls s' else Returns e s'
      | Fault f \<Rightarrow> Fault f)"

text \<open>
  The finish functions of projections, slays, brands, curses, activations, object kinds,
  ego items, artifacts, object properties and power calculations are the same two loops
  up to the record type: count the nodes of the list hanging from \<open>parser_priv\<close>, allocate
  that many zeroed rows (the artifacts \<open>extra = 9\<close> more), then walk the list from its
  head (the record parsed last) with \<open>count\<close> running down from \<open>max - 1\<close>, copying
  each node to row \<open>count\<close>.  What a finish function assigns to the row after the
  \<open>memcpy\<close> (the index field, the \<open>next\<close> link) is the parameter \<open>fixup\<close>.
\<close>

fun count_entries :: "'a list \<Rightarrow> nat" where
  "count_entries [] = 0"
| "count_entries (r # rs) = Suc (count_entries rs)"

fun copy_entries :: "(int \<Rightarrow> 'a \<Rightarrow> 'a) \<Rightarrow> 'a list \<Rightarrow> int \<Rightarrow> 'a list \<Rightarrow> 'a list" where
  "copy_entries fixup [] count tab = tab"
| "copy_entries fixup (r # rs) count tab =
     copy_entries fixup rs (count - 1) (tab[nat count := fixup count r])"

definition finish_table :: "(nat \<Rightarrow> int \<Rightarrow> 'a \<Rightarrow> 'a) \<Rightarrow> 'a \<Rightarrow> nat \<Rightarrow> 'a list \<Rightarrow> nat \<times> 'a list" where
  "finish_table fixup zero extra priv =
     (let max = count_entries priv;
          tab = replicate (max + extra) zero
      in (max, copy_entries (fixup max) priv (int max - 1) tab))"

section \<open>Projections\<close>

text \<open>
  The state of the projection parser is the list hanging from \<open>parser_priv\<close>; the empty
  list is the null pointer.  \<open>parse_projection_code\<close> links the new record in before it
  compares the code with the element name.
\<close>

definition parse_projection_code :: "env \<Rightarrow> string \<Rightarrow> projection list \<Rightarrow> projection list outcome" where
  "parse_projection_code env code priv =
     (let index = (case priv of [] \<Rightarrow> 0 | h # _ \<Rightarrow> pj_index h + 1);
          projection = projection_zero\<lparr>pj_index := index\<rparr>;
          priv' = projection # priv
      in if index < ELEM_MAX env \<and> code \<noteq> list_element_names env ! nat index
         then Returns PARSE_ERROR_ELEMENT_NAME_MISMATCH priv'
         else Returns PARSE_ERROR_NONE priv')"

definition parse_projection_name :: "string \<Rightarrow> projection list \<Rightarrow> projection list outcome" where
  "parse_projection_name name priv =
     (case priv of
        [] \<Rightarrow> Returns PARSE_ERROR_MISSING_RECORD_HEADER priv
      | projection # rest \<Rightarrow> Returns PARSE_ERROR_NONE (projection\<lparr>pj_name := Some name\<rparr> # rest))"

definition parse_projection_type :: "string \<Rightarrow> projection list \<Rightarrow> projection list outcome" where
  "parse_projection_type ty priv =
     (case priv of
        [] \<Rightarrow> Returns PARSE_ERROR_MISSING_RECORD_HEADER priv
      | projection # rest \<Rightarrow> Returns PARSE_ERROR_NONE (projection\<lparr>pj_type := Some ty\<rparr> # rest))"

definition parse_projection_desc :: "string \<Rightarrow> projection list \<Rightarrow> projection list outcome" where
  "parse_projection_desc desc priv =
     (case priv of
        [] \<Rightarrow> Returns PARSE_ERROR_MISSING_RECORD_HEADER priv
      | projection # rest \<Rightarrow> Returns PARSE_ERROR_NONE (projection\<lparr>pj_desc := Some desc\<rparr> # rest))"

definition parse_projection_blind_desc :: "string \<Rightarrow> projection list \<Rightarrow> projection list outcome" where
  "parse_projection_blind_desc desc priv =
     (case priv of
        [] \<Rightarrow> Returns PARSE_ERROR_MISSING_RECORD_HEADER priv
      | projection # rest \<Rightarrow>
          Returns PARSE_ERROR_NONE (projection\<lparr>pj_blind_desc := Some desc\<rparr> # rest))"

definition parse_projection_lash_desc :: "string \<Rightarrow> projection list \<Rightarrow> projection list outcome" where
  "parse_projection_lash_desc desc priv =
     (case priv of
        [] \<Rightarrow> Returns PARSE_ERROR_MISSING_RECORD_HEADER priv
      | projection # rest \<Rightarrow>
          Returns PARSE_ERROR_NONE (projection\<lparr>pj_lash_desc := Some desc\<rparr> # rest))"

text \<open>
  \<open>parser_getuint\<close> returns an \<open>unsigned int\<close>; the fields it is stored in are \<open>int\<close>,
  so the stored value is the same 32 bits read as a signed number.
\<close>

definition parse_projection_numerator :: "32 word \<Rightarrow> projection list \<Rightarrow> projection list outcome" where
  "parse_projection_numerator num priv =
     (case priv of
        [] \<Rightarrow> Returns PARSE_ERROR_MISSING_RECORD_HEADER priv
      | projection # rest \<Rightarrow>
          Returns PARSE_ERROR_NONE (projection\<lparr>pj_numerator := sint num\<rparr> # rest))"

definition parse_projection_denominator :: "random_value \<Rightarrow> projection list \<Rightarrow> projection list outcome" where
  "parse_projection_denominator denom priv =
     (case priv of
        [] \<Rightarrow> Returns PARSE_ERROR_MISSING_RECORD_HEADER priv
      | projection # rest \<Rightarrow>
          Returns PARSE_ERROR_NONE (projection\<lparr>pj_denominator := denom\<rparr> # rest))"

definition parse_projection_divisor :: "32 word \<Rightarrow> projection list \<Rightarrow> projection list outcome" where
  "parse_projection_divisor d priv =
     (case priv of
        [] \<Rightarrow> Returns PARSE_ERROR_MISSING_RECORD_HEADER priv
      | projection # rest \<Rightarrow>
          Returns PARSE_ERROR_NONE (projection\<lparr>pj_divisor := sint d\<rparr> # rest))"

definition parse_projection_damage_cap :: "32 word \<Rightarrow> projection list \<Rightarrow> projection list outcome" where
  "parse_projection_damage_cap cap priv =
     (case priv of
        [] \<Rightarrow> Returns PARSE_ERROR_MISSING_RECORD_HEADER priv
      | projection # rest \<Rightarrow>
          Returns PARSE_ERROR_NONE (projection\<lparr>pj_damage_cap := sint cap\<rparr> # rest))"

definition parse_projection_message_type :: "env \<Rightarrow> string \<Rightarrow> projection list \<Rightarrow> projection list outcome" where
  "parse_projection_message_type env ty priv =
     (case priv of
        [] \<Rightarrow> Fault Assertion_Failed
      | projection # rest \<Rightarrow>
          (let msg_index = message_lookup_by_name env ty
           in if msg_index < 0 then Returns PARSE_ERROR_INVALID_MESSAGE priv
              else Returns PARSE_ERROR_NONE (projection\<lparr>pj_msgt := msg_index\<rparr> # rest)))"

definition parse_projection_obvious :: "32 word \<Rightarrow> projection list \<Rightarrow> projection list outcome" where
  "parse_projection_obvious answer priv =
     (let obvious = sint answer
      in case priv of
           [] \<Rightarrow> Returns PARSE_ERROR_MISSING_RECORD_HEADER priv
         | projection # rest \<Rightarrow>
             Returns PARSE_ERROR_NONE (projection\<lparr>pj_obvious := (obvious = 1)\<rparr> # rest))"

definition parse_projection_color :: "env \<Rightarrow> string \<Rightarrow> projection list \<Rightarrow> projection list outcome" where
  "parse_projection_color env color priv =
     (case priv of
        [] \<Rightarrow> Fault Assertion_Failed
      | projection # rest \<Rightarrow>
          (let attr = color_to_attr env color
           in if attr < 0 then Returns PARSE_ERROR_INVALID_COLOR priv
              else Returns PARSE_ERROR_NONE (projection\<lparr>pj_color := attr\<rparr> # rest)))"

fun projection_pvp_tokens :: "string list \<Rightarrow> projection \<Rightarrow> parser_error \<times> projection" where
  "projection_pvp_tokens [] projection = (PARSE_ERROR_NONE, projection)"
| "projection_pvp_tokens (s # ss) projection =
     (if s = ''SAVE'' then
        projection_pvp_tokens ss (projection\<lparr>pj_flags := insert ATT_SAVE (pj_flags projection)\<rparr>)
      else if s = ''DAMAGE'' then
        projection_pvp_tokens ss (projection\<lparr>pj_flags := insert ATT_DAMAGE (pj_flags projection)\<rparr>)
      else if s = ''NON_PHYS'' then
        projection_pvp_tokens ss (projection\<lparr>pj_flags := insert ATT_NON_PHYS (pj_flags projection)\<rparr>)
      else if s = ''RAW'' then
        projection_pvp_tokens ss (projection\<lparr>pj_flags := insert ATT_RAW (pj_flags projection)\<rparr>)
      else (PARSE_ERROR_INVALID_FLAG, projection))"

definition parse_projection_pvp_flags :: "string option \<Rightarrow> projection list \<Rightarrow> projection list outcome" where
  "parse_projection_pvp_flags flags priv =
     (case priv of
        [] \<Rightarrow> Returns PARSE_ERROR_MISSING_RECORD_HEADER priv
      | projection # rest \<Rightarrow>
          (case flags of
             None \<Rightarrow> Returns PARSE_ERROR_NONE priv
           | Some fl \<Rightarrow>
               (case projection_pvp_tokens (strtok_list fl) projection of
                  (e, projection') \<Rightarrow> Returns e (projection' # rest))))"

definition parse_projection_threat :: "string \<Rightarrow> projection list \<Rightarrow> projection list outcome" where
  "parse_projection_threat threat priv =
     (case priv of
        [] \<Rightarrow> Returns PARSE_ERROR_MISSING_RECORD_HEADER priv
      | projection # rest \<Rightarrow>
          Returns PARSE_ERROR_NONE (projection\<lparr>pj_threat := Some threat\<rparr> # rest))"

definition parse_projection_threat_flag :: "env \<Rightarrow> string \<Rightarrow> projection list \<Rightarrow> projection list outcome" where
  "parse_projection_threat_flag env fl priv =
     (case priv of
        [] \<Rightarrow> Returns PARSE_ERROR_MISSING_RECORD_HEADER priv
      | projection # rest \<Rightarrow>
          (let flag = lookup_flag env (r_info_flags env) fl
           in if flag = FLAG_END env then Returns PARSE_ERROR_INVALID_FLAG priv
              else Returns PARSE_ERROR_NONE (projection\<lparr>pj_threat_flag := flag\<rparr> # rest)))"

text \<open>The directives \<open>init_parse_projection\<close> registers, with their coerced arguments.\<close>

datatype projection_line =
    PL_code string
  | PL_name string
  | PL_type string
  | PL_desc string
  | PL_blind_desc string
  | PL_lash_desc string
  | PL_numerator "32 word"
  | PL_denominator random_value
  | PL_divisor "32 word"
  | PL_damage_cap "32 word"
  | PL_msgt string
  | PL_obvious "32 word"
  | PL_color string
  | PL_pvp_flags "string option"
  | PL_threat string
  | PL_threat_flag string

fun init_parse_projection :: "env \<Rightarrow> projection_line \<Rightarrow> projection list \<Rightarrow> projection list outcome" where
  "init_parse_projection env (PL_code s) = parse_projection_code env s"
| "init_parse_projection env (PL_name s) = parse_projection_name s"
| "init_parse_projection env (PL_type s) = parse_projection_type s"
| "init_parse_projection env (PL_desc s) = parse_projection_desc s"
| "init_parse_projection env (PL_blind_desc s) = parse_projection_blind_desc s"
| "init_parse_projection env (PL_lash_desc s) = parse_projection_lash_desc s"
| "init_parse_projection env (PL_numerator n) = parse_projection_numerator n"
| "init_parse_projection env (PL_denominator r) = parse_projection_denominator r"
| "init_parse_projection env (PL_divisor n) = parse_projection_divisor n"
| "init_parse_projection env (PL_damage_cap n) = parse_projection_damage_cap n"
| "init_parse_projection env (PL_msgt s) = parse_projection_message_type env s"
| "init_parse_projection env (PL_obvious n) = parse_projection_obvious n"
| "init_parse_projection env (PL_color s) = parse_projection_color env s"
| "init_parse_projection env (PL_pvp_flags s) = parse_projection_pvp_flags s"
| "init_parse_projection env (PL_threat s) = parse_projection_threat s"
| "init_parse_projection env (PL_threat_flag s) = parse_projection_threat_flag env s"

definition run_parse_projection :: "env \<Rightarrow> projection_line list \<Rightarrow> projection list outcome" where
  "run_parse_projection env file = run_lines (init_parse_projection env) file []"

definition finish_parse_projection :: "projection list \<Rightarrow> nat \<times> projection list" where
  "finish_parse_projection priv =
     finish_table (\<lambda>max count projection. projection\<lparr>pj_next := None\<rparr>) projection_zero 0 priv"

section \<open>Object bases\<close>

text \<open>
  The private data of the object-base parser is never null: the defaults and the list
  of the bases parsed so far, newest first.  The callbacks that work on the newest base
  assert that there is one.
\<close>

record kb_parsedata =
  d_defaults :: object_base
  d_kb :: "object_base list"


definition parse_object_base_defaults :: "string \<Rightarrow> int \<Rightarrow> kb_parsedata \<Rightarrow> kb_parsedata outcome" where
  "parse_object_base_defaults label v d =
     (if label = ''break-chance'' then
        Returns PARSE_ERROR_NONE (d\<lparr>d_defaults := (d_defaults d)\<lparr>kb_break_perc := v\<rparr>\<rparr>)
      else if label = ''max-stack'' then
        Returns PARSE_ERROR_NONE (d\<lparr>d_defaults := (d_defaults d)\<lparr>kb_max_stack := v\<rparr>\<rparr>)
      else Returns PARSE_ERROR_UNDEFINED_DIRECTIVE d)"


definition parse_object_base_graphics :: "env \<Rightarrow> string \<Rightarrow> kb_parsedata \<Rightarrow> kb_parsedata outcome" where
  "parse_object_base_graphics env color d =
     (case d_kb d of
        [] \<Rightarrow> Fault Assertion_Failed
      | kb # rest \<Rightarrow>
          Returns PARSE_ERROR_NONE (d\<lparr>d_kb := kb\<lparr>kb_attr := color_to_attr env color\<rparr> # rest\<rparr>))"

definition parse_object_base_break :: "int \<Rightarrow> kb_parsedata \<Rightarrow> kb_parsedata outcome" where
  "parse_object_base_break breakage d =
     (case d_kb d of
        [] \<Rightarrow> Fault Assertion_Failed
      | kb # rest \<Rightarrow> Returns PARSE_ERROR_NONE (d\<lparr>d_kb := kb\<lparr>kb_break_perc := breakage\<rparr> # rest\<rparr>))"

definition parse_object_base_max_stack :: "int \<Rightarrow> kb_parsedata \<Rightarrow> kb_parsedata outcome" where
  "parse_object_base_max_stack sz d =
     (case d_kb d of
        [] \<Rightarrow> Fault Assertion_Failed
      | kb # rest \<Rightarrow> Returns PARSE_ERROR_NONE (d\<lparr>d_kb := kb\<lparr>kb_max_stack := sz\<rparr> # rest\<rparr>))"

definition object_base_flags_body :: "env \<Rightarrow> string \<Rightarrow> object_base \<Rightarrow> fault + bool \<times> object_base" where
  "object_base_flags_body env t kb =
     (case grab_flag env (kb_flags kb) (list_obj_flag_names env) t of (e1, fl) \<Rightarrow>
      case grab_flag env (kb_kind_flags kb) (kind_flags env) t of (e2, kfl) \<Rightarrow>
      case grab_element_flag env (kb_el_info kb) t of
        Inl f \<Rightarrow> Inl f
      | Inr (b3, el) \<Rightarrow>
          Inr (e1 = PARSE_ERROR_NONE \<or> e2 = PARSE_ERROR_NONE \<or> b3,
               kb\<lparr>kb_flags := fl, kb_kind_flags := kfl, kb_el_info := el\<rparr>))"

definition parse_object_base_flags :: "env \<Rightarrow> string \<Rightarrow> kb_parsedata \<Rightarrow> kb_parsedata outcome" where
  "parse_object_base_flags env flags d =
     (case d_kb d of
        [] \<Rightarrow> Fault Assertion_Failed
      | kb # rest \<Rightarrow>
          (case scan_tokens (object_base_flags_body env) (strtok_list flags) kb of
             Inl f \<Rightarrow> Fault f
           | Inr (t, kb') \<Rightarrow>
               Returns (if t \<noteq> [] then PARSE_ERROR_INVALID_FLAG else PARSE_ERROR_NONE)
                 (d\<lparr>d_kb := kb' # rest\<rparr>)))"






section \<open>Slays\<close>


definition parse_slay_name :: "string \<Rightarrow> slay list \<Rightarrow> slay list outcome" where
  "parse_slay_name name priv =
     (case priv of
        [] \<Rightarrow> Returns PARSE_ERROR_MISSING_RECORD_HEADER priv
      | slay # rest \<Rightarrow> Returns PARSE_ERROR_NONE (slay\<lparr>sl_name := Some name\<rparr> # rest))"

definition parse_slay_race_flag :: "env \<Rightarrow> string \<Rightarrow> slay list \<Rightarrow> slay list outcome" where
  "parse_slay_race_flag env fl priv =
     (case priv of
        [] \<Rightarrow> Returns PARSE_ERROR_MISSING_RECORD_HEADER priv
      | slay # rest \<Rightarrow>
          (let flag = lookup_flag env (r_info_flags env) fl
           in if flag = FLAG_END env then Returns PARSE_ERROR_INVALID_FLAG priv
              else if flag \<noteq> 0 \<and> sl_base slay \<noteq> None
                then Returns PARSE_ERROR_INVALID_SLAY (slay\<lparr>sl_race_flag := flag\<rparr> # rest)
              else Returns PARSE_ERROR_NONE (slay\<lparr>sl_race_flag := flag\<rparr> # rest)))"

definition parse_slay_base :: "env \<Rightarrow> string \<Rightarrow> slay list \<Rightarrow> slay list outcome" where
  "parse_slay_base env base_name priv =
     (case priv of
        [] \<Rightarrow> Returns PARSE_ERROR_MISSING_RECORD_HEADER priv
      | slay # rest \<Rightarrow>
          (let priv' = slay\<lparr>sl_base := Some base_name\<rparr> # rest
           in if \<not> lookup_monster_base env base_name
                then Returns PARSE_ERROR_INVALID_MONSTER_BASE priv'
              else if sl_race_flag slay \<noteq> 0 then Returns PARSE_ERROR_INVALID_SLAY priv'
              else Returns PARSE_ERROR_NONE priv'))"

definition parse_slay_multiplier :: "32 word \<Rightarrow> slay list \<Rightarrow> slay list outcome" where
  "parse_slay_multiplier multiplier priv =
     (case priv of
        [] \<Rightarrow> Returns PARSE_ERROR_MISSING_RECORD_HEADER priv
      | slay # rest \<Rightarrow> Returns PARSE_ERROR_NONE (slay\<lparr>sl_multiplier := sint multiplier\<rparr> # rest))"

definition parse_slay_power :: "32 word \<Rightarrow> slay list \<Rightarrow> slay list outcome" where
  "parse_slay_power pw priv =
     (case priv of
        [] \<Rightarrow> Returns PARSE_ERROR_MISSING_RECORD_HEADER priv
      | slay # rest \<Rightarrow> Returns PARSE_ERROR_NONE (slay\<lparr>sl_power := sint pw\<rparr> # rest))"

definition parse_slay_melee_verb :: "string \<Rightarrow> slay list \<Rightarrow> slay list outcome" where
  "parse_slay_melee_verb verb priv =
     (case priv of
        [] \<Rightarrow> Returns PARSE_ERROR_MISSING_RECORD_HEADER priv
      | slay # rest \<Rightarrow> Returns PARSE_ERROR_NONE (slay\<lparr>sl_melee_verb := Some verb\<rparr> # rest))"

definition parse_slay_range_verb :: "string \<Rightarrow> slay list \<Rightarrow> slay list outcome" where
  "parse_slay_range_verb verb priv =
     (case priv of
        [] \<Rightarrow> Returns PARSE_ERROR_MISSING_RECORD_HEADER priv
      | slay # rest \<Rightarrow> Returns PARSE_ERROR_NONE (slay\<lparr>sl_range_verb := Some verb\<rparr> # rest))"

definition parse_slay_esp_chance :: "32 word \<Rightarrow> slay list \<Rightarrow> slay list outcome" where
  "parse_slay_esp_chance chance priv =
     (case priv of
        [] \<Rightarrow> Returns PARSE_ERROR_MISSING_RECORD_HEADER priv
      | slay # rest \<Rightarrow> Returns PARSE_ERROR_NONE (slay\<lparr>sl_esp_chance := sint chance\<rparr> # rest))"

definition parse_slay_esp_flag :: "env \<Rightarrow> string \<Rightarrow> slay list \<Rightarrow> slay list outcome" where
  "parse_slay_esp_flag env fl priv =
     (case priv of
        [] \<Rightarrow> Returns PARSE_ERROR_MISSING_RECORD_HEADER priv
      | slay # rest \<Rightarrow>
          (let flag = lookup_flag env (list_obj_flag_names env) fl
           in if flag = FLAG_END env then Returns PARSE_ERROR_INVALID_FLAG priv
              else Returns PARSE_ERROR_NONE (slay\<lparr>sl_esp_flag := flag\<rparr> # rest)))"




section \<open>Brands\<close>


definition parse_brand_name :: "string \<Rightarrow> brand list \<Rightarrow> brand list outcome" where
  "parse_brand_name name priv =
     (case priv of
        [] \<Rightarrow> Returns PARSE_ERROR_MISSING_RECORD_HEADER priv
      | brand # rest \<Rightarrow> Returns PARSE_ERROR_NONE (brand\<lparr>br_name := Some name\<rparr> # rest))"

definition parse_brand_verb :: "string \<Rightarrow> brand list \<Rightarrow> brand list outcome" where
  "parse_brand_verb verb priv =
     (case priv of
        [] \<Rightarrow> Returns PARSE_ERROR_MISSING_RECORD_HEADER priv
      | brand # rest \<Rightarrow> Returns PARSE_ERROR_NONE (brand\<lparr>br_verb := Some verb\<rparr> # rest))"

definition parse_brand_multiplier :: "32 word \<Rightarrow> brand list \<Rightarrow> brand list outcome" where
  "parse_brand_multiplier multiplier priv =
     (case priv of
        [] \<Rightarrow> Returns PARSE_ERROR_MISSING_RECORD_HEADER priv
      | brand # rest \<Rightarrow>
          Returns PARSE_ERROR_NONE (brand\<lparr>br_multiplier := sint multiplier\<rparr> # rest))"

definition parse_brand_power :: "32 word \<Rightarrow> brand list \<Rightarrow> brand list outcome" where
  "parse_brand_power pw priv =
     (case priv of
        [] \<Rightarrow> Returns PARSE_ERROR_MISSING_RECORD_HEADER priv
      | brand # rest \<Rightarrow> Returns PARSE_ERROR_NONE (brand\<lparr>br_power := sint pw\<rparr> # rest))"

definition parse_brand_resist_flag :: "env \<Rightarrow> string \<Rightarrow> brand list \<Rightarrow> brand list outcome" where
  "parse_brand_resist_flag env fl priv =
     (case priv of
        [] \<Rightarrow> Returns PARSE_ERROR_MISSING_RECORD_HEADER priv
      | brand # rest \<Rightarrow>
          (let flag = lookup_flag env (r_info_flags env) fl
           in if flag = FLAG_END env then Returns PARSE_ERROR_INVALID_FLAG priv
              else Returns PARSE_ERROR_NONE (brand\<lparr>br_resist_flag := flag\<rparr> # rest)))"

definition parse_brand_active_verb :: "string \<Rightarrow> brand list \<Rightarrow> brand list outcome" where
  "parse_brand_active_verb verb priv =
     (case priv of
        [] \<Rightarrow> Returns PARSE_ERROR_MISSING_RECORD_HEADER priv
      | brand # rest \<Rightarrow> Returns PARSE_ERROR_NONE (brand\<lparr>br_active_verb := Some verb\<rparr> # rest))"

definition parse_brand_active_verb_plural :: "string \<Rightarrow> brand list \<Rightarrow> brand list outcome" where
  "parse_brand_active_verb_plural verb priv =
     (case priv of
        [] \<Rightarrow> Returns PARSE_ERROR_MISSING_RECORD_HEADER priv
      | brand # rest \<Rightarrow>
          Returns PARSE_ERROR_NONE (brand\<lparr>br_active_verb_plural := Some verb\<rparr> # rest))"

definition parse_brand_desc_adjective :: "string \<Rightarrow> brand list \<Rightarrow> brand list outcome" where
  "parse_brand_desc_adjective adj priv =
     (case priv of
        [] \<Rightarrow> Returns PARSE_ERROR_MISSING_RECORD_HEADER priv
      | brand # rest \<Rightarrow>
          Returns PARSE_ERROR_NONE (brand\<lparr>br_desc_adjective := Some adj\<rparr> # rest))"




section \<open>Effects, dice and expressions in the callbacks\<close>

text \<open>
  The dice and expr callbacks of curses, activations, object kinds and power
  calculations run the same statements once they have found the dice to work on.
  \<open>new_dice\<close>: \<open>dice_new\<close>, then \<open>dice_parse_string\<close>; \<open>PARSE_ERROR_INVALID_DICE\<close> when
  either fails.  \<open>bind_expression\<close>: \<open>expression_new\<close>, the base-value function looked up
  by name (\<open>spell_value_base_by_name\<close>, or \<open>power_calculation_by_name\<close> for power
  calculations), \<open>expression_add_operations_string\<close>, \<open>dice_bind_expression\<close>.
\<close>

definition new_dice :: "env \<Rightarrow> string \<Rightarrow> dice option" where
  "new_dice env string =
     (case dice_new env of
        None \<Rightarrow> None
      | Some dice \<Rightarrow> dice_parse_string env dice string)"

definition bind_expression :: "env \<Rightarrow> (string \<Rightarrow> string option) \<Rightarrow> string \<Rightarrow> string \<Rightarrow> string \<Rightarrow> dice \<Rightarrow> parser_error \<times> dice" where
  "bind_expression env by_name name base expr d =
     (case expression_new env of
        None \<Rightarrow> (PARSE_ERROR_INVALID_EXPRESSION, d)
      | Some expression \<Rightarrow>
          (let function = by_name base;
               expression1 = expression_set_base_value env expression function
           in case expression_add_operations_string env expression1 expr of
                (r, expression2) \<Rightarrow>
                  if r < 0 then (PARSE_ERROR_BAD_EXPRESSION_STRING, d)
                  else (case dice_bind_expression env d name expression2 of
                          (r2, d') \<Rightarrow>
                            if r2 < 0 then (PARSE_ERROR_UNBOUND_EXPRESSION, d')
                            else (PARSE_ERROR_NONE, d'))))"

text \<open>
  The effect list of a record is newest first; the callbacks below work on its head.
  \<open>effect_directive\<close> is the body of the three effect callbacks after the record check,
  \<open>effect_yx\<close>, \<open>effect_dice\<close>, \<open>effect_expr\<close> and the message setters those of the
  callbacks that first return \<open>PARSE_ERROR_NONE\<close> when there is no effect.
\<close>

definition effect_directive :: "env \<Rightarrow> effect_args \<Rightarrow> effect list \<Rightarrow> parser_error \<times> effect list" where
  "effect_directive env args effects =
     (case grab_effect_data env args effect_zero of
        (ret, new_effect) \<Rightarrow>
          if ret \<noteq> PARSE_ERROR_NONE then (ret, effects)
          else (PARSE_ERROR_NONE, new_effect # effects))"

definition effect_yx :: "int \<Rightarrow> int \<Rightarrow> effect list \<Rightarrow> parser_error \<times> effect list" where
  "effect_yx y x effects =
     (case effects of
        [] \<Rightarrow> (PARSE_ERROR_NONE, effects)
      | ef # rest \<Rightarrow> (PARSE_ERROR_NONE, ef\<lparr>ef_y := y, ef_x := x\<rparr> # rest))"

definition effect_dice :: "env \<Rightarrow> string \<Rightarrow> effect list \<Rightarrow> parser_error \<times> effect list" where
  "effect_dice env string effects =
     (case effects of
        [] \<Rightarrow> (PARSE_ERROR_NONE, effects)
      | ef # rest \<Rightarrow>
          (case new_dice env string of
             None \<Rightarrow> (PARSE_ERROR_INVALID_DICE, effects)
           | Some dice \<Rightarrow> (PARSE_ERROR_NONE, ef\<lparr>ef_dice := Some dice\<rparr> # rest)))"

definition effect_expr :: "env \<Rightarrow> string \<Rightarrow> string \<Rightarrow> string \<Rightarrow> effect list \<Rightarrow> parser_error \<times> effect list" where
  "effect_expr env name base expr effects =
     (case effects of
        [] \<Rightarrow> (PARSE_ERROR_NONE, effects)
      | ef # rest \<Rightarrow>
          (case ef_dice ef of
             None \<Rightarrow> (PARSE_ERROR_NONE, effects)
           | Some d \<Rightarrow>
               (case bind_expression env (spell_value_base_by_name env) name base expr d of
                  (e, d') \<Rightarrow> (e, ef\<lparr>ef_dice := Some d'\<rparr> # rest))))"

definition effect_msg_self :: "string \<Rightarrow> effect list \<Rightarrow> parser_error \<times> effect list" where
  "effect_msg_self msg effects =
     (case effects of
        [] \<Rightarrow> (PARSE_ERROR_NONE, effects)
      | ef # rest \<Rightarrow> (PARSE_ERROR_NONE, ef\<lparr>ef_self_msg := Some msg\<rparr> # rest))"

definition effect_msg_other :: "string \<Rightarrow> effect list \<Rightarrow> parser_error \<times> effect list" where
  "effect_msg_other msg effects =
     (case effects of
        [] \<Rightarrow> (PARSE_ERROR_NONE, effects)
      | ef # rest \<Rightarrow> (PARSE_ERROR_NONE, ef\<lparr>ef_other_msg := Some msg\<rparr> # rest))"

section \<open>Curses\<close>

text \<open>
  \<open>parse_curse_name\<close> gives the new curse its object (\<open>object_new\<close>) and its \<open>poss\<close>
  array of \<open>TV_MAX\<close> flags.  The callbacks reach the effect list through
  \<open>curse->obj\<close>; \<open>on_curse_obj\<close> runs a step on that object and puts the result back.
\<close>

definition parse_curse_name :: "env \<Rightarrow> string \<Rightarrow> curse list \<Rightarrow> curse list outcome" where
  "parse_curse_name env name priv =
     Returns PARSE_ERROR_NONE
       (curse_zero\<lparr>cu_obj := Some (object_new env), cu_name := Some name,
                   cu_poss := replicate (TV_MAX env) False\<rparr> # priv)"

definition on_curse_obj :: "(curse_object \<Rightarrow> parser_error \<times> curse_object) \<Rightarrow> curse \<Rightarrow> curse list \<Rightarrow> curse list outcome" where
  "on_curse_obj step curse rest =
     (case cu_obj curse of
        None \<Rightarrow> Fault Null_Dereference
      | Some obj \<Rightarrow>
          (case step obj of (e, obj') \<Rightarrow> Returns e (curse\<lparr>cu_obj := Some obj'\<rparr> # rest)))"

definition on_ob_effect :: "(effect list \<Rightarrow> parser_error \<times> effect list) \<Rightarrow> curse_object \<Rightarrow> parser_error \<times> curse_object" where
  "on_ob_effect step obj = (case step (ob_effect obj) of (e, effects) \<Rightarrow> (e, obj\<lparr>ob_effect := effects\<rparr>))"

definition parse_curse_type :: "env \<Rightarrow> string \<Rightarrow> curse list \<Rightarrow> curse list outcome" where
  "parse_curse_type env tv priv =
     (let tval = tval_find_idx env tv
      in case priv of
           [] \<Rightarrow> Returns PARSE_ERROR_MISSING_RECORD_HEADER priv
         | curse # rest \<Rightarrow>
             if tval < 0 \<or> tval \<ge> int (TV_MAX env) then Returns PARSE_ERROR_UNRECOGNISED_TVAL priv
             else (case store (cu_poss curse) tval True of
                     None \<Rightarrow> Fault Out_Of_Bounds
                   | Some poss \<Rightarrow> Returns PARSE_ERROR_NONE (curse\<lparr>cu_poss := poss\<rparr> # rest)))"

definition parse_curse_combat :: "int \<Rightarrow> int \<Rightarrow> int \<Rightarrow> curse list \<Rightarrow> curse list outcome" where
  "parse_curse_combat th td ta priv =
     (case priv of
        [] \<Rightarrow> Fault Assertion_Failed
      | curse # rest \<Rightarrow>
          on_curse_obj (\<lambda>obj. (PARSE_ERROR_NONE, obj\<lparr>ob_to_h := th, ob_to_d := td, ob_to_a := ta\<rparr>))
            curse rest)"

definition curse_flags_body :: "env \<Rightarrow> string \<Rightarrow> curse_object \<Rightarrow> fault + bool \<times> curse_object" where
  "curse_flags_body env t obj =
     (case grab_flag env (ob_flags obj) (list_obj_flag_names env) t of (e1, fl) \<Rightarrow>
      case grab_element_flag env (ob_el_info obj) t of
        Inl f \<Rightarrow> Inl f
      | Inr (b2, el) \<Rightarrow> Inr (e1 = PARSE_ERROR_NONE \<or> b2, obj\<lparr>ob_flags := fl, ob_el_info := el\<rparr>))"

definition parse_curse_flags :: "env \<Rightarrow> string \<Rightarrow> curse list \<Rightarrow> curse list outcome" where
  "parse_curse_flags env flags priv =
     (case priv of
        [] \<Rightarrow> Fault Assertion_Failed
      | curse # rest \<Rightarrow>
          (case cu_obj curse of
             None \<Rightarrow> Fault Null_Dereference
           | Some obj \<Rightarrow>
               (case scan_tokens (curse_flags_body env) (strtok_list flags) obj of
                  Inl f \<Rightarrow> Fault f
                | Inr (t, obj') \<Rightarrow>
                    Returns (if t \<noteq> [] then PARSE_ERROR_INVALID_FLAG else PARSE_ERROR_NONE)
                      (curse\<lparr>cu_obj := Some obj'\<rparr> # rest))))"

text \<open>
  \<open>res_level_store\<close> is the assignment \<open>el_info[index].res_level = value\<close> that the values
  callbacks make with the index \<open>grab_index_and_int\<close> delivered.
\<close>

definition res_level_store :: "element_info list \<Rightarrow> int \<Rightarrow> int \<Rightarrow> element_info list option" where
  "res_level_store info index v =
     (if 0 \<le> index \<and> index < int (length info)
      then Some (info[nat index := (info ! nat index)\<lparr>res_level := v\<rparr>])
      else None)"

definition curse_values_body :: "env \<Rightarrow> string \<Rightarrow> curse_object \<Rightarrow> fault + bool \<times> curse_object" where
  "curse_values_body env t obj =
     (case (case grab_index_and_int env (obj_mods env) [] t of
              None \<Rightarrow> Inr (False, obj)
            | Some (v, index) \<Rightarrow>
                (case store (ob_modifiers obj) index v of
                   None \<Rightarrow> Inl Out_Of_Bounds
                 | Some mods \<Rightarrow> Inr (True, obj\<lparr>ob_modifiers := mods\<rparr>))) of
        Inl f \<Rightarrow> Inl f
      | Inr (found1, obj1) \<Rightarrow>
          (case grab_index_and_int env (list_element_names env) ''RES_'' t of
             None \<Rightarrow> Inr (found1, obj1)
           | Some (v, index) \<Rightarrow>
               (case res_level_store (ob_el_info obj1) index v of
                  None \<Rightarrow> Inl Out_Of_Bounds
                | Some el \<Rightarrow> Inr (True, obj1\<lparr>ob_el_info := el\<rparr>))))"

definition parse_curse_values :: "env \<Rightarrow> string \<Rightarrow> curse list \<Rightarrow> curse list outcome" where
  "parse_curse_values env vals priv =
     (case priv of
        [] \<Rightarrow> Fault Assertion_Failed
      | curse # rest \<Rightarrow>
          (case cu_obj curse of
             None \<Rightarrow> Fault Null_Dereference
           | Some obj \<Rightarrow>
               (case scan_tokens (curse_values_body env) (strtok_list vals) obj of
                  Inl f \<Rightarrow> Fault f
                | Inr (t, obj') \<Rightarrow>
                    Returns (if t \<noteq> [] then PARSE_ERROR_INVALID_VALUE else PARSE_ERROR_NONE)
                      (curse\<lparr>cu_obj := Some obj'\<rparr> # rest))))"

definition parse_curse_effect :: "env \<Rightarrow> effect_args \<Rightarrow> curse list \<Rightarrow> curse list outcome" where
  "parse_curse_effect env args priv =
     (case priv of
        [] \<Rightarrow> Returns PARSE_ERROR_MISSING_RECORD_HEADER priv
      | curse # rest \<Rightarrow> on_curse_obj (on_ob_effect (effect_directive env args)) curse rest)"

definition parse_curse_effect_yx :: "int \<Rightarrow> int \<Rightarrow> curse list \<Rightarrow> curse list outcome" where
  "parse_curse_effect_yx y x priv =
     (case priv of
        [] \<Rightarrow> Returns PARSE_ERROR_MISSING_RECORD_HEADER priv
      | curse # rest \<Rightarrow> on_curse_obj (on_ob_effect (effect_yx y x)) curse rest)"

definition parse_curse_dice :: "env \<Rightarrow> string \<Rightarrow> curse list \<Rightarrow> curse list outcome" where
  "parse_curse_dice env string priv =
     (case priv of
        [] \<Rightarrow> Returns PARSE_ERROR_MISSING_RECORD_HEADER priv
      | curse # rest \<Rightarrow> on_curse_obj (on_ob_effect (effect_dice env string)) curse rest)"

definition parse_curse_expr :: "env \<Rightarrow> string \<Rightarrow> string \<Rightarrow> string \<Rightarrow> curse list \<Rightarrow> curse list outcome" where
  "parse_curse_expr env name base expr priv =
     (case priv of
        [] \<Rightarrow> Returns PARSE_ERROR_MISSING_RECORD_HEADER priv
      | curse # rest \<Rightarrow> on_curse_obj (on_ob_effect (effect_expr env name base expr)) curse rest)"

definition parse_curse_msg :: "string \<Rightarrow> curse list \<Rightarrow> curse list outcome" where
  "parse_curse_msg txt priv =
     (case priv of
        [] \<Rightarrow> Fault Assertion_Failed
      | curse # rest \<Rightarrow> on_curse_obj (on_ob_effect (effect_msg_self txt)) curse rest)"

definition parse_curse_time :: "random_value \<Rightarrow> curse list \<Rightarrow> curse list outcome" where
  "parse_curse_time time priv =
     (case priv of
        [] \<Rightarrow> Fault Assertion_Failed
      | curse # rest \<Rightarrow> on_curse_obj (\<lambda>obj. (PARSE_ERROR_NONE, obj\<lparr>ob_time := time\<rparr>)) curse rest)"

definition parse_curse_desc :: "env \<Rightarrow> string \<Rightarrow> curse list \<Rightarrow> curse list outcome" where
  "parse_curse_desc env desc priv =
     (case priv of
        [] \<Rightarrow> Fault Assertion_Failed
      | curse # rest \<Rightarrow>
          Returns PARSE_ERROR_NONE (curse\<lparr>cu_desc := string_append env (cu_desc curse) desc\<rparr> # rest))"

definition parse_curse_conflict :: "env \<Rightarrow> string \<Rightarrow> curse list \<Rightarrow> curse list outcome" where
  "parse_curse_conflict env conf priv =
     (case priv of
        [] \<Rightarrow> Fault Assertion_Failed
      | curse # rest \<Rightarrow>
          (let c0 = (case cu_conflict curse of None \<Rightarrow> Some ''|'' | Some c \<Rightarrow> Some c);
               c1 = string_append env c0 conf;
               c2 = string_append env c1 ''|''
           in Returns PARSE_ERROR_NONE (curse\<lparr>cu_conflict := c2\<rparr> # rest)))"

definition curse_conflict_flags_body :: "env \<Rightarrow> string \<Rightarrow> curse \<Rightarrow> fault + bool \<times> curse" where
  "curse_conflict_flags_body env t curse =
     (case grab_flag env (cu_conflict_flags curse) (list_obj_flag_names env) t of
        (e1, fl) \<Rightarrow> Inr (e1 = PARSE_ERROR_NONE, curse\<lparr>cu_conflict_flags := fl\<rparr>))"

definition parse_curse_conflict_flags :: "env \<Rightarrow> string \<Rightarrow> curse list \<Rightarrow> curse list outcome" where
  "parse_curse_conflict_flags env flags priv =
     (case priv of
        [] \<Rightarrow> Fault Assertion_Failed
      | curse # rest \<Rightarrow>
          (case scan_tokens (curse_conflict_flags_body env) (strtok_list flags) curse of
             Inl f \<Rightarrow> Fault f
           | Inr (t, curse') \<Rightarrow>
               Returns (if t \<noteq> [] then PARSE_ERROR_INVALID_FLAG else PARSE_ERROR_NONE)
                 (curse' # rest)))"




section \<open>Activations\<close>


definition parse_act_aim :: "32 word \<Rightarrow> activation list \<Rightarrow> activation list outcome" where
  "parse_act_aim aim priv =
     (case priv of
        [] \<Rightarrow> Fault Assertion_Failed
      | act # rest \<Rightarrow> Returns PARSE_ERROR_NONE (act\<lparr>act_aim := (sint aim \<noteq> 0)\<rparr> # rest))"

definition parse_act_power :: "32 word \<Rightarrow> activation list \<Rightarrow> activation list outcome" where
  "parse_act_power pw priv =
     (case priv of
        [] \<Rightarrow> Fault Assertion_Failed
      | act # rest \<Rightarrow> Returns PARSE_ERROR_NONE (act\<lparr>act_power := sint pw\<rparr> # rest))"

definition on_act_effect :: "(effect list \<Rightarrow> parser_error \<times> effect list) \<Rightarrow> activation list \<Rightarrow> activation list outcome" where
  "on_act_effect step priv =
     (case priv of
        [] \<Rightarrow> Returns PARSE_ERROR_MISSING_RECORD_HEADER priv
      | act # rest \<Rightarrow>
          (case step (act_effect act) of
             (e, effects) \<Rightarrow> Returns e (act\<lparr>act_effect := effects\<rparr> # rest)))"

definition parse_act_effect :: "env \<Rightarrow> effect_args \<Rightarrow> activation list \<Rightarrow> activation list outcome" where
  "parse_act_effect env args priv = on_act_effect (effect_directive env args) priv"

definition parse_act_effect_yx :: "int \<Rightarrow> int \<Rightarrow> activation list \<Rightarrow> activation list outcome" where
  "parse_act_effect_yx y x priv = on_act_effect (effect_yx y x) priv"

definition parse_act_dice :: "env \<Rightarrow> string \<Rightarrow> activation list \<Rightarrow> activation list outcome" where
  "parse_act_dice env string priv = on_act_effect (effect_dice env string) priv"

definition parse_act_expr :: "env \<Rightarrow> string \<Rightarrow> string \<Rightarrow> string \<Rightarrow> activation list \<Rightarrow> activation list outcome" where
  "parse_act_expr env name base expr priv = on_act_effect (effect_expr env name base expr) priv"

definition parse_act_msg_self :: "string \<Rightarrow> activation list \<Rightarrow> activation list outcome" where
  "parse_act_msg_self msg priv = on_act_effect (effect_msg_self msg) priv"

definition parse_act_msg_other :: "string \<Rightarrow> activation list \<Rightarrow> activation list outcome" where
  "parse_act_msg_other msg priv = on_act_effect (effect_msg_other msg) priv"

definition parse_act_msg :: "env \<Rightarrow> string \<Rightarrow> activation list \<Rightarrow> activation list outcome" where
  "parse_act_msg env msg priv =
     (case priv of
        [] \<Rightarrow> Fault Assertion_Failed
      | act # rest \<Rightarrow>
          Returns PARSE_ERROR_NONE
            (act\<lparr>act_message := string_append env (act_message act) msg\<rparr> # rest))"

definition parse_act_desc :: "env \<Rightarrow> string \<Rightarrow> activation list \<Rightarrow> activation list outcome" where
  "parse_act_desc env desc priv =
     (case priv of
        [] \<Rightarrow> Fault Assertion_Failed
      | act # rest \<Rightarrow>
          Returns PARSE_ERROR_NONE (act\<lparr>act_desc := string_append env (act_desc act) desc\<rparr> # rest))"





text \<open>
  \<open>findact\<close> follows the \<open>next\<close> links from the first activation and stops at the first
  whose name is the one asked for.  \<open>finish_parse_act\<close> links every row to the row after
  it, so the walk visits the rows in index order; the result is the index of the row
  found, or null.
\<close>

fun findact_from :: "nat \<Rightarrow> activation list \<Rightarrow> string \<Rightarrow> nat option" where
  "findact_from i [] nm = None"
| "findact_from i (act # acts) nm =
     (if act_name act = Some nm then Some i else findact_from (Suc i) acts nm)"

definition findact :: "activation list \<Rightarrow> string \<Rightarrow> nat option" where
  "findact activations nm = findact_from 0 activations nm"

section \<open>Object kinds\<close>

text \<open>
  The state of the parsers of object kinds, ego items, artifacts and power calculations
  is the list hanging from \<open>parser_priv\<close> together with the global tables.  \<open>on_kind\<close>
  is the frame of the callbacks that assert the record and then assign fields of it.
\<close>

type_synonym object_state = "object_kind list \<times> globals"


definition on_kind :: "(object_kind \<Rightarrow> object_kind) \<Rightarrow> object_state \<Rightarrow> object_state outcome" where
  "on_kind upd st =
     (case fst st of
        [] \<Rightarrow> Fault Assertion_Failed
      | k # rest \<Rightarrow> Returns PARSE_ERROR_NONE (upd k # rest, snd st))"

definition parse_object_graphics :: "env \<Rightarrow> char \<Rightarrow> string \<Rightarrow> object_state \<Rightarrow> object_state outcome" where
  "parse_object_graphics env glyph color st =
     on_kind (\<lambda>k. k\<lparr>k_d_char := glyph, k_d_attr := color_to_attr env color\<rparr>) st"

definition parse_object_type :: "env \<Rightarrow> string \<Rightarrow> object_state \<Rightarrow> object_state outcome" where
  "parse_object_type env tv st =
     (case fst st of
        [] \<Rightarrow> Fault Assertion_Failed
      | k # rest \<Rightarrow>
          (let tval = tval_find_idx env tv
           in if tval < 0 then Returns PARSE_ERROR_UNRECOGNISED_TVAL st
              else if nat tval \<ge> length (g_kb_info (snd st)) then Fault Out_Of_Bounds
              else
                (let base = (g_kb_info (snd st) ! nat tval);
                     base' = base\<lparr>kb_num_svals := kb_num_svals base + 1\<rparr>;
                     k' = k\<lparr>k_tval := tval, k_base := Some (nat tval), k_sval := kb_num_svals base'\<rparr>
                 in Returns PARSE_ERROR_NONE
                      (k' # rest,
                       (snd st)\<lparr>g_kb_info := (g_kb_info (snd st))[nat tval := base']\<rparr>))))"

definition parse_object_level :: "int \<Rightarrow> object_state \<Rightarrow> object_state outcome" where
  "parse_object_level level st = on_kind (\<lambda>k. k\<lparr>k_level := level\<rparr>) st"

definition parse_object_weight :: "int \<Rightarrow> object_state \<Rightarrow> object_state outcome" where
  "parse_object_weight weight st = on_kind (\<lambda>k. k\<lparr>k_weight := weight\<rparr>) st"

definition parse_object_cost :: "int \<Rightarrow> object_state \<Rightarrow> object_state outcome" where
  "parse_object_cost cost st = on_kind (\<lambda>k. k\<lparr>k_cost := cost\<rparr>) st"

definition parse_object_alloc :: "env \<Rightarrow> int \<Rightarrow> string \<Rightarrow> object_state \<Rightarrow> object_state outcome" where
  "parse_object_alloc env common minmax st =
     (case fst st of
        [] \<Rightarrow> Fault Assertion_Failed
      | k # rest \<Rightarrow>
          (case scan_alloc_range env minmax of
             None \<Rightarrow> Returns PARSE_ERROR_INVALID_ALLOCATION (k\<lparr>k_alloc_prob := common\<rparr> # rest, snd st)
           | Some (amin, amax) \<Rightarrow>
               Returns PARSE_ERROR_NONE
                 (k\<lparr>k_alloc_prob := common, k_alloc_min := amin, k_alloc_max := amax\<rparr> # rest,
                  snd st)))"

definition parse_object_attack :: "random_value \<Rightarrow> random_value \<Rightarrow> random_value \<Rightarrow> object_state \<Rightarrow> object_state outcome" where
  "parse_object_attack hd' th td st =
     on_kind (\<lambda>k. k\<lparr>k_dd := rv_dice hd', k_ds := rv_sides hd', k_to_h := th, k_to_d := td\<rparr>) st"

definition parse_object_armor :: "int \<Rightarrow> random_value \<Rightarrow> object_state \<Rightarrow> object_state outcome" where
  "parse_object_armor ac ta st = on_kind (\<lambda>k. k\<lparr>k_ac := ac, k_to_a := ta\<rparr>) st"

definition parse_object_charges :: "random_value \<Rightarrow> object_state \<Rightarrow> object_state outcome" where
  "parse_object_charges charges st = on_kind (\<lambda>k. k\<lparr>k_charge := charges\<rparr>) st"

definition parse_object_pile :: "int \<Rightarrow> random_value \<Rightarrow> object_state \<Rightarrow> object_state outcome" where
  "parse_object_pile prob stack st =
     on_kind (\<lambda>k. k\<lparr>k_gen_mult_prob := prob, k_stack_size := stack\<rparr>) st"

definition object_flags_body :: "env \<Rightarrow> string \<Rightarrow> object_kind \<Rightarrow> fault + bool \<times> object_kind" where
  "object_flags_body env t k =
     (case grab_flag env (k_flags k) (list_obj_flag_names env) t of (e1, fl) \<Rightarrow>
      case grab_flag env (k_kind_flags k) (kind_flags env) t of (e2, kfl) \<Rightarrow>
      case grab_element_flag env (k_el_info k) t of
        Inl f \<Rightarrow> Inl f
      | Inr (b3, el) \<Rightarrow>
          Inr (e1 = PARSE_ERROR_NONE \<or> e2 = PARSE_ERROR_NONE \<or> b3,
               k\<lparr>k_flags := fl, k_kind_flags := kfl, k_el_info := el\<rparr>))"

definition parse_object_flags :: "env \<Rightarrow> string \<Rightarrow> object_state \<Rightarrow> object_state outcome" where
  "parse_object_flags env flags st =
     (case fst st of
        [] \<Rightarrow> Fault Assertion_Failed
      | k # rest \<Rightarrow>
          (case scan_tokens (object_flags_body env) (strtok_list flags) k of
             Inl f \<Rightarrow> Fault f
           | Inr (t, k') \<Rightarrow>
               Returns (if t \<noteq> [] then PARSE_ERROR_INVALID_FLAG else PARSE_ERROR_NONE)
                 (k' # rest, snd st)))"

definition on_kind_effect :: "(effect list \<Rightarrow> parser_error \<times> effect list) \<Rightarrow> object_state \<Rightarrow> object_state outcome" where
  "on_kind_effect step st =
     (case fst st of
        [] \<Rightarrow> Returns PARSE_ERROR_MISSING_RECORD_HEADER st
      | k # rest \<Rightarrow>
          (case step (k_effect k) of
             (e, effects) \<Rightarrow> Returns e (k\<lparr>k_effect := effects\<rparr> # rest, snd st)))"

definition parse_object_effect :: "env \<Rightarrow> effect_args \<Rightarrow> object_state \<Rightarrow> object_state outcome" where
  "parse_object_effect env args st = on_kind_effect (effect_directive env args) st"

definition parse_object_effect_yx :: "int \<Rightarrow> int \<Rightarrow> object_state \<Rightarrow> object_state outcome" where
  "parse_object_effect_yx y x st = on_kind_effect (effect_yx y x) st"

definition parse_object_dice :: "env \<Rightarrow> string \<Rightarrow> object_state \<Rightarrow> object_state outcome" where
  "parse_object_dice env string st = on_kind_effect (effect_dice env string) st"

definition parse_object_expr :: "env \<Rightarrow> string \<Rightarrow> string \<Rightarrow> string \<Rightarrow> object_state \<Rightarrow> object_state outcome" where
  "parse_object_expr env name base expr st = on_kind_effect (effect_expr env name base expr) st"

definition parse_object_msg_self :: "string \<Rightarrow> object_state \<Rightarrow> object_state outcome" where
  "parse_object_msg_self msg st = on_kind_effect (effect_msg_self msg) st"

definition parse_object_msg_other :: "string \<Rightarrow> object_state \<Rightarrow> object_state outcome" where
  "parse_object_msg_other msg st = on_kind_effect (effect_msg_other msg) st"

definition parse_object_act :: "string \<Rightarrow> object_state \<Rightarrow> object_state outcome" where
  "parse_object_act name st =
     (case fst st of
        [] \<Rightarrow> Returns PARSE_ERROR_MISSING_RECORD_HEADER st
      | k # rest \<Rightarrow>
          Returns PARSE_ERROR_NONE
            (k\<lparr>k_activation := findact (g_activations (snd st)) name\<rparr> # rest, snd st))"

definition parse_object_time :: "random_value \<Rightarrow> object_state \<Rightarrow> object_state outcome" where
  "parse_object_time time st = on_kind (\<lambda>k. k\<lparr>k_time := time\<rparr>) st"

definition parse_object_pval :: "random_value \<Rightarrow> object_state \<Rightarrow> object_state outcome" where
  "parse_object_pval pval st = on_kind (\<lambda>k. k\<lparr>k_pval := pval\<rparr>) st"

definition object_values_body :: "env \<Rightarrow> string \<Rightarrow> object_kind \<Rightarrow> fault + bool \<times> object_kind" where
  "object_values_body env t k =
     (let (found1, k1) =
            (case grab_rand_value env (obj_mods env) t of
               None \<Rightarrow> (False, k)
             | Some (i, rv) \<Rightarrow> (True, k\<lparr>k_modifiers := (k_modifiers k)[i := rv]\<rparr>))
      in case grab_index_and_int env (list_element_names env) ''RES_'' t of
           None \<Rightarrow> Inr (found1, k1)
         | Some (v, index) \<Rightarrow>
             (case res_level_store (k_el_info k1) index v of
                None \<Rightarrow> Inl Out_Of_Bounds
              | Some el \<Rightarrow> Inr (True, k1\<lparr>k_el_info := el\<rparr>)))"

definition parse_object_values :: "env \<Rightarrow> string \<Rightarrow> object_state \<Rightarrow> object_state outcome" where
  "parse_object_values env vals st =
     (case fst st of
        [] \<Rightarrow> Fault Assertion_Failed
      | k # rest \<Rightarrow>
          (case scan_tokens (object_values_body env) (strtok_list vals) k of
             Inl f \<Rightarrow> Fault f
           | Inr (t, k') \<Rightarrow>
               Returns (if t \<noteq> [] then PARSE_ERROR_INVALID_VALUE else PARSE_ERROR_NONE)
                 (k' # rest, snd st)))"

text \<open>
  The search loops of the slay and brand callbacks:
  \<^verbatim>\<open>for (i = 0; i < z_info->slay_max; i++) if (streq(s, slays[i].code)) break;\<close>.
  The result is the index at which the loop stops, \<open>slay_max\<close> when no code matches;
  comparing with a null code does not return.  \<open>mark\<close> allocates the flag array of the
  record when it is still null and sets entry \<open>i\<close>.
\<close>

fun code_search :: "string \<Rightarrow> string option list \<Rightarrow> nat \<Rightarrow> fault + nat" where
  "code_search s [] i = Inr i"
| "code_search s (c # cs) i =
     (case c of
        None \<Rightarrow> Inl Null_Dereference
      | Some code \<Rightarrow> if s = code then Inr i else code_search s cs (Suc i))"

definition mark :: "bool list option \<Rightarrow> nat \<Rightarrow> nat \<Rightarrow> bool list option" where
  "mark a n i = Some ((case a of None \<Rightarrow> replicate n False | Some b \<Rightarrow> b)[i := True])"

definition parse_object_slay :: "string \<Rightarrow> object_state \<Rightarrow> object_state outcome" where
  "parse_object_slay s st =
     (case fst st of
        [] \<Rightarrow> Fault Assertion_Failed
      | k # rest \<Rightarrow>
          (case code_search s (map sl_code (g_slays (snd st))) 0 of
             Inl f \<Rightarrow> Fault f
           | Inr i \<Rightarrow>
               if i = length (g_slays (snd st)) then Returns PARSE_ERROR_UNRECOGNISED_SLAY st
               else Returns PARSE_ERROR_NONE
                      (k\<lparr>k_slays := mark (k_slays k) (length (g_slays (snd st))) i\<rparr> # rest,
                       snd st)))"

definition parse_object_brand :: "string \<Rightarrow> object_state \<Rightarrow> object_state outcome" where
  "parse_object_brand s st =
     (case fst st of
        [] \<Rightarrow> Fault Assertion_Failed
      | k # rest \<Rightarrow>
          (case code_search s (map br_code (g_brands (snd st))) 0 of
             Inl f \<Rightarrow> Fault f
           | Inr i \<Rightarrow>
               if i = length (g_brands (snd st)) then Returns PARSE_ERROR_UNRECOGNISED_BRAND st
               else Returns PARSE_ERROR_NONE
                      (k\<lparr>k_brands := mark (k_brands k) (length (g_brands (snd st))) i\<rparr> # rest,
                       snd st)))"

definition parse_object_desc :: "env \<Rightarrow> string \<Rightarrow> object_state \<Rightarrow> object_state outcome" where
  "parse_object_desc env txt st =
     on_kind (\<lambda>k. k\<lparr>k_text := string_append env (k_text k) txt\<rparr>) st"

text \<open>
  The curse callbacks take the index from \<open>lookup_curse\<close>, compare it with
  \<open>z_info->curse_max\<close>, allocate the power array of the record when it is still null and
  store the power at the index.
\<close>

definition curse_power_store :: "int list option \<Rightarrow> nat \<Rightarrow> int \<Rightarrow> int \<Rightarrow> int list option" where
  "curse_power_store a n i pw = store (case a of None \<Rightarrow> replicate n 0 | Some b \<Rightarrow> b) i pw"

definition parse_object_curse :: "env \<Rightarrow> string \<Rightarrow> int \<Rightarrow> object_state \<Rightarrow> object_state outcome" where
  "parse_object_curse env s pw st =
     (case fst st of
        [] \<Rightarrow> Fault Assertion_Failed
      | k # rest \<Rightarrow>
          (let i = lookup_curse env (g_curses (snd st)) s
           in if i = int (length (g_curses (snd st))) then Returns PARSE_ERROR_UNRECOGNISED_CURSE st
              else (case curse_power_store (k_curses k) (length (g_curses (snd st))) i pw of
                      None \<Rightarrow> Fault Out_Of_Bounds
                    | Some c \<Rightarrow> Returns PARSE_ERROR_NONE (k\<lparr>k_curses := Some c\<rparr> # rest, snd st))))"



text \<open>
  \<open>finish_parse_object\<close>: after the copy the row gets its own index as \<open>kidx\<close>, the kind
  flags of its base \<open>kb_info[k->tval]\<close> are united into its kind flags, and \<open>next\<close> points
  to the following row, or is null in the last row.  Reading \<open>kb_info\<close> outside its rows
  is the fault \<open>Out_Of_Bounds\<close>: the function checks the list first.
\<close>

definition object_fixup :: "object_base list \<Rightarrow> nat \<Rightarrow> int \<Rightarrow> object_kind \<Rightarrow> object_kind" where
  "object_fixup kb_info k_max kidx k =
     k\<lparr>k_kidx := kidx,
       k_kind_flags := kf_union (k_kind_flags k) (kb_kind_flags (kb_info ! nat (k_tval k))),
       k_next := (if kidx < int k_max - 1 then Some (nat (kidx + 1)) else None)\<rparr>"

definition finish_parse_object :: "env \<Rightarrow> object_base list \<Rightarrow> object_kind list \<Rightarrow> (nat \<times> object_kind list) outcome" where
  "finish_parse_object env kb_info priv =
     (if list_all (\<lambda>k. 0 \<le> k_tval k \<and> nat (k_tval k) < length kb_info) priv
      then Returns PARSE_ERROR_NONE
             (finish_table (object_fixup kb_info) (object_kind_zero env) 0 priv)
      else Fault Out_Of_Bounds)"

section \<open>Ego items\<close>

type_synonym ego_state = "ego_item list \<times> globals"


text \<open>\<open>on_ego\<close> is the frame of the callbacks that check the record and then assign fields.\<close>

definition on_ego :: "(ego_item \<Rightarrow> ego_item) \<Rightarrow> ego_state \<Rightarrow> ego_state outcome" where
  "on_ego upd st =
     (case fst st of
        [] \<Rightarrow> Returns PARSE_ERROR_MISSING_RECORD_HEADER st
      | e # rest \<Rightarrow> Returns PARSE_ERROR_NONE (upd e # rest, snd st))"

definition parse_ego_info :: "int \<Rightarrow> int \<Rightarrow> ego_state \<Rightarrow> ego_state outcome" where
  "parse_ego_info cost rating st = on_ego (\<lambda>e. e\<lparr>e_rating := rating\<rparr>) st"

text \<open>
  The bounds test of the alloc callbacks of ego items and artifacts:
  \<^verbatim>\<open>(amin > 255) || (amax > 255) || (amin < 0) || (amax < 0)\<close>.
\<close>

definition alloc_out_of_bounds :: "int \<Rightarrow> int \<Rightarrow> bool" where
  "alloc_out_of_bounds amin amax = (amin > 255 \<or> amax > 255 \<or> amin < 0 \<or> amax < 0)"

text \<open>\<open>parse_ego_alloc\<close> assigns \<open>e->alloc_prob\<close> without a look at \<open>e\<close>.\<close>

definition parse_ego_alloc :: "env \<Rightarrow> int \<Rightarrow> string \<Rightarrow> ego_state \<Rightarrow> ego_state outcome" where
  "parse_ego_alloc env common minmax st =
     (case fst st of
        [] \<Rightarrow> Fault Null_Dereference
      | e # rest \<Rightarrow>
          (case scan_alloc_range env minmax of
             None \<Rightarrow> Returns PARSE_ERROR_INVALID_ALLOCATION (e\<lparr>e_alloc_prob := common\<rparr> # rest, snd st)
           | Some (amin, amax) \<Rightarrow>
               if alloc_out_of_bounds amin amax
               then Returns PARSE_ERROR_OUT_OF_BOUNDS (e\<lparr>e_alloc_prob := common\<rparr> # rest, snd st)
               else Returns PARSE_ERROR_NONE
                      (e\<lparr>e_alloc_prob := common, e_alloc_min := amin, e_alloc_max := amax\<rparr> # rest,
                       snd st)))"

text \<open>
  The loop of the type callbacks of ego items and power calculations over
  \<open>k_info[0 .. k_max - 1]\<close>: every kind of the tval is pushed on the list of possible
  items, so the kinds met later come first.
\<close>

fun kinds_of_tval :: "int \<Rightarrow> nat \<Rightarrow> object_kind list \<Rightarrow> int list \<Rightarrow> int list" where
  "kinds_of_tval tval i [] poss = poss"
| "kinds_of_tval tval i (k # ks) poss =
     (if k_tval k \<noteq> tval then kinds_of_tval tval (Suc i) ks poss
      else kinds_of_tval tval (Suc i) ks (int i # poss))"

definition parse_ego_type :: "env \<Rightarrow> string \<Rightarrow> ego_state \<Rightarrow> ego_state outcome" where
  "parse_ego_type env tv st =
     (case fst st of
        [] \<Rightarrow> Returns PARSE_ERROR_MISSING_RECORD_HEADER st
      | e # rest \<Rightarrow>
          (let tval = tval_find_idx env tv
           in if tval < 0 then Returns PARSE_ERROR_UNRECOGNISED_TVAL st
              else if g_k_max (snd st) > int (length (g_k_info (snd st))) then Fault Out_Of_Bounds
              else
                (let poss = kinds_of_tval tval 0 (take (nat (g_k_max (snd st))) (g_k_info (snd st)))
                              (e_poss_items e);
                     st' = (e\<lparr>e_poss_items := poss\<rparr> # rest, snd st)
                 in if poss = e_poss_items e then Returns PARSE_ERROR_NO_KIND_FOR_EGO_TYPE st'
                    else Returns PARSE_ERROR_NONE st')))"

text \<open>
  The item callbacks of ego items and power calculations take \<open>kidx\<close> from the kind that
  \<open>lookup_kind\<close> returns, without a look at the pointer.
\<close>

definition item_kidx :: "env \<Rightarrow> globals \<Rightarrow> int \<Rightarrow> string \<Rightarrow> int option" where
  "item_kidx env g tval sv =
     (let sval = lookup_sval env (g_k_info g) tval sv
      in case lookup_kind env (g_k_info g) tval sval of
           None \<Rightarrow> None
         | Some j \<Rightarrow> if j < length (g_k_info g) then Some (k_kidx (g_k_info g ! j)) else None)"

definition parse_ego_item :: "env \<Rightarrow> string \<Rightarrow> string \<Rightarrow> ego_state \<Rightarrow> ego_state outcome" where
  "parse_ego_item env tv sv st =
     (case fst st of
        [] \<Rightarrow> Returns PARSE_ERROR_MISSING_RECORD_HEADER st
      | e # rest \<Rightarrow>
          (let tval = tval_find_idx env tv
           in if tval < 0 then Returns PARSE_ERROR_UNRECOGNISED_TVAL st
              else (case item_kidx env (snd st) tval sv of
                      None \<Rightarrow> Fault Null_Dereference
                    | Some kidx \<Rightarrow>
                        (let st' = (e\<lparr>e_poss_items := kidx # e_poss_items e\<rparr> # rest, snd st)
                         in if kidx \<le> 0 then Returns PARSE_ERROR_INVALID_ITEM_NUMBER st'
                            else Returns PARSE_ERROR_NONE st'))))"

definition parse_ego_combat :: "random_value \<Rightarrow> random_value \<Rightarrow> random_value \<Rightarrow> ego_state \<Rightarrow> ego_state outcome" where
  "parse_ego_combat th td ta st = on_ego (\<lambda>e. e\<lparr>e_to_h := th, e_to_d := td, e_to_a := ta\<rparr>) st"

definition parse_ego_min :: "int \<Rightarrow> int \<Rightarrow> int \<Rightarrow> ego_state \<Rightarrow> ego_state outcome" where
  "parse_ego_min th td ta st =
     on_ego (\<lambda>e. e\<lparr>e_min_to_h := th, e_min_to_d := td, e_min_to_a := ta\<rparr>) st"

definition ego_flags_body :: "env \<Rightarrow> string \<Rightarrow> ego_item \<Rightarrow> fault + bool \<times> ego_item" where
  "ego_flags_body env t e =
     (case grab_flag env (e_flags e) (list_obj_flag_names env) t of (e1, fl) \<Rightarrow>
      case grab_flag env (e_kind_flags e) (kind_flags env) t of (e2, kfl) \<Rightarrow>
      case grab_element_flag env (e_el_info e) t of
        Inl f \<Rightarrow> Inl f
      | Inr (b3, el) \<Rightarrow>
          Inr (e1 = PARSE_ERROR_NONE \<or> e2 = PARSE_ERROR_NONE \<or> b3,
               e\<lparr>e_flags := fl, e_kind_flags := kfl, e_el_info := el\<rparr>))"

definition parse_ego_flags :: "env \<Rightarrow> string option \<Rightarrow> ego_state \<Rightarrow> ego_state outcome" where
  "parse_ego_flags env flags st =
     (case fst st of
        [] \<Rightarrow> Returns PARSE_ERROR_MISSING_RECORD_HEADER st
      | e # rest \<Rightarrow>
          (case flags of
             None \<Rightarrow> Returns PARSE_ERROR_NONE st
           | Some fl \<Rightarrow>
               (case scan_tokens (ego_flags_body env) (strtok_list fl) e of
                  Inl f \<Rightarrow> Fault f
                | Inr (t, e') \<Rightarrow>
                    Returns (if t \<noteq> [] then PARSE_ERROR_INVALID_FLAG else PARSE_ERROR_NONE)
                      (e' # rest, snd st))))"

definition ego_values_body :: "env \<Rightarrow> string \<Rightarrow> ego_item \<Rightarrow> fault + bool \<times> ego_item" where
  "ego_values_body env t e =
     (let (found1, e1) =
            (case grab_rand_value env (obj_mods env) t of
               None \<Rightarrow> (False, e)
             | Some (i, rv) \<Rightarrow> (True, e\<lparr>e_modifiers := (e_modifiers e)[i := rv]\<rparr>))
      in case grab_index_and_int env (list_element_names env) ''RES_'' t of
           None \<Rightarrow> Inr (found1, e1)
         | Some (v, index) \<Rightarrow>
             (case res_level_store (e_el_info e1) index v of
                None \<Rightarrow> Inl Out_Of_Bounds
              | Some el \<Rightarrow> Inr (True, e1\<lparr>e_el_info := el\<rparr>)))"

text \<open>
  The values and min-values directives are registered with a mandatory string; the
  callbacks still ask \<open>parser_hasval\<close>, so the argument is an option here.
\<close>

definition parse_ego_values :: "env \<Rightarrow> string option \<Rightarrow> ego_state \<Rightarrow> ego_state outcome" where
  "parse_ego_values env vals st =
     (case fst st of
        [] \<Rightarrow> Returns PARSE_ERROR_MISSING_RECORD_HEADER st
      | e # rest \<Rightarrow>
          (case vals of
             None \<Rightarrow> Returns PARSE_ERROR_MISSING_FIELD st
           | Some vs \<Rightarrow>
               (case scan_tokens (ego_values_body env) (strtok_list vs) e of
                  Inl f \<Rightarrow> Fault f
                | Inr (t, e') \<Rightarrow>
                    Returns (if t \<noteq> [] then PARSE_ERROR_INVALID_VALUE else PARSE_ERROR_NONE)
                      (e' # rest, snd st))))"

definition ego_min_val_body :: "env \<Rightarrow> string \<Rightarrow> ego_item \<Rightarrow> fault + bool \<times> ego_item" where
  "ego_min_val_body env t e =
     (case grab_int_value env (obj_mods env) t of
        None \<Rightarrow> Inr (False, e)
      | Some (i, v) \<Rightarrow> Inr (True, e\<lparr>e_min_modifiers := (e_min_modifiers e)[i := v]\<rparr>))"

definition parse_ego_min_val :: "env \<Rightarrow> string option \<Rightarrow> ego_state \<Rightarrow> ego_state outcome" where
  "parse_ego_min_val env vals st =
     (case fst st of
        [] \<Rightarrow> Returns PARSE_ERROR_MISSING_RECORD_HEADER st
      | e # rest \<Rightarrow>
          (case vals of
             None \<Rightarrow> Returns PARSE_ERROR_MISSING_FIELD st
           | Some vs \<Rightarrow>
               (case scan_tokens (ego_min_val_body env) (strtok_list vs) e of
                  Inl f \<Rightarrow> Fault f
                | Inr (t, e') \<Rightarrow>
                    Returns (if t \<noteq> [] then PARSE_ERROR_INVALID_VALUE else PARSE_ERROR_NONE)
                      (e' # rest, snd st))))"

definition parse_ego_slay :: "string \<Rightarrow> ego_state \<Rightarrow> ego_state outcome" where
  "parse_ego_slay s st =
     (case fst st of
        [] \<Rightarrow> Returns PARSE_ERROR_MISSING_RECORD_HEADER st
      | e # rest \<Rightarrow>
          (case code_search s (map sl_code (g_slays (snd st))) 0 of
             Inl f \<Rightarrow> Fault f
           | Inr i \<Rightarrow>
               if i = length (g_slays (snd st)) then Returns PARSE_ERROR_UNRECOGNISED_SLAY st
               else Returns PARSE_ERROR_NONE
                      (e\<lparr>e_slays := mark (e_slays e) (length (g_slays (snd st))) i\<rparr> # rest,
                       snd st)))"

definition parse_ego_brand :: "string \<Rightarrow> ego_state \<Rightarrow> ego_state outcome" where
  "parse_ego_brand s st =
     (case fst st of
        [] \<Rightarrow> Returns PARSE_ERROR_MISSING_RECORD_HEADER st
      | e # rest \<Rightarrow>
          (case code_search s (map br_code (g_brands (snd st))) 0 of
             Inl f \<Rightarrow> Fault f
           | Inr i \<Rightarrow>
               if i = length (g_brands (snd st)) then Returns PARSE_ERROR_UNRECOGNISED_BRAND st
               else Returns PARSE_ERROR_NONE
                      (e\<lparr>e_brands := mark (e_brands e) (length (g_brands (snd st))) i\<rparr> # rest,
                       snd st)))"

definition parse_ego_act :: "string \<Rightarrow> ego_state \<Rightarrow> ego_state outcome" where
  "parse_ego_act name st =
     (case fst st of
        [] \<Rightarrow> Returns PARSE_ERROR_MISSING_RECORD_HEADER st
      | e # rest \<Rightarrow>
          Returns PARSE_ERROR_NONE
            (e\<lparr>e_activation := findact (g_activations (snd st)) name\<rparr> # rest, snd st))"

definition parse_ego_time :: "random_value \<Rightarrow> ego_state \<Rightarrow> ego_state outcome" where
  "parse_ego_time time st =
     (case fst st of
        [] \<Rightarrow> Fault Assertion_Failed
      | e # rest \<Rightarrow> Returns PARSE_ERROR_NONE (e\<lparr>e_time := time\<rparr> # rest, snd st))"

definition parse_ego_desc :: "env \<Rightarrow> string \<Rightarrow> ego_state \<Rightarrow> ego_state outcome" where
  "parse_ego_desc env txt st = on_ego (\<lambda>e. e\<lparr>e_text := string_append env (e_text e) txt\<rparr>) st"

definition parse_ego_curse :: "env \<Rightarrow> string \<Rightarrow> int \<Rightarrow> ego_state \<Rightarrow> ego_state outcome" where
  "parse_ego_curse env s pw st =
     (case fst st of
        [] \<Rightarrow> Fault Assertion_Failed
      | e # rest \<Rightarrow>
          (let i = lookup_curse env (g_curses (snd st)) s
           in if i = int (length (g_curses (snd st))) then Returns PARSE_ERROR_UNRECOGNISED_CURSE st
              else (case curse_power_store (e_curses e) (length (g_curses (snd st))) i pw of
                      None \<Rightarrow> Fault Out_Of_Bounds
                    | Some c \<Rightarrow> Returns PARSE_ERROR_NONE (e\<lparr>e_curses := Some c\<rparr> # rest, snd st))))"





section \<open>Artifacts\<close>

type_synonym artifact_state = "artifact list \<times> globals"



text \<open>
  \<open>write_dummy_object_record\<close>.  \<open>z_info->k_max\<close> is incremented first; when the
  reallocation fails the function returns with that.  Otherwise \<open>k_info\<close> has \<open>k_max\<close>
  rows (rows that were not there before are zeroed here; with \<open>k_max\<close> equal to the
  number of rows it is the one new row), and the last row is the dummy: zeroed, given the
  tval of the artifact, its base, the name \<open>"& <name>~"\<close> (cut to the 99 characters that
  fit \<open>mod_name\<close>) and its index.  The loop over \<open>kb_info[0 .. TV_MAX - 1]\<close> stops at the
  first base of that tval, increments its \<open>num_svals\<close> and makes that the sval of the
  dummy; when no base has the tval the function returns \<open>PARSE_ERROR_INTERNAL\<close> with
  the row in the table as it is by then.
\<close>

definition resize_k_info :: "env \<Rightarrow> nat \<Rightarrow> object_kind list \<Rightarrow> object_kind list" where
  "resize_k_info env n k_info = take n k_info @ replicate (n - length k_info) (object_kind_zero env)"

fun first_base_of_tval :: "int \<Rightarrow> nat \<Rightarrow> object_base list \<Rightarrow> nat option" where
  "first_base_of_tval tval i [] = None"
| "first_base_of_tval tval i (b # bs) =
     (if kb_tval b = tval then Some i else first_base_of_tval tval (Suc i) bs)"

definition write_dummy_object_record :: "env \<Rightarrow> string \<Rightarrow> artifact \<Rightarrow> globals \<Rightarrow> parser_error \<times> artifact \<times> globals" where
  "write_dummy_object_record env name art g =
     (let k_max = g_k_max g + 1;
          g1 = g\<lparr>g_k_max := k_max\<rparr>
      in if \<not> mem_realloc_ok env then (PARSE_ERROR_INTERNAL, art, g1)
         else
           (let temp = resize_k_info env (nat k_max) (g_k_info g);
                dummy = (object_kind_zero env)
                          \<lparr>k_tval := a_tval art,
                            k_base := Some (nat (a_tval art)),
                            k_name := Some (take 99 (''& '' @ name @ ''~'')),
                            k_kidx := k_max - 1\<rparr>
            in case first_base_of_tval (k_tval dummy) 0 (take (TV_MAX env) (g_kb_info g)) of
                 None \<Rightarrow>
                   (PARSE_ERROR_INTERNAL, art, g1\<lparr>g_k_info := temp[nat (k_max - 1) := dummy]\<rparr>)
               | Some i \<Rightarrow>
                   (let base = (g_kb_info g ! i)\<lparr>kb_num_svals := kb_num_svals (g_kb_info g ! i) + 1\<rparr>;
                        dummy' = dummy\<lparr>k_sval := kb_num_svals base, k_d_char := CHR ''*'',
                                        k_d_attr := COLOUR_RED env, k_level := -1, k_weight := -1,
                                        k_kind_flags := kf_on (k_kind_flags dummy) (KF_INSTA_ART env)\<rparr>
                    in (PARSE_ERROR_NONE, art\<lparr>a_sval := k_sval dummy'\<rparr>,
                        g1\<lparr>g_k_info := temp[nat (k_max - 1) := dummy'],
                           g_kb_info := (g_kb_info g)[i := base]\<rparr>))))"

definition parse_artifact_base_object :: "env \<Rightarrow> string \<Rightarrow> string \<Rightarrow> artifact_state \<Rightarrow> artifact_state outcome" where
  "parse_artifact_base_object env tv sval_name st =
     (case fst st of
        [] \<Rightarrow> Fault Assertion_Failed
      | a # rest \<Rightarrow>
          (let tval = tval_find_idx env tv
           in if tval < 0 then Returns PARSE_ERROR_UNRECOGNISED_TVAL st
              else
                (let a1 = a\<lparr>a_tval := tval\<rparr>;
                     sval = lookup_sval_silent env (g_k_info (snd st)) (a_tval a1) sval_name
                 in if sval < 0 then
                      (case write_dummy_object_record env sval_name a1 (snd st) of
                         (e, a2, g) \<Rightarrow> Returns e (a2 # rest, g))
                    else Returns PARSE_ERROR_NONE (a1\<lparr>a_sval := sval\<rparr> # rest, snd st))))"

text \<open>
  The callbacks that work on the kind of the artifact look it up with
  \<open>lookup_kind(a->tval, a->sval)\<close>; the result is the index of a row of \<open>k_info\<close>, or
  null.  \<open>parse_artifact_graphics\<close> does so in the initialiser of \<open>k\<close>, before it asserts
  \<open>a\<close>.
\<close>

definition artifact_kind :: "env \<Rightarrow> globals \<Rightarrow> artifact \<Rightarrow> nat option" where
  "artifact_kind env g a =
     (case lookup_kind env (g_k_info g) (a_tval a) (a_sval a) of
        None \<Rightarrow> None
      | Some j \<Rightarrow> if j < length (g_k_info g) then Some j else None)"

definition update_kind :: "globals \<Rightarrow> nat \<Rightarrow> (object_kind \<Rightarrow> object_kind) \<Rightarrow> globals" where
  "update_kind g j upd = g\<lparr>g_k_info := (g_k_info g)[j := upd (g_k_info g ! j)]\<rparr>"

definition parse_artifact_graphics :: "env \<Rightarrow> char \<Rightarrow> string \<Rightarrow> artifact_state \<Rightarrow> artifact_state outcome" where
  "parse_artifact_graphics env glyph color st =
     (case fst st of
        [] \<Rightarrow> Fault Null_Dereference
      | a # rest \<Rightarrow>
          (case artifact_kind env (snd st) a of
             None \<Rightarrow> Fault Assertion_Failed
           | Some j \<Rightarrow>
               if \<not> kf_has (k_kind_flags (g_k_info (snd st) ! j)) (KF_INSTA_ART env)
               then Returns PARSE_ERROR_NOT_SPECIAL_ARTIFACT st
               else Returns PARSE_ERROR_NONE
                      (fst st,
                       update_kind (snd st) j
                         (\<lambda>k. k\<lparr>k_d_char := glyph, k_d_attr := color_to_attr env color\<rparr>))))"

definition parse_artifact_level :: "env \<Rightarrow> int \<Rightarrow> artifact_state \<Rightarrow> artifact_state outcome" where
  "parse_artifact_level env level st =
     (case fst st of
        [] \<Rightarrow> Fault Assertion_Failed
      | a # rest \<Rightarrow>
          (case artifact_kind env (snd st) a of
             None \<Rightarrow> Fault Assertion_Failed
           | Some j \<Rightarrow>
               (let a' = a\<lparr>a_level := level\<rparr>
                in if k_level (g_k_info (snd st) ! j) = -1
                   then Returns PARSE_ERROR_NONE
                          (a' # rest, update_kind (snd st) j (\<lambda>k. k\<lparr>k_level := a_level a'\<rparr>))
                   else Returns PARSE_ERROR_NONE (a' # rest, snd st))))"

definition parse_artifact_weight :: "env \<Rightarrow> int \<Rightarrow> artifact_state \<Rightarrow> artifact_state outcome" where
  "parse_artifact_weight env weight st =
     (case fst st of
        [] \<Rightarrow> Fault Assertion_Failed
      | a # rest \<Rightarrow>
          (case artifact_kind env (snd st) a of
             None \<Rightarrow> Fault Assertion_Failed
           | Some j \<Rightarrow>
               (let a' = a\<lparr>a_weight := weight\<rparr>
                in if k_weight (g_k_info (snd st) ! j) = -1
                   then Returns PARSE_ERROR_NONE
                          (a' # rest, update_kind (snd st) j (\<lambda>k. k\<lparr>k_weight := a_weight a'\<rparr>))
                   else Returns PARSE_ERROR_NONE (a' # rest, snd st))))"

definition on_artifact :: "(artifact \<Rightarrow> artifact) \<Rightarrow> artifact_state \<Rightarrow> artifact_state outcome" where
  "on_artifact upd st =
     (case fst st of
        [] \<Rightarrow> Fault Assertion_Failed
      | a # rest \<Rightarrow> Returns PARSE_ERROR_NONE (upd a # rest, snd st))"

definition parse_artifact_alloc :: "env \<Rightarrow> int \<Rightarrow> string \<Rightarrow> artifact_state \<Rightarrow> artifact_state outcome" where
  "parse_artifact_alloc env common minmax st =
     (case fst st of
        [] \<Rightarrow> Fault Assertion_Failed
      | a # rest \<Rightarrow>
          (case scan_alloc_range env minmax of
             None \<Rightarrow> Returns PARSE_ERROR_INVALID_ALLOCATION (a\<lparr>a_alloc_prob := common\<rparr> # rest, snd st)
           | Some (amin, amax) \<Rightarrow>
               if alloc_out_of_bounds amin amax
               then Returns PARSE_ERROR_OUT_OF_BOUNDS (a\<lparr>a_alloc_prob := common\<rparr> # rest, snd st)
               else Returns PARSE_ERROR_NONE
                      (a\<lparr>a_alloc_prob := common, a_alloc_min := amin, a_alloc_max := amax\<rparr> # rest,
                       snd st)))"

definition parse_artifact_attack :: "random_value \<Rightarrow> int \<Rightarrow> int \<Rightarrow> artifact_state \<Rightarrow> artifact_state outcome" where
  "parse_artifact_attack hd' th td st =
     on_artifact (\<lambda>a. a\<lparr>a_dd := rv_dice hd', a_ds := rv_sides hd', a_to_h := th, a_to_d := td\<rparr>) st"

definition parse_artifact_armor :: "int \<Rightarrow> int \<Rightarrow> artifact_state \<Rightarrow> artifact_state outcome" where
  "parse_artifact_armor ac ta st = on_artifact (\<lambda>a. a\<lparr>a_ac := ac, a_to_a := ta\<rparr>) st"

definition artifact_flags_body :: "env \<Rightarrow> string \<Rightarrow> artifact \<Rightarrow> fault + bool \<times> artifact" where
  "artifact_flags_body env t a =
     (case grab_flag env (a_flags a) (list_obj_flag_names env) t of (e1, fl) \<Rightarrow>
      case grab_element_flag env (a_el_info a) t of
        Inl f \<Rightarrow> Inl f
      | Inr (b2, el) \<Rightarrow> Inr (e1 = PARSE_ERROR_NONE \<or> b2, a\<lparr>a_flags := fl, a_el_info := el\<rparr>))"

definition parse_artifact_flags :: "env \<Rightarrow> string option \<Rightarrow> artifact_state \<Rightarrow> artifact_state outcome" where
  "parse_artifact_flags env flags st =
     (case fst st of
        [] \<Rightarrow> Fault Assertion_Failed
      | a # rest \<Rightarrow>
          (case flags of
             None \<Rightarrow> Returns PARSE_ERROR_NONE st
           | Some fl \<Rightarrow>
               (case scan_tokens (artifact_flags_body env) (strtok_list fl) a of
                  Inl f \<Rightarrow> Fault f
                | Inr (t, a') \<Rightarrow>
                    Returns (if t \<noteq> [] then PARSE_ERROR_INVALID_FLAG else PARSE_ERROR_NONE)
                      (a' # rest, snd st))))"

text \<open>
  For a light (\<open>a->tval == TV_LIGHT\<close>) the act and time callbacks write to the kind of
  the artifact, through the pointer \<open>lookup_kind\<close> returned, without a look at it.
\<close>

definition parse_artifact_act :: "env \<Rightarrow> string \<Rightarrow> artifact_state \<Rightarrow> artifact_state outcome" where
  "parse_artifact_act env name st =
     (case fst st of
        [] \<Rightarrow> Returns PARSE_ERROR_MISSING_RECORD_HEADER st
      | a # rest \<Rightarrow>
          if a_tval a = TV_LIGHT env then
            (case artifact_kind env (snd st) a of
               None \<Rightarrow> Fault Null_Dereference
             | Some j \<Rightarrow>
                 Returns PARSE_ERROR_NONE
                   (fst st,
                    update_kind (snd st) j
                      (\<lambda>k. k\<lparr>k_activation := findact (g_activations (snd st)) name\<rparr>)))
          else Returns PARSE_ERROR_NONE
                 (a\<lparr>a_activation := findact (g_activations (snd st)) name\<rparr> # rest, snd st))"

definition parse_artifact_time :: "env \<Rightarrow> random_value \<Rightarrow> artifact_state \<Rightarrow> artifact_state outcome" where
  "parse_artifact_time env time st =
     (case fst st of
        [] \<Rightarrow> Fault Assertion_Failed
      | a # rest \<Rightarrow>
          if a_tval a = TV_LIGHT env then
            (case artifact_kind env (snd st) a of
               None \<Rightarrow> Fault Null_Dereference
             | Some j \<Rightarrow>
                 Returns PARSE_ERROR_NONE (fst st, update_kind (snd st) j (\<lambda>k. k\<lparr>k_time := time\<rparr>)))
          else Returns PARSE_ERROR_NONE (a\<lparr>a_time := time\<rparr> # rest, snd st))"

definition parse_artifact_msg :: "env \<Rightarrow> string \<Rightarrow> artifact_state \<Rightarrow> artifact_state outcome" where
  "parse_artifact_msg env txt st =
     on_artifact (\<lambda>a. a\<lparr>a_alt_msg := string_append env (a_alt_msg a) txt\<rparr>) st"

definition artifact_values_body :: "env \<Rightarrow> string \<Rightarrow> artifact \<Rightarrow> fault + bool \<times> artifact" where
  "artifact_values_body env t a =
     (let (found1, a1) =
            (case grab_int_value env (obj_mods env) t of
               None \<Rightarrow> (False, a)
             | Some (i, v) \<Rightarrow> (True, a\<lparr>a_modifiers := (a_modifiers a)[i := v]\<rparr>))
      in case grab_index_and_int env (list_element_names env) ''RES_'' t of
           None \<Rightarrow> Inr (found1, a1)
         | Some (v, index) \<Rightarrow>
             (case res_level_store (a_el_info a1) index v of
                None \<Rightarrow> Inl Out_Of_Bounds
              | Some el \<Rightarrow> Inr (True, a1\<lparr>a_el_info := el\<rparr>)))"

definition parse_artifact_values :: "env \<Rightarrow> string \<Rightarrow> artifact_state \<Rightarrow> artifact_state outcome" where
  "parse_artifact_values env vals st =
     (case fst st of
        [] \<Rightarrow> Fault Assertion_Failed
      | a # rest \<Rightarrow>
          (case scan_tokens (artifact_values_body env) (strtok_list vals) a of
             Inl f \<Rightarrow> Fault f
           | Inr (t, a') \<Rightarrow>
               Returns (if t \<noteq> [] then PARSE_ERROR_INVALID_VALUE else PARSE_ERROR_NONE)
                 (a' # rest, snd st)))"

definition parse_artifact_slay :: "string \<Rightarrow> artifact_state \<Rightarrow> artifact_state outcome" where
  "parse_artifact_slay s st =
     (case fst st of
        [] \<Rightarrow> Fault Assertion_Failed
      | a # rest \<Rightarrow>
          (case code_search s (map sl_code (g_slays (snd st))) 0 of
             Inl f \<Rightarrow> Fault f
           | Inr i \<Rightarrow>
               if i = length (g_slays (snd st)) then Returns PARSE_ERROR_UNRECOGNISED_SLAY st
               else Returns PARSE_ERROR_NONE
                      (a\<lparr>a_slays := mark (a_slays a) (length (g_slays (snd st))) i\<rparr> # rest,
                       snd st)))"

definition parse_artifact_brand :: "string \<Rightarrow> artifact_state \<Rightarrow> artifact_state outcome" where
  "parse_artifact_brand s st =
     (case fst st of
        [] \<Rightarrow> Fault Assertion_Failed
      | a # rest \<Rightarrow>
          (case code_search s (map br_code (g_brands (snd st))) 0 of
             Inl f \<Rightarrow> Fault f
           | Inr i \<Rightarrow>
               if i = length (g_brands (snd st)) then Returns PARSE_ERROR_UNRECOGNISED_BRAND st
               else Returns PARSE_ERROR_NONE
                      (a\<lparr>a_brands := mark (a_brands a) (length (g_brands (snd st))) i\<rparr> # rest,
                       snd st)))"

definition parse_artifact_desc :: "env \<Rightarrow> string \<Rightarrow> artifact_state \<Rightarrow> artifact_state outcome" where
  "parse_artifact_desc env txt st =
     on_artifact (\<lambda>a. a\<lparr>a_text := string_append env (a_text a) txt\<rparr>) st"

definition parse_artifact_curse :: "env \<Rightarrow> string \<Rightarrow> int \<Rightarrow> artifact_state \<Rightarrow> artifact_state outcome" where
  "parse_artifact_curse env s pw st =
     (case fst st of
        [] \<Rightarrow> Fault Assertion_Failed
      | a # rest \<Rightarrow>
          (let i = lookup_curse env (g_curses (snd st)) s
           in if i = int (length (g_curses (snd st))) then Returns PARSE_ERROR_UNRECOGNISED_CURSE st
              else (case curse_power_store (a_curses a) (length (g_curses (snd st))) i pw of
                      None \<Rightarrow> Fault Out_Of_Bounds
                    | Some c \<Rightarrow> Returns PARSE_ERROR_NONE (a\<lparr>a_curses := Some c\<rparr> # rest, snd st))))"






section \<open>Object properties\<close>


definition on_property :: "(obj_property \<Rightarrow> obj_property) \<Rightarrow> obj_property list \<Rightarrow> obj_property list outcome" where
  "on_property upd priv =
     (case priv of
        [] \<Rightarrow> Returns PARSE_ERROR_MISSING_RECORD_HEADER priv
      | prop # rest \<Rightarrow> Returns PARSE_ERROR_NONE (upd prop # rest))"

definition parse_object_property_type :: "string \<Rightarrow> obj_property list \<Rightarrow> obj_property list outcome" where
  "parse_object_property_type name priv =
     (case priv of
        [] \<Rightarrow> Returns PARSE_ERROR_MISSING_RECORD_HEADER priv
      | prop # rest \<Rightarrow>
          if name = ''stat'' then Returns PARSE_ERROR_NONE (prop\<lparr>op_type := OBJ_PROPERTY_STAT\<rparr> # rest)
          else if name = ''mod'' then Returns PARSE_ERROR_NONE (prop\<lparr>op_type := OBJ_PROPERTY_MOD\<rparr> # rest)
          else if name = ''flag'' then Returns PARSE_ERROR_NONE (prop\<lparr>op_type := OBJ_PROPERTY_FLAG\<rparr> # rest)
          else if name = ''ignore'' then
            Returns PARSE_ERROR_NONE (prop\<lparr>op_type := OBJ_PROPERTY_IGNORE\<rparr> # rest)
          else if name = ''resistance'' then
            Returns PARSE_ERROR_NONE (prop\<lparr>op_type := OBJ_PROPERTY_RESIST\<rparr> # rest)
          else if name = ''vulnerability'' then
            Returns PARSE_ERROR_NONE (prop\<lparr>op_type := OBJ_PROPERTY_VULN\<rparr> # rest)
          else if name = ''immunity'' then
            Returns PARSE_ERROR_NONE (prop\<lparr>op_type := OBJ_PROPERTY_IMM\<rparr> # rest)
          else Returns PARSE_ERROR_INVALID_PROPERTY priv)"

definition parse_object_property_subtype :: "string \<Rightarrow> obj_property list \<Rightarrow> obj_property list outcome" where
  "parse_object_property_subtype name priv =
     (case priv of
        [] \<Rightarrow> Returns PARSE_ERROR_MISSING_RECORD_HEADER priv
      | prop # rest \<Rightarrow>
          if name = ''sustain'' then Returns PARSE_ERROR_NONE (prop\<lparr>op_subtype := OFT_SUST\<rparr> # rest)
          else if name = ''protection'' then Returns PARSE_ERROR_NONE (prop\<lparr>op_subtype := OFT_PROT\<rparr> # rest)
          else if name = ''misc ability'' then
            Returns PARSE_ERROR_NONE (prop\<lparr>op_subtype := OFT_MISC\<rparr> # rest)
          else if name = ''light'' then Returns PARSE_ERROR_NONE (prop\<lparr>op_subtype := OFT_LIGHT\<rparr> # rest)
          else if name = ''melee'' then Returns PARSE_ERROR_NONE (prop\<lparr>op_subtype := OFT_MELEE\<rparr> # rest)
          else if name = ''bad'' then Returns PARSE_ERROR_NONE (prop\<lparr>op_subtype := OFT_BAD\<rparr> # rest)
          else if name = ''dig'' then Returns PARSE_ERROR_NONE (prop\<lparr>op_subtype := OFT_DIG\<rparr> # rest)
          else if name = ''throw'' then Returns PARSE_ERROR_NONE (prop\<lparr>op_subtype := OFT_THROW\<rparr> # rest)
          else if name = ''other'' then Returns PARSE_ERROR_NONE (prop\<lparr>op_subtype := OFT_OTHER\<rparr> # rest)
          else if name = ''ESP flag'' then Returns PARSE_ERROR_NONE (prop\<lparr>op_subtype := OFT_ESP\<rparr> # rest)
          else Returns PARSE_ERROR_INVALID_SUBTYPE priv)"

definition parse_object_property_id_type :: "string \<Rightarrow> obj_property list \<Rightarrow> obj_property list outcome" where
  "parse_object_property_id_type name priv =
     (case priv of
        [] \<Rightarrow> Returns PARSE_ERROR_MISSING_RECORD_HEADER priv
      | prop # rest \<Rightarrow>
          if name = ''on effect'' then
            Returns PARSE_ERROR_NONE (prop\<lparr>op_id_type := OFID_NORMAL\<rparr> # rest)
          else if name = ''timed'' then Returns PARSE_ERROR_NONE (prop\<lparr>op_id_type := OFID_TIMED\<rparr> # rest)
          else if name = ''on wield'' then
            Returns PARSE_ERROR_NONE (prop\<lparr>op_id_type := OFID_WIELD\<rparr> # rest)
          else Returns PARSE_ERROR_INVALID_ID_TYPE priv)"

definition property_code_index :: "env \<Rightarrow> obj_property_type \<Rightarrow> string \<Rightarrow> int" where
  "property_code_index env ty code =
     (if ty = OBJ_PROPERTY_STAT then code_index_in_array env (obj_mods env) code
      else if ty = OBJ_PROPERTY_MOD then code_index_in_array env (obj_mods env) code
      else if ty = OBJ_PROPERTY_FLAG then code_index_in_array env (list_obj_flag_names env) code
      else if ty = OBJ_PROPERTY_IGNORE then code_index_in_array env (list_element_names env) code
      else if ty = OBJ_PROPERTY_RESIST then code_index_in_array env (list_element_names env) code
      else if ty = OBJ_PROPERTY_VULN then code_index_in_array env (list_element_names env) code
      else if ty = OBJ_PROPERTY_IMM then code_index_in_array env (list_element_names env) code
      else -1)"

definition parse_object_property_code :: "env \<Rightarrow> string \<Rightarrow> obj_property list \<Rightarrow> obj_property list outcome" where
  "parse_object_property_code env code priv =
     (case priv of
        [] \<Rightarrow> Returns PARSE_ERROR_MISSING_RECORD_HEADER priv
      | prop # rest \<Rightarrow>
          if op_type prop = OBJ_PROPERTY_NONE then Returns PARSE_ERROR_MISSING_OBJ_PROP_TYPE priv
          else
            (let index = property_code_index env (op_type prop) code
             in if index \<ge> 0 then Returns PARSE_ERROR_NONE (prop\<lparr>op_index := index\<rparr> # rest)
                else Returns PARSE_ERROR_INVALID_OBJ_PROP_CODE priv))"

definition parse_object_property_power :: "int \<Rightarrow> obj_property list \<Rightarrow> obj_property list outcome" where
  "parse_object_property_power pw priv = on_property (\<lambda>prop. prop\<lparr>op_power := pw\<rparr>) priv"

definition parse_object_property_mult :: "int \<Rightarrow> obj_property list \<Rightarrow> obj_property list outcome" where
  "parse_object_property_mult mult priv = on_property (\<lambda>prop. prop\<lparr>op_mult := mult\<rparr>) priv"

definition parse_object_property_type_mult :: "env \<Rightarrow> string \<Rightarrow> int \<Rightarrow> obj_property list \<Rightarrow> obj_property list outcome" where
  "parse_object_property_type_mult env ty mult priv =
     (case priv of
        [] \<Rightarrow> Returns PARSE_ERROR_MISSING_RECORD_HEADER priv
      | prop # rest \<Rightarrow>
          (let tval = tval_find_idx env ty
           in if tval < 0 then Returns PARSE_ERROR_UNRECOGNISED_TVAL priv
              else (case store (op_type_mult prop) tval mult of
                      None \<Rightarrow> Fault Out_Of_Bounds
                    | Some tm \<Rightarrow> Returns PARSE_ERROR_NONE (prop\<lparr>op_type_mult := tm\<rparr> # rest))))"

definition parse_object_property_adjective :: "string \<Rightarrow> obj_property list \<Rightarrow> obj_property list outcome" where
  "parse_object_property_adjective adj priv =
     on_property (\<lambda>prop. prop\<lparr>op_adjective := Some adj\<rparr>) priv"

definition parse_object_property_neg_adj :: "string \<Rightarrow> obj_property list \<Rightarrow> obj_property list outcome" where
  "parse_object_property_neg_adj adj priv =
     on_property (\<lambda>prop. prop\<lparr>op_neg_adj := Some adj\<rparr>) priv"

definition parse_object_property_msg :: "string \<Rightarrow> obj_property list \<Rightarrow> obj_property list outcome" where
  "parse_object_property_msg msg priv = on_property (\<lambda>prop. prop\<lparr>op_msg := Some msg\<rparr>) priv"

definition parse_object_property_desc :: "string \<Rightarrow> obj_property list \<Rightarrow> obj_property list outcome" where
  "parse_object_property_desc desc priv = on_property (\<lambda>prop. prop\<lparr>op_desc := Some desc\<rparr>) priv"

definition parse_object_property_short_desc :: "string \<Rightarrow> obj_property list \<Rightarrow> obj_property list outcome" where
  "parse_object_property_short_desc desc priv =
     on_property (\<lambda>prop. prop\<lparr>op_short_desc := Some desc\<rparr>) priv"




section \<open>Object power calculations\<close>

type_synonym power_state = "power_calc list \<times> globals"


definition parse_object_power_type :: "env \<Rightarrow> string \<Rightarrow> power_state \<Rightarrow> power_state outcome" where
  "parse_object_power_type env tv st =
     (case fst st of
        [] \<Rightarrow> Returns PARSE_ERROR_MISSING_RECORD_HEADER st
      | c # rest \<Rightarrow>
          (let tval = tval_find_idx env tv
           in if tval < 0 then Returns PARSE_ERROR_UNRECOGNISED_TVAL st
              else if g_k_max (snd st) > int (length (g_k_info (snd st))) then Fault Out_Of_Bounds
              else Returns PARSE_ERROR_NONE
                     (c\<lparr>pc_poss_items :=
                          kinds_of_tval tval 0 (take (nat (g_k_max (snd st))) (g_k_info (snd st)))
                            (pc_poss_items c)\<rparr> # rest,
                      snd st)))"

definition parse_object_power_item :: "env \<Rightarrow> string \<Rightarrow> string \<Rightarrow> power_state \<Rightarrow> power_state outcome" where
  "parse_object_power_item env tv sv st =
     (case fst st of
        [] \<Rightarrow> Returns PARSE_ERROR_MISSING_RECORD_HEADER st
      | c # rest \<Rightarrow>
          (let tval = tval_find_idx env tv
           in if tval < 0 then Returns PARSE_ERROR_UNRECOGNISED_TVAL st
              else (case item_kidx env (snd st) tval sv of
                      None \<Rightarrow> Fault Null_Dereference
                    | Some kidx \<Rightarrow>
                        (let st' = (c\<lparr>pc_poss_items := kidx # pc_poss_items c\<rparr> # rest, snd st)
                         in if kidx \<le> 0 then Returns PARSE_ERROR_INVALID_ITEM_NUMBER st'
                            else Returns PARSE_ERROR_NONE st'))))"

definition parse_object_power_dice :: "env \<Rightarrow> string \<Rightarrow> power_state \<Rightarrow> power_state outcome" where
  "parse_object_power_dice env string st =
     (case fst st of
        [] \<Rightarrow> Returns PARSE_ERROR_MISSING_RECORD_HEADER st
      | c # rest \<Rightarrow>
          (case new_dice env string of
             None \<Rightarrow> Returns PARSE_ERROR_INVALID_DICE st
           | Some dice \<Rightarrow> Returns PARSE_ERROR_NONE (c\<lparr>pc_dice := Some dice\<rparr> # rest, snd st)))"

definition parse_object_power_expr :: "env \<Rightarrow> string \<Rightarrow> string \<Rightarrow> string \<Rightarrow> power_state \<Rightarrow> power_state outcome" where
  "parse_object_power_expr env name base expr st =
     (case fst st of
        [] \<Rightarrow> Returns PARSE_ERROR_MISSING_RECORD_HEADER st
      | c # rest \<Rightarrow>
          (case pc_dice c of
             None \<Rightarrow> Returns PARSE_ERROR_NONE st
           | Some d \<Rightarrow>
               (case bind_expression env (power_calculation_by_name env) name base expr d of
                  (e, d') \<Rightarrow> Returns e (c\<lparr>pc_dice := Some d'\<rparr> # rest, snd st))))"

definition parse_object_power_operation :: "string \<Rightarrow> power_state \<Rightarrow> power_state outcome" where
  "parse_object_power_operation opn st =
     (case fst st of
        [] \<Rightarrow> Returns PARSE_ERROR_MISSING_RECORD_HEADER st
      | c # rest \<Rightarrow>
          if opn = ''add'' then
            Returns PARSE_ERROR_NONE (c\<lparr>pc_operation := POWER_CALC_ADD\<rparr> # rest, snd st)
          else if opn = ''add if positive'' then
            Returns PARSE_ERROR_NONE (c\<lparr>pc_operation := POWER_CALC_ADD_IF_POSITIVE\<rparr> # rest, snd st)
          else if opn = ''square and add if positive'' then
            Returns PARSE_ERROR_NONE
              (c\<lparr>pc_operation := POWER_CALC_SQUARE_ADD_IF_POSITIVE\<rparr> # rest, snd st)
          else if opn = ''multiply'' then
            Returns PARSE_ERROR_NONE (c\<lparr>pc_operation := POWER_CALC_MULTIPLY\<rparr> # rest, snd st)
          else if opn = ''divide'' then
            Returns PARSE_ERROR_NONE (c\<lparr>pc_operation := POWER_CALC_DIVIDE\<rparr> # rest, snd st)
          else Returns PARSE_ERROR_INVALID_OPERATION st)"

definition set_iterate :: "obj_property_type \<Rightarrow> int \<Rightarrow> power_calc \<Rightarrow> power_calc" where
  "set_iterate ty m c = c\<lparr>pc_iterate_property_type := ty, pc_iterate_max := m\<rparr>"

definition parse_object_power_iterate :: "env \<Rightarrow> string \<Rightarrow> power_state \<Rightarrow> power_state outcome" where
  "parse_object_power_iterate env iter st =
     (case fst st of
        [] \<Rightarrow> Returns PARSE_ERROR_MISSING_RECORD_HEADER st
      | c # rest \<Rightarrow>
          if iter = ''modifier'' then
            Returns PARSE_ERROR_NONE (set_iterate OBJ_PROPERTY_MOD (OBJ_MOD_MAX env) c # rest, snd st)
          else if iter = ''resistance'' then
            Returns PARSE_ERROR_NONE
              (set_iterate OBJ_PROPERTY_RESIST (ELEM_XHIGH_MAX env + 1) c # rest, snd st)
          else if iter = ''vulnerability'' then
            Returns PARSE_ERROR_NONE
              (set_iterate OBJ_PROPERTY_VULN (ELEM_BASE_MAX env + 1) c # rest, snd st)
          else if iter = ''immunity'' then
            Returns PARSE_ERROR_NONE
              (set_iterate OBJ_PROPERTY_IMM (ELEM_BASE_MAX env + 1) c # rest, snd st)
          else if iter = ''ignore'' then
            Returns PARSE_ERROR_NONE
              (set_iterate OBJ_PROPERTY_IGNORE (ELEM_BASE_MAX env + 1) c # rest, snd st)
          else if iter = ''flag'' then
            Returns PARSE_ERROR_NONE (set_iterate OBJ_PROPERTY_FLAG (OF_MAX env) c # rest, snd st)
          else Returns PARSE_ERROR_INVALID_ITERATE st)"

definition parse_object_power_apply_to :: "string \<Rightarrow> power_state \<Rightarrow> power_state outcome" where
  "parse_object_power_apply_to apply st =
     (case fst st of
        [] \<Rightarrow> Returns PARSE_ERROR_MISSING_RECORD_HEADER st
      | c # rest \<Rightarrow> Returns PARSE_ERROR_NONE (c\<lparr>pc_apply_to := Some apply\<rparr> # rest, snd st))"




section \<open>Cleanup of the tables\<close>



































section \<open>A small instance of the tables\<close>

text \<open>
  Three elements, four tvals and short tables, with lookups by position and linear
  searches of the finished tables: the concrete environment of the example evaluations
  below.
\<close>

fun index_of :: "nat \<Rightarrow> string list \<Rightarrow> string \<Rightarrow> int" where
  "index_of i [] s = -1"
| "index_of i (x # xs) s = (if x = s then int i else index_of (Suc i) xs s)"

fun example_lookup_sval :: "object_kind list \<Rightarrow> int \<Rightarrow> string \<Rightarrow> int" where
  "example_lookup_sval [] tval name = -1"
| "example_lookup_sval (k # ks) tval name =
     (if k_tval k = tval \<and> k_name k = Some name then k_sval k
      else example_lookup_sval ks tval name)"

fun example_lookup_kind :: "nat \<Rightarrow> object_kind list \<Rightarrow> int \<Rightarrow> int \<Rightarrow> nat option" where
  "example_lookup_kind i [] tval sval = None"
| "example_lookup_kind i (k # ks) tval sval =
     (if k_tval k = tval \<and> k_sval k = sval then Some i
      else example_lookup_kind (Suc i) ks tval sval)"

fun example_lookup_curse :: "nat \<Rightarrow> curse list \<Rightarrow> string \<Rightarrow> int" where
  "example_lookup_curse i [] name = int i"
| "example_lookup_curse i (c # cs) name =
     (if cu_name c = Some name then int i else example_lookup_curse (Suc i) cs name)"

definition example_env :: env where
  "example_env =
     \<lparr>list_element_names = [''ACID'', ''ELEC'', ''FIRE''],
      list_obj_flag_names = [''NONE'', ''PROT_FEAR'', ''SEE_INVIS''],
      r_info_flags = [''NONE'', ''UNIQUE'', ''EVIL''],
      kind_flags = [''NONE'', ''RAND_HI_RES'', ''INSTA_ART''],
      obj_mods = [''STR'', ''STEALTH''],
      TV_MAX = 4,
      FLAG_END = 0,
      KF_INSTA_ART = 2,
      TV_LIGHT = 2,
      COLOUR_RED = 4,
      ELEM_BASE_MIN = 0,
      ELEM_HIGH_MIN = 2,
      ELEM_XHIGH_MAX = 2,
      ELEM_BASE_MAX = 1,
      OF_MAX = 3,
      tval_find_idx = index_of 0 [''none'', ''sword'', ''light'', ''food''],
      lookup_flag = (\<lambda>flag_table flag_name.
         if index_of 0 flag_table flag_name < 0 then 0 else index_of 0 flag_table flag_name),
      message_lookup_by_name = index_of 0 [''MSG_GENERIC'', ''MSG_HIT''],
      color_text_to_attr = index_of 0 [''Dark'', ''White'', ''Slate'', ''Orange'', ''Red''],
      color_char_to_attr = (\<lambda>c. index_of 0 [''d'', ''w'', ''s'', ''o'', ''r''] [c]),
      lookup_monster_base = (\<lambda>name. name = ''dragon''),
      code_index_in_array = index_of 0,
      string_append = (\<lambda>s1 s2. Some ((case s1 of None \<Rightarrow> [] | Some a \<Rightarrow> a) @ s2)),
      scan_alloc_range = (\<lambda>s. if s = ''1 to 100'' then Some (1, 100) else None),
      grab_index_and_int = (\<lambda>names prefix t.
         if prefix = ''RES_'' \<and> t = ''RES_FIRE[1]'' then Some (1, 2)
         else if prefix = [] \<and> t = ''STEALTH[3]'' then Some (3, 1) else None),
      grab_rand_value = (\<lambda>names t.
         if t = ''STEALTH[3]'' then Some (1, random_value_zero\<lparr>rv_base := 3\<rparr>) else None),
      grab_int_value = (\<lambda>names t. if t = ''STEALTH[3]'' then Some (1, 3) else None),
      grab_effect_data = (\<lambda>args ef.
         if ea_eff args = ''HEAL_HP'' then (PARSE_ERROR_NONE, ef\<lparr>ef_index := 1\<rparr>)
         else (PARSE_ERROR_INVALID_VALUE, ef)),
      dice_new = Some (Dice [] []),
      dice_parse_string = (\<lambda>d s. if s = ''2d6'' \<or> s = ''$B'' then Some (Dice s []) else None),
      expression_new = Some (Expression None []),
      spell_value_base_by_name = (\<lambda>s. if s = ''PLAYER_LEVEL'' then Some s else None),
      power_calculation_by_name = (\<lambda>s. if s = ''OBJ_POWER'' then Some s else None),
      expression_set_base_value = (\<lambda>e f. case e of Expression b ops \<Rightarrow> Expression f ops),
      expression_add_operations_string = (\<lambda>e s.
         case e of Expression b ops \<Rightarrow> if s = ''bad'' then (-1, e) else (1, Expression b (ops @ [s]))),
      dice_bind_expression = (\<lambda>d name e.
         case d of Dice s bs \<Rightarrow> if s = ''$'' @ name then (0, Dice s (bs @ [(name, e)])) else (-1, d)),
      lookup_sval = example_lookup_sval,
      lookup_sval_silent = example_lookup_sval,
      lookup_kind = example_lookup_kind 0,
      lookup_curse = example_lookup_curse 0,
      mem_realloc_ok = True\<rparr>"

definition example_globals :: globals where
  "example_globals =
     \<lparr>g_kb_info = [], g_k_info = [], g_k_max = 0, g_slays = [], g_brands = [], g_curses = [],
      g_activations = []\<rparr>"

text \<open>What a callback returned, when it returned.\<close>

definition returned_code :: "'s outcome \<Rightarrow> parser_error option" where
  "returned_code r = (case r of Returns e s \<Rightarrow> Some e | Fault f \<Rightarrow> None)"

definition returned_state :: "'s outcome \<Rightarrow> 's option" where
  "returned_state r = (case r of Returns e s \<Rightarrow> Some s | Fault f \<Rightarrow> None)"

text \<open>
  A state of the artifact parser: four object bases, three object kinds (one of them a
  sword) and one artifact that has only its name.
\<close>

definition example_kinds :: globals where
  "example_kinds =
     \<lparr>g_kb_info =
        [(object_base_zero example_env)\<lparr>kb_tval := 0, kb_num_svals := 1\<rparr>,
         (object_base_zero example_env)\<lparr>kb_tval := 1, kb_num_svals := 1\<rparr>,
         (object_base_zero example_env)\<lparr>kb_tval := 2\<rparr>,
         (object_base_zero example_env)\<lparr>kb_tval := 3, kb_num_svals := 1\<rparr>],
      g_k_info =
        [(object_kind_zero example_env)\<lparr>k_name := Some ''<pile>'', k_sval := 1\<rparr>,
         (object_kind_zero example_env)
           \<lparr>k_name := Some ''Long Sword'', k_tval := 1, k_sval := 1, k_kidx := 1, k_level := 10,
             k_weight := 130\<rparr>,
         (object_kind_zero example_env)
           \<lparr>k_name := Some ''Ration'', k_tval := 3, k_sval := 1, k_kidx := 2\<rparr>],
      g_k_max = 3, g_slays = [], g_brands = [], g_curses = [], g_activations = []\<rparr>"

definition example_artifact :: artifact where
  "example_artifact = (artifact_zero example_env)\<lparr>a_name := Some ''Ringil''\<rparr>"

text \<open>The example state after the dummy kind of the artifact has been appended.\<close>

definition example_kinds_with_dummy :: globals where
  "example_kinds_with_dummy =
     example_kinds
       \<lparr>g_k_max := 4,
         g_k_info := g_k_info example_kinds @
           [(object_kind_zero example_env)
              \<lparr>k_name := Some ''& Ringil~'', k_tval := 1, k_sval := 2, k_kidx := 3, k_level := -1,
                k_weight := -1, k_kind_flags := {2}\<rparr>]\<rparr>"

text \<open>A state of the object-base parser with one base.\<close>

definition example_base_state :: kb_parsedata where
  "example_base_state =
     \<lparr>d_defaults = object_base_zero example_env,
      d_kb = [(object_base_zero example_env)\<lparr>kb_tval := 1\<rparr>]\<rparr>"

text \<open>
  The example kinds with one slay, one brand and one curse, and an ego item that has only
  its name.
\<close>

definition example_tables :: globals where
  "example_tables =
     example_kinds
       \<lparr>g_slays := [slay_zero\<lparr>sl_code := Some ''EVIL_2''\<rparr>],
         g_brands := [brand_zero\<lparr>br_code := Some ''FIRE_3''\<rparr>],
         g_curses := [curse_zero\<lparr>cu_name := Some ''vulnerability''\<rparr>]\<rparr>"

definition example_ego :: ego_item where
  "example_ego = (ego_item_zero example_env)\<lparr>e_name := Some ''of Slay Evil''\<rparr>"

section \<open>Notions the statements below are about\<close>

text \<open>
  The arguments of the code directives of a projection file, in file order; and the
  property of the list hanging from \<open>parser_priv\<close> that the records carry the indices
  \<open>n - 1, ..., 0\<close> from the head on.
\<close>

fun projection_codes :: "projection_line list \<Rightarrow> string list" where
  "projection_codes [] = []"
| "projection_codes (PL_code s # ls) = s # projection_codes ls"
| "projection_codes (l # ls) = projection_codes ls"

definition numbered :: "projection list \<Rightarrow> bool" where
  "numbered priv = (map pj_index priv = rev (map int [0..<length priv]))"

section \<open>What a file assigns to the fields of its records\<close>
















































section \<open>The finish loops\<close>

lemma count_entries_length: "count_entries rs = length rs"
  by (induction rs) simp_all

lemma copy_entries_length: "length (copy_entries fixup rs count tab) = length tab"
  by (induction rs arbitrary: count tab) simp_all

lemma copy_entries_nth:
  "length rs \<le> length tab \<Longrightarrow> j < length tab \<Longrightarrow>
   copy_entries fixup rs (int (length rs) - 1) tab ! j =
     (if j < length rs then fixup (int j) (rev rs ! j) else tab ! j)"
proof (induction rs arbitrary: tab)
  case Nil
  then show ?case by simp
next
  case (Cons r rs)
  have len: "length rs \<le> length (tab[length rs := fixup (int (length rs)) r])"
    using Cons.prems by simp
  have j: "j < length (tab[length rs := fixup (int (length rs)) r])"
    using Cons.prems by simp
  have "copy_entries fixup (r # rs) (int (length (r # rs)) - 1) tab ! j =
        copy_entries fixup rs (int (length rs) - 1) (tab[length rs := fixup (int (length rs)) r]) ! j"
    by simp
  also have "\<dots> = (if j < length rs then fixup (int j) (rev rs ! j)
                    else (tab[length rs := fixup (int (length rs)) r]) ! j)"
    using Cons.IH[OF len j] .
  also have "\<dots> = (if j < length (r # rs) then fixup (int j) (rev (r # rs) ! j) else tab ! j)"
    using Cons.prems by (auto simp: nth_append nth_list_update less_Suc_eq)
  finally show ?case .
qed

lemma finish_table_max: "fst (finish_table fixup zero extra priv) = length priv"
  by (simp add: finish_table_def Let_def count_entries_length)

lemma finish_table_length:
  "length (snd (finish_table fixup zero extra priv)) = length priv + extra"
  by (simp add: finish_table_def Let_def count_entries_length copy_entries_length)

lemma finish_table_nth:
  "j < length priv + extra \<Longrightarrow>
   snd (finish_table fixup zero extra priv) ! j =
     (if j < length priv then fixup (length priv) (int j) (rev priv ! j) else zero)"
  by (simp add: finish_table_def Let_def count_entries_length copy_entries_nth)

section \<open>The token loops\<close>

lemma scan_tokens_all_found:
  "scan_tokens body pre r = Inr ([], r1) \<Longrightarrow> body bad r1 = Inr (False, r2) \<Longrightarrow>
   scan_tokens body (pre @ bad # rest) r = Inr (bad # rest, r2)"
proof (induction pre arbitrary: r)
  case Nil
  then show ?case by simp
next
  case (Cons t ts)
  from Cons.prems(1) obtain r' where
    b: "body t r = Inr (True, r')" and s: "scan_tokens body ts r' = Inr ([], r1)"
    by (auto split: sum.splits prod.splits if_splits)
  from Cons.IH[OF s Cons.prems(2)] b show ?case by simp
qed

lemma grab_flag_not_found:
  "grab_flag env flags flag_table t = (e, fl) \<Longrightarrow> e \<noteq> PARSE_ERROR_NONE \<Longrightarrow> fl = flags"
  by (auto simp: grab_flag_def Let_def split: if_splits)

lemma grab_element_loop_not_found:
  "grab_element_loop prefix suffix names i info = (False, info') \<Longrightarrow> info' = info"
  by (induction names arbitrary: i) (auto split: if_splits)

lemma grab_element_flag_not_found:
  "grab_element_flag env info t = Inr (False, info') \<Longrightarrow> info' = info"
  by (auto simp: grab_element_flag_def split: sum.splits prod.splits if_splits
      dest: grab_element_loop_not_found)

lemma object_base_flags_body_not_found:
  "object_base_flags_body env t kb = Inr (False, kb') \<Longrightarrow> kb' = kb"
  by (auto simp: object_base_flags_body_def split: sum.splits prod.splits
      dest!: grab_flag_not_found grab_element_flag_not_found)

lemma object_flags_body_not_found:
  "object_flags_body env t k = Inr (False, k') \<Longrightarrow> k' = k"
  by (auto simp: object_flags_body_def split: sum.splits prod.splits
      dest!: grab_flag_not_found grab_element_flag_not_found)

lemma ego_flags_body_not_found:
  "ego_flags_body env t e = Inr (False, e') \<Longrightarrow> e' = e"
  by (auto simp: ego_flags_body_def split: sum.splits prod.splits
      dest!: grab_flag_not_found grab_element_flag_not_found)

lemma curse_flags_body_not_found:
  "curse_flags_body env t obj = Inr (False, obj') \<Longrightarrow> obj' = obj"
  by (auto simp: curse_flags_body_def split: sum.splits prod.splits
      dest!: grab_flag_not_found grab_element_flag_not_found)

lemma artifact_flags_body_not_found:
  "artifact_flags_body env t a = Inr (False, a') \<Longrightarrow> a' = a"
  by (auto simp: artifact_flags_body_def split: sum.splits prod.splits
      dest!: grab_flag_not_found grab_element_flag_not_found)

lemma curse_conflict_flags_body_not_found:
  "curse_conflict_flags_body env t c = Inr (False, c') \<Longrightarrow> c' = c"
  by (auto simp: curse_conflict_flags_body_def split: prod.splits dest!: grab_flag_not_found)

lemma curse_values_body_not_found:
  "curse_values_body env t obj = Inr (False, obj') \<Longrightarrow> obj' = obj"
  by (auto simp: curse_values_body_def split: sum.splits prod.splits option.splits)

lemma object_values_body_not_found:
  "object_values_body env t k = Inr (False, k') \<Longrightarrow> k' = k"
  by (auto simp: object_values_body_def split: sum.splits prod.splits option.splits)

lemma ego_values_body_not_found:
  "ego_values_body env t e = Inr (False, e') \<Longrightarrow> e' = e"
  by (auto simp: ego_values_body_def split: sum.splits prod.splits option.splits)

lemma ego_min_val_body_not_found:
  "ego_min_val_body env t e = Inr (False, e') \<Longrightarrow> e' = e"
  by (auto simp: ego_min_val_body_def split: sum.splits prod.splits option.splits)

lemma artifact_values_body_not_found:
  "artifact_values_body env t a = Inr (False, a') \<Longrightarrow> a' = a"
  by (auto simp: artifact_values_body_def split: sum.splits prod.splits option.splits)

lemma projection_pvp_tokens_stop:
  "projection_pvp_tokens pre p = (PARSE_ERROR_NONE, p1) \<Longrightarrow>
   bad \<notin> {''SAVE'', ''DAMAGE'', ''NON_PHYS'', ''RAW''} \<Longrightarrow>
   projection_pvp_tokens (pre @ bad # rest) p = (PARSE_ERROR_INVALID_FLAG, p1)"
  by (induction pre arbitrary: p) (auto split: if_splits)

lemma object_flags_stop:
  assumes toks: "strtok_list s = pre @ bad # rest" "strtok_list sp = pre"
    and ok: "parse_object_flags env sp (k # krest, g) = Returns PARSE_ERROR_NONE (k1 # krest1, g1)"
    and bad: "object_flags_body env bad k1 = Inr (False, k2)"
  shows "parse_object_flags env s (k # krest, g) = Returns PARSE_ERROR_INVALID_FLAG (k1 # krest1, g1)"
proof -
  from ok toks(2) have sc: "scan_tokens (object_flags_body env) pre k = Inr ([], k1)"
    and fr: "krest1 = krest" "g1 = g"
    by (auto simp: parse_object_flags_def split: sum.splits prod.splits if_splits)
  from object_flags_body_not_found[OF bad] bad
  have b: "object_flags_body env bad k1 = Inr (False, k1)" by simp
  from scan_tokens_all_found[OF sc b, of rest] toks(1) fr show ?thesis
    by (simp add: parse_object_flags_def)
qed

lemma object_values_stop:
  assumes toks: "strtok_list s = pre @ bad # rest" "strtok_list sp = pre"
    and ok: "parse_object_values env sp (k # rest0, g) = Returns PARSE_ERROR_NONE (k1 # rest1, g1)"
    and bad: "object_values_body env bad k1 = Inr (False, k2)"
  shows "parse_object_values env s (k # rest0, g) = Returns PARSE_ERROR_INVALID_VALUE (k1 # rest1, g1)"
proof -
  from ok toks(2) have sc: "scan_tokens (object_values_body env) pre k = Inr ([], k1)"
    and fr: "rest1 = rest0" "g1 = g"
    by (auto simp: parse_object_values_def split: sum.splits prod.splits if_splits)
  from object_values_body_not_found[OF bad] bad
  have b: "object_values_body env bad k1 = Inr (False, k1)" by simp
  from scan_tokens_all_found[OF sc b, of rest] toks(1) fr show ?thesis
    by (simp add: parse_object_values_def)
qed

lemma ego_flags_stop:
  assumes toks: "strtok_list s = pre @ bad # rest" "strtok_list sp = pre"
    and ok: "parse_ego_flags env (Some sp) (e # rest0, g) = Returns PARSE_ERROR_NONE (e1 # rest1, g1)"
    and bad: "ego_flags_body env bad e1 = Inr (False, e2)"
  shows "parse_ego_flags env (Some s) (e # rest0, g) = Returns PARSE_ERROR_INVALID_FLAG (e1 # rest1, g1)"
proof -
  from ok toks(2) have sc: "scan_tokens (ego_flags_body env) pre e = Inr ([], e1)"
    and fr: "rest1 = rest0" "g1 = g"
    by (auto simp: parse_ego_flags_def split: sum.splits prod.splits if_splits)
  from ego_flags_body_not_found[OF bad] bad
  have b: "ego_flags_body env bad e1 = Inr (False, e1)" by simp
  from scan_tokens_all_found[OF sc b, of rest] toks(1) fr show ?thesis
    by (simp add: parse_ego_flags_def)
qed

lemma ego_values_stop:
  assumes toks: "strtok_list s = pre @ bad # rest" "strtok_list sp = pre"
    and ok: "parse_ego_values env (Some sp) (e # rest0, g) = Returns PARSE_ERROR_NONE (e1 # rest1, g1)"
    and bad: "ego_values_body env bad e1 = Inr (False, e2)"
  shows "parse_ego_values env (Some s) (e # rest0, g) = Returns PARSE_ERROR_INVALID_VALUE (e1 # rest1, g1)"
proof -
  from ok toks(2) have sc: "scan_tokens (ego_values_body env) pre e = Inr ([], e1)"
    and fr: "rest1 = rest0" "g1 = g"
    by (auto simp: parse_ego_values_def split: sum.splits prod.splits if_splits)
  from ego_values_body_not_found[OF bad] bad
  have b: "ego_values_body env bad e1 = Inr (False, e1)" by simp
  from scan_tokens_all_found[OF sc b, of rest] toks(1) fr show ?thesis
    by (simp add: parse_ego_values_def)
qed

lemma ego_min_val_stop:
  assumes toks: "strtok_list s = pre @ bad # rest" "strtok_list sp = pre"
    and ok: "parse_ego_min_val env (Some sp) (e # rest0, g) = Returns PARSE_ERROR_NONE (e1 # rest1, g1)"
    and bad: "ego_min_val_body env bad e1 = Inr (False, e2)"
  shows "parse_ego_min_val env (Some s) (e # rest0, g) = Returns PARSE_ERROR_INVALID_VALUE (e1 # rest1, g1)"
proof -
  from ok toks(2) have sc: "scan_tokens (ego_min_val_body env) pre e = Inr ([], e1)"
    and fr: "rest1 = rest0" "g1 = g"
    by (auto simp: parse_ego_min_val_def split: sum.splits prod.splits if_splits)
  from ego_min_val_body_not_found[OF bad] bad
  have b: "ego_min_val_body env bad e1 = Inr (False, e1)" by simp
  from scan_tokens_all_found[OF sc b, of rest] toks(1) fr show ?thesis
    by (simp add: parse_ego_min_val_def)
qed

lemma artifact_flags_stop:
  assumes toks: "strtok_list s = pre @ bad # rest" "strtok_list sp = pre"
    and ok: "parse_artifact_flags env (Some sp) (a # rest0, g) = Returns PARSE_ERROR_NONE (a1 # rest1, g1)"
    and bad: "artifact_flags_body env bad a1 = Inr (False, a2)"
  shows "parse_artifact_flags env (Some s) (a # rest0, g) = Returns PARSE_ERROR_INVALID_FLAG (a1 # rest1, g1)"
proof -
  from ok toks(2) have sc: "scan_tokens (artifact_flags_body env) pre a = Inr ([], a1)"
    and fr: "rest1 = rest0" "g1 = g"
    by (auto simp: parse_artifact_flags_def split: sum.splits prod.splits if_splits)
  from artifact_flags_body_not_found[OF bad] bad
  have b: "artifact_flags_body env bad a1 = Inr (False, a1)" by simp
  from scan_tokens_all_found[OF sc b, of rest] toks(1) fr show ?thesis
    by (simp add: parse_artifact_flags_def)
qed

lemma artifact_values_stop:
  assumes toks: "strtok_list s = pre @ bad # rest" "strtok_list sp = pre"
    and ok: "parse_artifact_values env sp (a # rest0, g) = Returns PARSE_ERROR_NONE (a1 # rest1, g1)"
    and bad: "artifact_values_body env bad a1 = Inr (False, a2)"
  shows "parse_artifact_values env s (a # rest0, g) = Returns PARSE_ERROR_INVALID_VALUE (a1 # rest1, g1)"
proof -
  from ok toks(2) have sc: "scan_tokens (artifact_values_body env) pre a = Inr ([], a1)"
    and fr: "rest1 = rest0" "g1 = g"
    by (auto simp: parse_artifact_values_def split: sum.splits prod.splits if_splits)
  from artifact_values_body_not_found[OF bad] bad
  have b: "artifact_values_body env bad a1 = Inr (False, a1)" by simp
  from scan_tokens_all_found[OF sc b, of rest] toks(1) fr show ?thesis
    by (simp add: parse_artifact_values_def)
qed

lemma curse_flags_stop:
  assumes toks: "strtok_list s = pre @ bad # rest" "strtok_list sp = pre"
    and ok: "parse_curse_flags env sp (c # rest0) = Returns PARSE_ERROR_NONE (c1 # rest1)"
    and obj: "cu_obj c1 = Some obj1"
    and bad: "curse_flags_body env bad obj1 = Inr (False, obj2)"
  shows "parse_curse_flags env s (c # rest0) = Returns PARSE_ERROR_INVALID_FLAG (c1 # rest1)"
proof -
  from ok toks(2) obj obtain obj0 where o: "cu_obj c = Some obj0"
    and sc: "scan_tokens (curse_flags_body env) pre obj0 = Inr ([], obj1)"
    and fr: "rest1 = rest0" "c1 = c\<lparr>cu_obj := Some obj1\<rparr>"
    by (auto simp: parse_curse_flags_def split: sum.splits prod.splits if_splits option.splits)
  from curse_flags_body_not_found[OF bad] bad
  have b: "curse_flags_body env bad obj1 = Inr (False, obj1)" by simp
  from scan_tokens_all_found[OF sc b, of rest] toks(1) fr o show ?thesis
    by (simp add: parse_curse_flags_def)
qed

lemma curse_values_stop:
  assumes toks: "strtok_list s = pre @ bad # rest" "strtok_list sp = pre"
    and ok: "parse_curse_values env sp (c # rest0) = Returns PARSE_ERROR_NONE (c1 # rest1)"
    and obj: "cu_obj c1 = Some obj1"
    and bad: "curse_values_body env bad obj1 = Inr (False, obj2)"
  shows "parse_curse_values env s (c # rest0) = Returns PARSE_ERROR_INVALID_VALUE (c1 # rest1)"
proof -
  from ok toks(2) obj obtain obj0 where o: "cu_obj c = Some obj0"
    and sc: "scan_tokens (curse_values_body env) pre obj0 = Inr ([], obj1)"
    and fr: "rest1 = rest0" "c1 = c\<lparr>cu_obj := Some obj1\<rparr>"
    by (auto simp: parse_curse_values_def split: sum.splits prod.splits if_splits option.splits)
  from curse_values_body_not_found[OF bad] bad
  have b: "curse_values_body env bad obj1 = Inr (False, obj1)" by simp
  from scan_tokens_all_found[OF sc b, of rest] toks(1) fr o show ?thesis
    by (simp add: parse_curse_values_def)
qed

lemma curse_conflict_flags_stop:
  assumes toks: "strtok_list s = pre @ bad # rest" "strtok_list sp = pre"
    and ok: "parse_curse_conflict_flags env sp (c # rest0) = Returns PARSE_ERROR_NONE (c1 # rest1)"
    and bad: "curse_conflict_flags_body env bad c1 = Inr (False, c2)"
  shows "parse_curse_conflict_flags env s (c # rest0) = Returns PARSE_ERROR_INVALID_FLAG (c1 # rest1)"
proof -
  from ok toks(2) have sc: "scan_tokens (curse_conflict_flags_body env) pre c = Inr ([], c1)"
    and fr: "rest1 = rest0"
    by (auto simp: parse_curse_conflict_flags_def split: sum.splits prod.splits if_splits)
  from curse_conflict_flags_body_not_found[OF bad] bad
  have b: "curse_conflict_flags_body env bad c1 = Inr (False, c1)" by simp
  from scan_tokens_all_found[OF sc b, of rest] toks(1) fr show ?thesis
    by (simp add: parse_curse_conflict_flags_def)
qed

lemma object_base_flags_stop:
  assumes toks: "strtok_list s = pre @ bad # rest" "strtok_list sp = pre"
    and ok: "parse_object_base_flags env sp d = Returns PARSE_ERROR_NONE d1"
    and kb: "d_kb d1 = kb1 # rest1"
    and bad: "object_base_flags_body env bad kb1 = Inr (False, kb2)"
  shows "parse_object_base_flags env s d = Returns PARSE_ERROR_INVALID_FLAG d1"
proof -
  from ok toks(2) kb obtain kb0 rest0 where d: "d_kb d = kb0 # rest0"
    and sc: "scan_tokens (object_base_flags_body env) pre kb0 = Inr ([], kb1)"
    and fr: "d1 = d\<lparr>d_kb := kb1 # rest0\<rparr>"
    by (auto simp: parse_object_base_flags_def split: sum.splits prod.splits if_splits list.splits)
  from object_base_flags_body_not_found[OF bad] bad
  have b: "object_base_flags_body env bad kb1 = Inr (False, kb1)" by simp
  from scan_tokens_all_found[OF sc b, of rest] toks(1) fr d show ?thesis
    by (simp add: parse_object_base_flags_def)
qed

lemma projection_pvp_flags_stop:
  assumes toks: "strtok_list s = pre @ bad # rest" "strtok_list sp = pre"
    and ok: "parse_projection_pvp_flags (Some sp) (p # rest0) = Returns PARSE_ERROR_NONE (p1 # rest1)"
    and bad: "bad \<notin> {''SAVE'', ''DAMAGE'', ''NON_PHYS'', ''RAW''}"
  shows "parse_projection_pvp_flags (Some s) (p # rest0) = Returns PARSE_ERROR_INVALID_FLAG (p1 # rest1)"
proof -
  from ok toks(2) have sc: "projection_pvp_tokens pre p = (PARSE_ERROR_NONE, p1)"
    and fr: "rest1 = rest0"
    by (auto simp: parse_projection_pvp_flags_def split: prod.splits)
  from projection_pvp_tokens_stop[OF sc bad, of rest] toks(1) fr show ?thesis
    by (simp add: parse_projection_pvp_flags_def)
qed

text \<open>
  Tokens that the matchers can be asked about.  Let the tokens of a flags or values
  string be \<open>pre\<close>, then \<open>bad\<close>, then \<open>rest\<close>, where the string of the tokens \<open>pre\<close>
  alone is accepted by the callback and every matcher of the callback returns "not
  found" for \<open>bad\<close> (which takes, for the flags callbacks with element flags, that
  \<open>bad\<close> fits the buffers of \<^verbatim>\<open>grab_element_flag\<close>).  Then the callback returns
  \<open>PARSE_ERROR_INVALID_FLAG\<close> (\<open>PARSE_ERROR_INVALID_VALUE\<close> for values), and the parser
  state it leaves is the state after the accepted string of the tokens \<open>pre\<close>: what
  they set stays applied, the failing token changes nothing, and the tokens after it
  are not looked at.  This holds for all twelve token loops of obj-init.c.
\<close>

theorem tokenizer_stops_without_rollback:
  assumes "strtok_list s = pre @ bad # rest" and "strtok_list sp = pre"
  shows
   "(parse_object_base_flags env sp d = Returns PARSE_ERROR_NONE d1 \<and> d_kb d1 = kb1 # kbrest1
       \<and> object_base_flags_body env bad kb1 = Inr (False, kb2) \<longrightarrow>
       parse_object_base_flags env s d = Returns PARSE_ERROR_INVALID_FLAG d1)
  \<and> (parse_object_flags env sp (k # krest, g) = Returns PARSE_ERROR_NONE (k1 # krest1, g1)
       \<and> object_flags_body env bad k1 = Inr (False, k2) \<longrightarrow>
       parse_object_flags env s (k # krest, g) = Returns PARSE_ERROR_INVALID_FLAG (k1 # krest1, g1))
  \<and> (parse_object_values env sp (k # krest, g) = Returns PARSE_ERROR_NONE (k1 # krest1, g1)
       \<and> object_values_body env bad k1 = Inr (False, k2) \<longrightarrow>
       parse_object_values env s (k # krest, g) = Returns PARSE_ERROR_INVALID_VALUE (k1 # krest1, g1))
  \<and> (parse_ego_flags env (Some sp) (e # erest, g) = Returns PARSE_ERROR_NONE (e1 # erest1, g1)
       \<and> ego_flags_body env bad e1 = Inr (False, e2) \<longrightarrow>
       parse_ego_flags env (Some s) (e # erest, g) = Returns PARSE_ERROR_INVALID_FLAG (e1 # erest1, g1))
  \<and> (parse_ego_values env (Some sp) (e # erest, g) = Returns PARSE_ERROR_NONE (e1 # erest1, g1)
       \<and> ego_values_body env bad e1 = Inr (False, e2) \<longrightarrow>
       parse_ego_values env (Some s) (e # erest, g) = Returns PARSE_ERROR_INVALID_VALUE (e1 # erest1, g1))
  \<and> (parse_ego_min_val env (Some sp) (e # erest, g) = Returns PARSE_ERROR_NONE (e1 # erest1, g1)
       \<and> ego_min_val_body env bad e1 = Inr (False, e2) \<longrightarrow>
       parse_ego_min_val env (Some s) (e # erest, g) = Returns PARSE_ERROR_INVALID_VALUE (e1 # erest1, g1))
  \<and> (parse_artifact_flags env (Some sp) (a # arest, g) = Returns PARSE_ERROR_NONE (a1 # arest1, g1)
       \<and> artifact_flags_body env bad a1 = Inr (False, a2) \<longrightarrow>
       parse_artifact_flags env (Some s) (a # arest, g) = Returns PARSE_ERROR_INVALID_FLAG (a1 # arest1, g1))
  \<and> (parse_artifact_values env sp (a # arest, g) = Returns PARSE_ERROR_NONE (a1 # arest1, g1)
       \<and> artifact_values_body env bad a1 = Inr (False, a2) \<longrightarrow>
       parse_artifact_values env s (a # arest, g) = Returns PARSE_ERROR_INVALID_VALUE (a1 # arest1, g1))
  \<and> (parse_curse_flags env sp (c # crest) = Returns PARSE_ERROR_NONE (c1 # crest1)
       \<and> cu_obj c1 = Some obj1 \<and> curse_flags_body env bad obj1 = Inr (False, obj2) \<longrightarrow>
       parse_curse_flags env s (c # crest) = Returns PARSE_ERROR_INVALID_FLAG (c1 # crest1))
  \<and> (parse_curse_values env sp (c # crest) = Returns PARSE_ERROR_NONE (c1 # crest1)
       \<and> cu_obj c1 = Some obj1 \<and> curse_values_body env bad obj1 = Inr (False, obj2) \<longrightarrow>
       parse_curse_values env s (c # crest) = Returns PARSE_ERROR_INVALID_VALUE (c1 # crest1))
  \<and> (parse_curse_conflict_flags env sp (c # crest) = Returns PARSE_ERROR_NONE (c1 # crest1)
       \<and> curse_conflict_flags_body env bad c1 = Inr (False, c2) \<longrightarrow>
       parse_curse_conflict_flags env s (c # crest) = Returns PARSE_ERROR_INVALID_FLAG (c1 # crest1))
  \<and> (parse_projection_pvp_flags (Some sp) (p # prest) = Returns PARSE_ERROR_NONE (p1 # prest1)
       \<and> bad \<notin> {''SAVE'', ''DAMAGE'', ''NON_PHYS'', ''RAW''} \<longrightarrow>
       parse_projection_pvp_flags (Some s) (p # prest) = Returns PARSE_ERROR_INVALID_FLAG (p1 # prest1))"
  apply (intro conjI impI)
  subgoal by (elim conjE) (rule object_base_flags_stop[OF assms]; assumption)
  subgoal by (elim conjE) (rule object_flags_stop[OF assms]; assumption)
  subgoal by (elim conjE) (rule object_values_stop[OF assms]; assumption)
  subgoal by (elim conjE) (rule ego_flags_stop[OF assms]; assumption)
  subgoal by (elim conjE) (rule ego_values_stop[OF assms]; assumption)
  subgoal by (elim conjE) (rule ego_min_val_stop[OF assms]; assumption)
  subgoal by (elim conjE) (rule artifact_flags_stop[OF assms]; assumption)
  subgoal by (elim conjE) (rule artifact_values_stop[OF assms]; assumption)
  subgoal by (elim conjE) (rule curse_flags_stop[OF assms]; assumption)
  subgoal by (elim conjE) (rule curse_values_stop[OF assms]; assumption)
  subgoal by (elim conjE) (rule curse_conflict_flags_stop[OF assms]; assumption)
  subgoal by (elim conjE) (rule projection_pvp_flags_stop[OF assms]; assumption)
  done

lemma example_flag_tokens:
  "strtok_list ''PROT_FEAR | IGNORE_ACID | BOGUS | SEE_INVIS'' =
     [''PROT_FEAR'', ''IGNORE_ACID''] @ ''BOGUS'' # [''SEE_INVIS'']"
  "strtok_list ''PROT_FEAR | IGNORE_ACID'' = [''PROT_FEAR'', ''IGNORE_ACID'']"
  by (simp_all add: strtok_list_def)

lemma example_value_tokens:
  "strtok_list ''STEALTH[3] | BOGUS[1] | RES_FIRE[1]'' =
     [''STEALTH[3]''] @ ''BOGUS[1]'' # [''RES_FIRE[1]'']"
  "strtok_list ''STEALTH[3]'' = [''STEALTH[3]'']"
  by (simp_all add: strtok_list_def)

lemma example_grab_element_flag:
  "grab_element_flag example_env info ''PROT_FEAR'' = Inr (False, info)"
  "grab_element_flag example_env info ''BOGUS'' = Inr (False, info)"
  "grab_element_flag example_env info ''IGNORE_ACID'' =
     Inr (True, info[0 := (info ! 0)\<lparr>el_flags := insert EL_INFO_IGNORE (el_flags (info ! 0))\<rparr>])"
  by (simp_all add: grab_element_flag_def sscanf_prefix_suffix_def isspace_def example_env_def)

lemma example_grab_flag:
  "grab_flag example_env fl (list_obj_flag_names example_env) ''PROT_FEAR'' = (PARSE_ERROR_NONE, insert 1 fl)"
  "grab_flag example_env fl (list_obj_flag_names example_env) ''IGNORE_ACID'' = (PARSE_ERROR_INVALID_FLAG, fl)"
  "grab_flag example_env fl (list_obj_flag_names example_env) ''BOGUS'' = (PARSE_ERROR_INVALID_FLAG, fl)"
  "grab_flag example_env fl (kind_flags example_env) ''PROT_FEAR'' = (PARSE_ERROR_INVALID_FLAG, fl)"
  "grab_flag example_env fl (kind_flags example_env) ''IGNORE_ACID'' = (PARSE_ERROR_INVALID_FLAG, fl)"
  "grab_flag example_env fl (kind_flags example_env) ''BOGUS'' = (PARSE_ERROR_INVALID_FLAG, fl)"
  by (simp_all add: grab_flag_def example_env_def)

lemma grab_element_flag_long_token:
  "grab_element_flag env info ''ABCDEFGHIJKLMNOPQRST_X'' = Inl Buffer_Overflow"
  by (simp add: grab_element_flag_def sscanf_prefix_suffix_def)

theorem tokenizer_stops_without_rollback_witness:
  "parse_object_base_flags example_env ''PROT_FEAR | IGNORE_ACID'' example_base_state =
     Returns PARSE_ERROR_NONE
       (example_base_state
          \<lparr>d_kb := [(object_base_zero example_env)
               \<lparr>kb_tval := 1, kb_flags := {1},
                 kb_el_info := [element_info_zero\<lparr>el_flags := {EL_INFO_IGNORE}\<rparr>,
                                element_info_zero, element_info_zero]\<rparr>]\<rparr>)
 \<and> parse_object_base_flags example_env ''PROT_FEAR | IGNORE_ACID | BOGUS | SEE_INVIS''
       example_base_state =
     Returns PARSE_ERROR_INVALID_FLAG
       (example_base_state
          \<lparr>d_kb := [(object_base_zero example_env)
               \<lparr>kb_tval := 1, kb_flags := {1},
                 kb_el_info := [element_info_zero\<lparr>el_flags := {EL_INFO_IGNORE}\<rparr>,
                                element_info_zero, element_info_zero]\<rparr>]\<rparr>)
 \<and> parse_object_values example_env ''STEALTH[3]'' ([object_kind_zero example_env], example_kinds) =
     Returns PARSE_ERROR_NONE
       ([(object_kind_zero example_env)
           \<lparr>k_modifiers := [random_value_zero, random_value_zero\<lparr>rv_base := 3\<rparr>]\<rparr>], example_kinds)
 \<and> parse_object_values example_env ''STEALTH[3] | BOGUS[1] | RES_FIRE[1]''
       ([object_kind_zero example_env], example_kinds) =
     Returns PARSE_ERROR_INVALID_VALUE
       ([(object_kind_zero example_env)
           \<lparr>k_modifiers := [random_value_zero, random_value_zero\<lparr>rv_base := 3\<rparr>]\<rparr>], example_kinds)"
proof -
  let ?kb1 = "(object_base_zero example_env)
               \<lparr>kb_tval := 1, kb_flags := {1},
                 kb_el_info := [element_info_zero\<lparr>el_flags := {EL_INFO_IGNORE}\<rparr>,
                                element_info_zero, element_info_zero]\<rparr>"
  let ?d1 = "example_base_state\<lparr>d_kb := [?kb1]\<rparr>"
  let ?k1 = "(object_kind_zero example_env)
           \<lparr>k_modifiers := [random_value_zero, random_value_zero\<lparr>rv_base := 3\<rparr>]\<rparr>"
  have f1: "parse_object_base_flags example_env ''PROT_FEAR | IGNORE_ACID'' example_base_state =
     Returns PARSE_ERROR_NONE ?d1"
    by (simp add: parse_object_base_flags_def example_flag_tokens object_base_flags_body_def
        example_grab_element_flag example_grab_flag example_base_state_def object_base_zero_def
        el_info_zero_def)
       (simp add: example_env_def element_info_zero_def)
  have f2: "d_kb ?d1 = ?kb1 # []" by simp
  have f3: "object_base_flags_body example_env ''BOGUS'' ?kb1 = Inr (False, ?kb1)"
    by (simp add: object_base_flags_body_def example_grab_element_flag example_grab_flag
        object_base_zero_def)
  have v1: "parse_object_values example_env ''STEALTH[3]'' ([object_kind_zero example_env], example_kinds) =
     Returns PARSE_ERROR_NONE ([?k1], example_kinds)"
    by (simp add: parse_object_values_def example_value_tokens object_values_body_def
        object_kind_zero_def)
       (simp add: example_env_def)
  have v3: "object_values_body example_env ''BOGUS[1]'' ?k1 = Inr (False, ?k1)"
    by (simp add: object_values_body_def) (simp add: example_env_def)
  note tf = tokenizer_stops_without_rollback[OF example_flag_tokens,
      where env = example_env and d = example_base_state and ?d1.0 = ?d1 and ?kb1.0 = ?kb1
        and ?kbrest1.0 = "[]" and ?kb2.0 = ?kb1]
  note tv = tokenizer_stops_without_rollback[OF example_value_tokens,
      where env = example_env and k = "object_kind_zero example_env" and krest = "[]"
        and g = example_kinds and ?k1.0 = ?k1 and ?krest1.0 = "[]" and ?g1.0 = example_kinds
        and ?k2.0 = ?k1]
  from tf[THEN conjunct1] f1 f2 f3 have f4:
    "parse_object_base_flags example_env ''PROT_FEAR | IGNORE_ACID | BOGUS | SEE_INVIS''
       example_base_state = Returns PARSE_ERROR_INVALID_FLAG ?d1"
    by blast
  from tv[THEN conjunct2, THEN conjunct2, THEN conjunct1] v1 v3 have v4:
    "parse_object_values example_env ''STEALTH[3] | BOGUS[1] | RES_FIRE[1]''
       ([object_kind_zero example_env], example_kinds) = Returns PARSE_ERROR_INVALID_VALUE ([?k1], example_kinds)"
    by blast
  show ?thesis
    using f1 f4 v1 v4 by simp
qed

text \<open>
  C4.  A flags string with one token that matches no matcher, after valid tokens only,
  should give \<^verbatim>\<open>PARSE_ERROR_INVALID_FLAG\<close> with the flags of the earlier tokens applied.
  Every flags callback that knows element flags hands each token to
  \<^verbatim>\<open>grab_element_flag\<close>, which scans it with \<^verbatim>\<open>sscanf(flag_name, "%[^_]_%s", prefix, suffix)\<close>
  into \<^verbatim>\<open>char prefix[20], suffix[20]\<close> with no field width.  In the example tables the
  token \<^verbatim>\<open>IGNORE_AAAAAAAAAAAAAAAAAAAA\<close> is no object flag, no kind flag and no element flag;
  its twenty characters after the underscore do not fit \<^verbatim>\<open>suffix\<close> with the terminating
  NUL, so the callback overruns the buffer and returns no error code, where the string
  of the first token alone is accepted.
\<close>

theorem flags_token_overruns_buffer:
  "strtok_list ''PROT_FEAR | IGNORE_AAAAAAAAAAAAAAAAAAAA | SEE_INVIS'' =
     [''PROT_FEAR'', ''IGNORE_AAAAAAAAAAAAAAAAAAAA'', ''SEE_INVIS'']
 \<and> parse_object_base_flags example_env ''PROT_FEAR'' example_base_state =
     Returns PARSE_ERROR_NONE
       (example_base_state\<lparr>d_kb := [(object_base_zero example_env)\<lparr>kb_tval := 1, kb_flags := {1}\<rparr>]\<rparr>)
 \<and> grab_flag example_env {1} (list_obj_flag_names example_env) ''IGNORE_AAAAAAAAAAAAAAAAAAAA'' =
     (PARSE_ERROR_INVALID_FLAG, {1})
 \<and> grab_flag example_env {} (kind_flags example_env) ''IGNORE_AAAAAAAAAAAAAAAAAAAA'' =
     (PARSE_ERROR_INVALID_FLAG, {})
 \<and> ''AAAAAAAAAAAAAAAAAAAA'' \<notin> set (list_element_names example_env)
 \<and> parse_object_base_flags example_env
       ''PROT_FEAR | IGNORE_AAAAAAAAAAAAAAAAAAAA | SEE_INVIS'' example_base_state =
     Fault Buffer_Overflow
 \<and> parse_object_flags example_env
       ''PROT_FEAR | IGNORE_AAAAAAAAAAAAAAAAAAAA | SEE_INVIS''
       ([object_kind_zero example_env], example_kinds) =
     Fault Buffer_Overflow"
proof -
  have toks: "strtok_list ''PROT_FEAR | IGNORE_AAAAAAAAAAAAAAAAAAAA | SEE_INVIS'' =
     [''PROT_FEAR'', ''IGNORE_AAAAAAAAAAAAAAAAAAAA'', ''SEE_INVIS'']"
    "strtok_list ''PROT_FEAR'' = [''PROT_FEAR'']"
    by (simp_all add: strtok_list_def)
  have long: "grab_element_flag example_env info ''IGNORE_AAAAAAAAAAAAAAAAAAAA'' = Inl Buffer_Overflow"
    for info
    by (simp add: grab_element_flag_def sscanf_prefix_suffix_def isspace_def)
  have short: "grab_element_flag example_env info ''PROT_FEAR'' = Inr (False, info)" for info
    by (simp add: grab_element_flag_def sscanf_prefix_suffix_def isspace_def example_env_def)
  have gf: "grab_flag example_env fl (list_obj_flag_names example_env) ''PROT_FEAR''
              = (PARSE_ERROR_NONE, insert 1 fl)"
    "grab_flag example_env fl (kind_flags example_env) ''PROT_FEAR'' = (PARSE_ERROR_INVALID_FLAG, fl)"
    "grab_flag example_env fl (list_obj_flag_names example_env) ''IGNORE_AAAAAAAAAAAAAAAAAAAA''
       = (PARSE_ERROR_INVALID_FLAG, fl)"
    "grab_flag example_env fl (kind_flags example_env) ''IGNORE_AAAAAAAAAAAAAAAAAAAA''
       = (PARSE_ERROR_INVALID_FLAG, fl)" for fl
    by (simp_all add: grab_flag_def example_env_def)
  have ok: "parse_object_base_flags example_env ''PROT_FEAR'' example_base_state =
     Returns PARSE_ERROR_NONE
       (example_base_state\<lparr>d_kb := [(object_base_zero example_env)\<lparr>kb_tval := 1, kb_flags := {1}\<rparr>]\<rparr>)"
    by (simp add: parse_object_base_flags_def toks object_base_flags_body_def gf short
        example_base_state_def object_base_zero_def)
  have el: "''AAAAAAAAAAAAAAAAAAAA'' \<notin> set (list_element_names example_env)"
    by (simp add: example_env_def)
  have bad1: "parse_object_base_flags example_env
       ''PROT_FEAR | IGNORE_AAAAAAAAAAAAAAAAAAAA | SEE_INVIS'' example_base_state =
     Fault Buffer_Overflow"
    by (simp add: parse_object_base_flags_def toks object_base_flags_body_def gf short long
        example_base_state_def)
  have bad2: "parse_object_flags example_env
       ''PROT_FEAR | IGNORE_AAAAAAAAAAAAAAAAAAAA | SEE_INVIS''
       ([object_kind_zero example_env], example_kinds) =
     Fault Buffer_Overflow"
    by (simp add: parse_object_flags_def toks object_flags_body_def gf short long)
  show ?thesis
    using toks(1) ok gf(3)[of "{1}"] gf(4)[of "{}"] el bad1 bad2 by simp
qed

section \<open>Dice and expr directives without their prerequisite\<close>

text \<open>
  C5.  On an existing record, a dice or expr directive that finds no effect, and an expr
  directive that finds no dice (in the newest effect; in the power calculation itself
  for power calculations), returns \<open>PARSE_ERROR_NONE\<close> and leaves the parser state as
  it was.  This covers every record type that has such directives: curses, activations,
  object kinds and power calculations (whose dice directive has no prerequisite).
\<close>

theorem dice_expr_without_prerequisite:
  "(cu_obj c = Some obj \<and> ob_effect obj = [] \<longrightarrow>
      parse_curse_dice env s (c # crest) = Returns PARSE_ERROR_NONE (c # crest)
    \<and> parse_curse_expr env n b x (c # crest) = Returns PARSE_ERROR_NONE (c # crest))
 \<and> (cu_obj c = Some obj \<and> ob_effect obj = ef # efs \<and> ef_dice ef = None \<longrightarrow>
      parse_curse_expr env n b x (c # crest) = Returns PARSE_ERROR_NONE (c # crest))
 \<and> (act_effect a = [] \<longrightarrow>
      parse_act_dice env s (a # arest) = Returns PARSE_ERROR_NONE (a # arest)
    \<and> parse_act_expr env n b x (a # arest) = Returns PARSE_ERROR_NONE (a # arest))
 \<and> (act_effect a = ef # efs \<and> ef_dice ef = None \<longrightarrow>
      parse_act_expr env n b x (a # arest) = Returns PARSE_ERROR_NONE (a # arest))
 \<and> (k_effect k = [] \<longrightarrow>
      parse_object_dice env s (k # krest, g) = Returns PARSE_ERROR_NONE (k # krest, g)
    \<and> parse_object_expr env n b x (k # krest, g) = Returns PARSE_ERROR_NONE (k # krest, g))
 \<and> (k_effect k = ef # efs \<and> ef_dice ef = None \<longrightarrow>
      parse_object_expr env n b x (k # krest, g) = Returns PARSE_ERROR_NONE (k # krest, g))
 \<and> (pc_dice pc = None \<longrightarrow>
      parse_object_power_expr env n b x (pc # prest, g) = Returns PARSE_ERROR_NONE (pc # prest, g))"
proof -
  have curse1: "parse_curse_dice env s (c # crest) = Returns PARSE_ERROR_NONE (c # crest)"
    if "cu_obj c = Some obj" "ob_effect obj = []"
    using that by (simp add: parse_curse_dice_def on_curse_obj_def on_ob_effect_def effect_dice_def)
  have curse2: "parse_curse_expr env n b x (c # crest) = Returns PARSE_ERROR_NONE (c # crest)"
    if "cu_obj c = Some obj" "ob_effect obj = []"
    using that by (simp add: parse_curse_expr_def on_curse_obj_def on_ob_effect_def effect_expr_def)
  have curse3: "parse_curse_expr env n b x (c # crest) = Returns PARSE_ERROR_NONE (c # crest)"
    if "cu_obj c = Some obj" "ob_effect obj = ef # efs" "ef_dice ef = None"
    using that by (simp add: parse_curse_expr_def on_curse_obj_def on_ob_effect_def effect_expr_def)
  have act1: "parse_act_dice env s (a # arest) = Returns PARSE_ERROR_NONE (a # arest)"
    if "act_effect a = []"
    using that by (simp add: parse_act_dice_def on_act_effect_def effect_dice_def)
  have act2: "parse_act_expr env n b x (a # arest) = Returns PARSE_ERROR_NONE (a # arest)"
    if "act_effect a = []"
    using that by (simp add: parse_act_expr_def on_act_effect_def effect_expr_def)
  have act3: "parse_act_expr env n b x (a # arest) = Returns PARSE_ERROR_NONE (a # arest)"
    if "act_effect a = ef # efs" "ef_dice ef = None"
    using that by (simp add: parse_act_expr_def on_act_effect_def effect_expr_def)
  have obj1: "parse_object_dice env s (k # krest, g) = Returns PARSE_ERROR_NONE (k # krest, g)"
    if "k_effect k = []"
    using that by (simp add: parse_object_dice_def on_kind_effect_def effect_dice_def)
  have obj2: "parse_object_expr env n b x (k # krest, g) = Returns PARSE_ERROR_NONE (k # krest, g)"
    if "k_effect k = []"
    using that by (simp add: parse_object_expr_def on_kind_effect_def effect_expr_def)
  have obj3: "parse_object_expr env n b x (k # krest, g) = Returns PARSE_ERROR_NONE (k # krest, g)"
    if "k_effect k = ef # efs" "ef_dice ef = None"
    using that by (simp add: parse_object_expr_def on_kind_effect_def effect_expr_def)
  have pow: "parse_object_power_expr env n b x (pc # prest, g) = Returns PARSE_ERROR_NONE (pc # prest, g)"
    if "pc_dice pc = None"
    using that by (simp add: parse_object_power_expr_def)
  show ?thesis
    using curse1 curse2 curse3 act1 act2 act3 obj1 obj2 obj3 pow by blast
qed

theorem dice_expr_without_prerequisite_witness:
  "parse_curse_dice example_env ''2d6'' [curse_zero\<lparr>cu_obj := Some (object_new example_env)\<rparr>]
     = Returns PARSE_ERROR_NONE [curse_zero\<lparr>cu_obj := Some (object_new example_env)\<rparr>]
 \<and> parse_curse_expr example_env ''B'' ''PLAYER_LEVEL'' ''+ 1''
       [curse_zero\<lparr>cu_obj := Some ((object_new example_env)\<lparr>ob_effect := [effect_zero]\<rparr>)\<rparr>]
     = Returns PARSE_ERROR_NONE
       [curse_zero\<lparr>cu_obj := Some ((object_new example_env)\<lparr>ob_effect := [effect_zero]\<rparr>)\<rparr>]
 \<and> parse_act_dice example_env ''2d6'' [activation_zero] = Returns PARSE_ERROR_NONE [activation_zero]
 \<and> parse_act_expr example_env ''B'' ''PLAYER_LEVEL'' ''+ 1'' [activation_zero\<lparr>act_effect := [effect_zero]\<rparr>]
     = Returns PARSE_ERROR_NONE [activation_zero\<lparr>act_effect := [effect_zero]\<rparr>]
 \<and> parse_object_dice example_env ''2d6'' ([object_kind_zero example_env], example_globals)
     = Returns PARSE_ERROR_NONE ([object_kind_zero example_env], example_globals)
 \<and> parse_object_expr example_env ''B'' ''PLAYER_LEVEL'' ''+ 1''
       ([(object_kind_zero example_env)\<lparr>k_effect := [effect_zero]\<rparr>], example_globals)
     = Returns PARSE_ERROR_NONE
       ([(object_kind_zero example_env)\<lparr>k_effect := [effect_zero]\<rparr>], example_globals)
 \<and> parse_object_power_expr example_env ''B'' ''OBJ_POWER'' ''+ 1'' ([power_calc_zero], example_globals)
     = Returns PARSE_ERROR_NONE ([power_calc_zero], example_globals)"
proof -
  note t0 = dice_expr_without_prerequisite
    [where c = "curse_zero\<lparr>cu_obj := Some (object_new example_env)\<rparr>"
       and obj = "object_new example_env" and a = activation_zero
       and k = "object_kind_zero example_env" and pc = power_calc_zero and env = example_env
       and s = "''2d6''" and n = "''B''" and b = "''PLAYER_LEVEL''" and x = "''+ 1''"
       and crest = "[]" and arest = "[]" and krest = "[]" and prest = "[]" and g = example_globals]
  note t1 = dice_expr_without_prerequisite
    [where c = "curse_zero\<lparr>cu_obj := Some ((object_new example_env)\<lparr>ob_effect := [effect_zero]\<rparr>)\<rparr>"
       and obj = "(object_new example_env)\<lparr>ob_effect := [effect_zero]\<rparr>"
       and a = "activation_zero\<lparr>act_effect := [effect_zero]\<rparr>"
       and k = "(object_kind_zero example_env)\<lparr>k_effect := [effect_zero]\<rparr>"
       and ef = effect_zero and efs = "[]" and pc = power_calc_zero and env = example_env
       and n = "''B''" and b = "''PLAYER_LEVEL''" and x = "''+ 1''"
       and crest = "[]" and arest = "[]" and krest = "[]" and prest = "[]" and g = example_globals]
  note t2 = dice_expr_without_prerequisite
    [where pc = power_calc_zero and env = example_env
       and n = "''B''" and b = "''OBJ_POWER''" and x = "''+ 1''" and prest = "[]" and g = example_globals]
  have z: "ob_effect (object_new example_env) = []" "act_effect activation_zero = []"
    "k_effect (object_kind_zero example_env) = []" "pc_dice power_calc_zero = None"
    "ef_dice effect_zero = None"
    by (simp_all add: object_new_def activation_zero_def object_kind_zero_def power_calc_zero_def
        effect_zero_def)
  show ?thesis
    using t0 t1 t2 z by simp
qed

section \<open>Projection codes and the element list\<close>

lemma projection_pvp_tokens_index:
  "projection_pvp_tokens ts p = (e, p') \<Longrightarrow> pj_index p' = pj_index p"
  by (induction ts arbitrary: p) (auto split: if_splits)

lemma projection_field_line:
  assumes "init_parse_projection env l priv = Returns e priv'" and "\<forall>s. l \<noteq> PL_code s"
  shows "map pj_index priv' = map pj_index priv"
  using assms
  by (cases l)
     (auto simp: parse_projection_name_def parse_projection_type_def parse_projection_desc_def
        parse_projection_blind_desc_def parse_projection_lash_desc_def
        parse_projection_numerator_def parse_projection_denominator_def
        parse_projection_divisor_def parse_projection_damage_cap_def
        parse_projection_message_type_def parse_projection_obvious_def
        parse_projection_color_def parse_projection_pvp_flags_def parse_projection_threat_def
        parse_projection_threat_flag_def Let_def
        dest: projection_pvp_tokens_index
        split: list.splits if_splits option.splits prod.splits)

lemma numbered_next:
  "numbered priv \<Longrightarrow> (case priv of [] \<Rightarrow> 0 | h # _ \<Rightarrow> pj_index h + 1) = int (length priv)"
  by (cases priv) (auto simp: numbered_def)

lemma projection_code_line:
  assumes "parse_projection_code env s priv = Returns PARSE_ERROR_NONE priv'" and "numbered priv"
  shows "numbered priv' \<and> length priv' = Suc (length priv)
       \<and> (int (length priv) < ELEM_MAX env \<longrightarrow> s = list_element_names env ! length priv)"
  using assms(1) numbered_next[OF assms(2)] assms(2)
  by (auto simp: parse_projection_code_def Let_def numbered_def projection_zero_def split: if_splits)

lemma run_projection_codes:
  "run_lines (init_parse_projection env) lns priv0 = Returns PARSE_ERROR_NONE priv \<Longrightarrow>
   numbered priv0 \<Longrightarrow>
   numbered priv \<and> length priv = length priv0 + length (projection_codes lns)
   \<and> (\<forall>i < length (projection_codes lns).
         int (length priv0 + i) < ELEM_MAX env \<longrightarrow>
         projection_codes lns ! i = list_element_names env ! (length priv0 + i))"
proof (induction lns arbitrary: priv0)
  case Nil
  then show ?case by simp
next
  case (Cons l ls)
  from Cons.prems(1) obtain priv1 where
    step: "init_parse_projection env l priv0 = Returns PARSE_ERROR_NONE priv1" and
    rest: "run_lines (init_parse_projection env) ls priv1 = Returns PARSE_ERROR_NONE priv"
    by (auto split: outcome.splits if_splits)
  show ?case
  proof (cases "\<exists>s. l = PL_code s")
    case True
    then obtain s where l: "l = PL_code s" by blast
    from step l have c: "parse_projection_code env s priv0 = Returns PARSE_ERROR_NONE priv1" by simp
    note one = projection_code_line[OF c Cons.prems(2)]
    from Cons.IH[OF rest] one have ih:
      "numbered priv" "length priv = length priv1 + length (projection_codes ls)"
      "\<forall>i < length (projection_codes ls).
         int (length priv1 + i) < ELEM_MAX env \<longrightarrow>
         projection_codes ls ! i = list_element_names env ! (length priv1 + i)"
      by blast+
    have "int (length priv0 + i) < ELEM_MAX env \<longrightarrow>
          projection_codes (l # ls) ! i = list_element_names env ! (length priv0 + i)"
      if "i < length (projection_codes (l # ls))" for i
    proof (cases i)
      case 0
      then show ?thesis using one l by simp
    next
      case (Suc j)
      then show ?thesis using ih(3) that one l by auto
    qed
    then show ?thesis using ih one l by simp
  next
    case False
    then have nc: "\<forall>s. l \<noteq> PL_code s" by blast
    from projection_field_line[OF step nc] Cons.prems(2)
    have n1: "numbered priv1" and l1: "length priv1 = length priv0"
      by (auto simp: numbered_def dest: arg_cong[where f = length])
    have codes: "projection_codes (l # ls) = projection_codes ls"
      using nc by (cases l) auto
    from Cons.IH[OF rest n1] show ?thesis
      unfolding codes l1 by simp
  qed
qed

text \<open>
  C9.  When a projection file is accepted, the table \<open>finish_parse_projection\<close> builds
  has one row per code directive, row \<open>i\<close> carries index \<open>i\<close>, and for every
  \<open>i < ELEM_MAX\<close> the argument of the \<open>i\<close>-th code directive is the \<open>i\<close>-th element
  name.  A code directive whose position is below \<open>ELEM_MAX\<close> and whose argument
  differs from the element name at that position returns
  \<open>PARSE_ERROR_ELEMENT_NAME_MISMATCH\<close>.
\<close>

theorem projection_codes_follow_elements:
  "(run_parse_projection env lns = Returns PARSE_ERROR_NONE priv \<longrightarrow>
      fst (finish_parse_projection priv) = length (projection_codes lns)
    \<and> length (snd (finish_parse_projection priv)) = length (projection_codes lns)
    \<and> (\<forall>i < length (projection_codes lns).
          pj_index (snd (finish_parse_projection priv) ! i) = int i
        \<and> (int i < ELEM_MAX env \<longrightarrow> projection_codes lns ! i = list_element_names env ! i)))
 \<and> ((case priv0 of [] \<Rightarrow> 0 | h # _ \<Rightarrow> pj_index h + 1) < ELEM_MAX env
      \<and> code \<noteq> list_element_names env ! nat (case priv0 of [] \<Rightarrow> 0 | h # _ \<Rightarrow> pj_index h + 1) \<longrightarrow>
      (\<exists>priv'. parse_projection_code env code priv0 = Returns PARSE_ERROR_ELEMENT_NAME_MISMATCH priv'))"
proof (intro conjI impI)
  assume run: "run_parse_projection env lns = Returns PARSE_ERROR_NONE priv"
  have n0: "numbered []" by (simp add: numbered_def)
  from run_projection_codes[OF run[unfolded run_parse_projection_def] n0]
  have num: "numbered priv" and len: "length priv = length (projection_codes lns)"
    and codes: "\<forall>i < length (projection_codes lns).
         int i < ELEM_MAX env \<longrightarrow> projection_codes lns ! i = list_element_names env ! i"
    by auto
  show "fst (finish_parse_projection priv) = length (projection_codes lns)"
    by (simp add: finish_parse_projection_def finish_table_max len)
  show "length (snd (finish_parse_projection priv)) = length (projection_codes lns)"
    by (simp add: finish_parse_projection_def finish_table_length len)
  have idx: "pj_index (rev priv ! i) = int i" if "i < length priv" for i
  proof -
    have "map pj_index (rev priv) = map int [0..<length priv]"
      using num unfolding numbered_def by (metis rev_map rev_rev_ident)
    then have "map pj_index (rev priv) ! i = map int [0..<length priv] ! i" by simp
    then show ?thesis using that by simp
  qed
  show "\<forall>i < length (projection_codes lns).
          pj_index (snd (finish_parse_projection priv) ! i) = int i
        \<and> (int i < ELEM_MAX env \<longrightarrow> projection_codes lns ! i = list_element_names env ! i)"
    using codes idx len by (simp add: finish_parse_projection_def finish_table_nth)
next
  assume "(case priv0 of [] \<Rightarrow> 0 | h # _ \<Rightarrow> pj_index h + 1) < ELEM_MAX env
      \<and> code \<noteq> list_element_names env ! nat (case priv0 of [] \<Rightarrow> 0 | h # _ \<Rightarrow> pj_index h + 1)"
  then show "\<exists>priv'. parse_projection_code env code priv0 = Returns PARSE_ERROR_ELEMENT_NAME_MISMATCH priv'"
    by (simp add: parse_projection_code_def Let_def)
qed

theorem projection_codes_follow_elements_witness:
  "(\<exists>priv. run_parse_projection example_env
        [PL_code ''ACID'', PL_name ''acid'', PL_code ''ELEC'', PL_obvious 1, PL_code ''FIRE'',
         PL_code ''MISSILE''] = Returns PARSE_ERROR_NONE priv
      \<and> fst (finish_parse_projection priv) = 4
      \<and> length (snd (finish_parse_projection priv)) = 4
      \<and> pj_index (snd (finish_parse_projection priv) ! 0) = 0
      \<and> pj_index (snd (finish_parse_projection priv) ! 2) = 2
      \<and> pj_index (snd (finish_parse_projection priv) ! 3) = 3)
 \<and> projection_codes
        [PL_code ''ACID'', PL_name ''acid'', PL_code ''ELEC'', PL_obvious 1, PL_code ''FIRE'',
         PL_code ''MISSILE''] ! 2 = list_element_names example_env ! 2
 \<and> (\<exists>priv'. parse_projection_code example_env ''FIRE'' [] =
        Returns PARSE_ERROR_ELEMENT_NAME_MISMATCH priv')"
proof -
  let ?f = "[PL_code ''ACID'', PL_name ''acid'', PL_code ''ELEC'', PL_obvious 1, PL_code ''FIRE'',
             PL_code ''MISSILE'']"
  have "\<exists>priv. run_parse_projection example_env ?f = Returns PARSE_ERROR_NONE priv"
    by (simp add: run_parse_projection_def parse_projection_code_def parse_projection_name_def
        parse_projection_obvious_def example_env_def ELEM_MAX_def Let_def projection_zero_def)
  then obtain priv where run: "run_parse_projection example_env ?f = Returns PARSE_ERROR_NONE priv"
    by blast
  have codes: "projection_codes ?f = [''ACID'', ''ELEC'', ''FIRE'', ''MISSILE'']"
    by simp
  have em: "ELEM_MAX example_env = 3"
    by (simp add: ELEM_MAX_def example_env_def)
  note t = projection_codes_follow_elements[of example_env ?f priv "[]" "''FIRE''"]
  from t run have fin: "fst (finish_parse_projection priv) = 4"
      "length (snd (finish_parse_projection priv)) = 4"
    and rows: "\<forall>i < 4. pj_index (snd (finish_parse_projection priv) ! i) = int i
        \<and> (int i < 3 \<longrightarrow> projection_codes ?f ! i = list_element_names example_env ! i)"
    unfolding codes em by simp_all
  from t have mis: "\<exists>priv'. parse_projection_code example_env ''FIRE'' [] =
        Returns PARSE_ERROR_ELEMENT_NAME_MISMATCH priv'"
    unfolding em by (simp add: example_env_def)
  have r0: "pj_index (snd (finish_parse_projection priv) ! 0) = 0"
    and r2: "pj_index (snd (finish_parse_projection priv) ! 2) = 2"
    and c2: "projection_codes ?f ! 2 = list_element_names example_env ! 2"
    and r3: "pj_index (snd (finish_parse_projection priv) ! 3) = 3"
    using rows[rule_format, of 0] rows[rule_format, of 2] rows[rule_format, of 3] by simp_all
  show ?thesis
    using run fin r0 r2 r3 c2 mis by blast
qed

section \<open>Field directives before any record\<close>

text \<open>Each field callback is run with \<^verbatim>\<open>parser_priv\<close> still \<^verbatim>\<open>NULL\<close>, the empty
  list of the model.  The callbacks fall into two groups by the guard they are written
  with: an explicit test that returns \<^verbatim>\<open>PARSE_ERROR_MISSING_RECORD_HEADER\<close>, or
  \<^verbatim>\<open>my_assert\<close> on the record.\<close>

lemma no_record_missing_header_projection:
  "parse_projection_name s [] = Returns PARSE_ERROR_MISSING_RECORD_HEADER []"
  "parse_projection_type s [] = Returns PARSE_ERROR_MISSING_RECORD_HEADER []"
  "parse_projection_desc s [] = Returns PARSE_ERROR_MISSING_RECORD_HEADER []"
  "parse_projection_blind_desc s [] = Returns PARSE_ERROR_MISSING_RECORD_HEADER []"
  "parse_projection_lash_desc s [] = Returns PARSE_ERROR_MISSING_RECORD_HEADER []"
  "parse_projection_numerator w [] = Returns PARSE_ERROR_MISSING_RECORD_HEADER []"
  "parse_projection_denominator r [] = Returns PARSE_ERROR_MISSING_RECORD_HEADER []"
  "parse_projection_divisor w [] = Returns PARSE_ERROR_MISSING_RECORD_HEADER []"
  "parse_projection_damage_cap w [] = Returns PARSE_ERROR_MISSING_RECORD_HEADER []"
  "parse_projection_obvious w [] = Returns PARSE_ERROR_MISSING_RECORD_HEADER []"
  "parse_projection_pvp_flags so [] = Returns PARSE_ERROR_MISSING_RECORD_HEADER []"
  "parse_projection_threat s [] = Returns PARSE_ERROR_MISSING_RECORD_HEADER []"
  "parse_projection_threat_flag env s [] = Returns PARSE_ERROR_MISSING_RECORD_HEADER []"
  by (simp_all add: parse_projection_name_def parse_projection_type_def parse_projection_desc_def parse_projection_blind_desc_def parse_projection_lash_desc_def parse_projection_numerator_def parse_projection_denominator_def parse_projection_divisor_def parse_projection_damage_cap_def parse_projection_obvious_def parse_projection_pvp_flags_def parse_projection_threat_def parse_projection_threat_flag_def
      on_kind_effect_def on_kind_def on_act_effect_def on_ego_def on_artifact_def on_property_def Let_def)

lemma no_record_missing_header_slay:
  "parse_slay_name s [] = Returns PARSE_ERROR_MISSING_RECORD_HEADER []"
  "parse_slay_race_flag env s [] = Returns PARSE_ERROR_MISSING_RECORD_HEADER []"
  "parse_slay_base env s [] = Returns PARSE_ERROR_MISSING_RECORD_HEADER []"
  "parse_slay_multiplier w [] = Returns PARSE_ERROR_MISSING_RECORD_HEADER []"
  "parse_slay_power w [] = Returns PARSE_ERROR_MISSING_RECORD_HEADER []"
  "parse_slay_melee_verb s [] = Returns PARSE_ERROR_MISSING_RECORD_HEADER []"
  "parse_slay_range_verb s [] = Returns PARSE_ERROR_MISSING_RECORD_HEADER []"
  "parse_slay_esp_chance w [] = Returns PARSE_ERROR_MISSING_RECORD_HEADER []"
  "parse_slay_esp_flag env s [] = Returns PARSE_ERROR_MISSING_RECORD_HEADER []"
  by (simp_all add: parse_slay_name_def parse_slay_race_flag_def parse_slay_base_def parse_slay_multiplier_def parse_slay_power_def parse_slay_melee_verb_def parse_slay_range_verb_def parse_slay_esp_chance_def parse_slay_esp_flag_def
      on_kind_effect_def on_kind_def on_act_effect_def on_ego_def on_artifact_def on_property_def Let_def)

lemma no_record_missing_header_brand:
  "parse_brand_name s [] = Returns PARSE_ERROR_MISSING_RECORD_HEADER []"
  "parse_brand_verb s [] = Returns PARSE_ERROR_MISSING_RECORD_HEADER []"
  "parse_brand_multiplier w [] = Returns PARSE_ERROR_MISSING_RECORD_HEADER []"
  "parse_brand_power w [] = Returns PARSE_ERROR_MISSING_RECORD_HEADER []"
  "parse_brand_resist_flag env s [] = Returns PARSE_ERROR_MISSING_RECORD_HEADER []"
  "parse_brand_active_verb s [] = Returns PARSE_ERROR_MISSING_RECORD_HEADER []"
  "parse_brand_active_verb_plural s [] = Returns PARSE_ERROR_MISSING_RECORD_HEADER []"
  "parse_brand_desc_adjective s [] = Returns PARSE_ERROR_MISSING_RECORD_HEADER []"
  by (simp_all add: parse_brand_name_def parse_brand_verb_def parse_brand_multiplier_def parse_brand_power_def parse_brand_resist_flag_def parse_brand_active_verb_def parse_brand_active_verb_plural_def parse_brand_desc_adjective_def
      on_kind_effect_def on_kind_def on_act_effect_def on_ego_def on_artifact_def on_property_def Let_def)

lemma no_record_missing_header_curse:
  "parse_curse_type env s [] = Returns PARSE_ERROR_MISSING_RECORD_HEADER []"
  "parse_curse_effect env ea [] = Returns PARSE_ERROR_MISSING_RECORD_HEADER []"
  "parse_curse_effect_yx n n2 [] = Returns PARSE_ERROR_MISSING_RECORD_HEADER []"
  "parse_curse_dice env s [] = Returns PARSE_ERROR_MISSING_RECORD_HEADER []"
  "parse_curse_expr env s s2 s3 [] = Returns PARSE_ERROR_MISSING_RECORD_HEADER []"
  by (simp_all add: parse_curse_type_def parse_curse_effect_def parse_curse_effect_yx_def parse_curse_dice_def parse_curse_expr_def
      on_kind_effect_def on_kind_def on_act_effect_def on_ego_def on_artifact_def on_property_def Let_def)

lemma no_record_missing_header_act:
  "parse_act_effect env ea [] = Returns PARSE_ERROR_MISSING_RECORD_HEADER []"
  "parse_act_effect_yx n n2 [] = Returns PARSE_ERROR_MISSING_RECORD_HEADER []"
  "parse_act_dice env s [] = Returns PARSE_ERROR_MISSING_RECORD_HEADER []"
  "parse_act_expr env s s2 s3 [] = Returns PARSE_ERROR_MISSING_RECORD_HEADER []"
  "parse_act_msg_self s [] = Returns PARSE_ERROR_MISSING_RECORD_HEADER []"
  "parse_act_msg_other s [] = Returns PARSE_ERROR_MISSING_RECORD_HEADER []"
  by (simp_all add: parse_act_effect_def parse_act_effect_yx_def parse_act_dice_def parse_act_expr_def parse_act_msg_self_def parse_act_msg_other_def
      on_kind_effect_def on_kind_def on_act_effect_def on_ego_def on_artifact_def on_property_def Let_def)

lemma no_record_missing_header_object:
  "parse_object_effect env ea ([], g) = Returns PARSE_ERROR_MISSING_RECORD_HEADER ([], g)"
  "parse_object_effect_yx n n2 ([], g) = Returns PARSE_ERROR_MISSING_RECORD_HEADER ([], g)"
  "parse_object_dice env s ([], g) = Returns PARSE_ERROR_MISSING_RECORD_HEADER ([], g)"
  "parse_object_expr env s s2 s3 ([], g) = Returns PARSE_ERROR_MISSING_RECORD_HEADER ([], g)"
  "parse_object_msg_self s ([], g) = Returns PARSE_ERROR_MISSING_RECORD_HEADER ([], g)"
  "parse_object_msg_other s ([], g) = Returns PARSE_ERROR_MISSING_RECORD_HEADER ([], g)"
  "parse_object_act s ([], g) = Returns PARSE_ERROR_MISSING_RECORD_HEADER ([], g)"
  by (simp_all add: parse_object_effect_def parse_object_effect_yx_def parse_object_dice_def parse_object_expr_def parse_object_msg_self_def parse_object_msg_other_def parse_object_act_def
      on_kind_effect_def on_kind_def on_act_effect_def on_ego_def on_artifact_def on_property_def Let_def)

lemma no_record_missing_header_ego:
  "parse_ego_info n n2 ([], g) = Returns PARSE_ERROR_MISSING_RECORD_HEADER ([], g)"
  "parse_ego_type env s ([], g) = Returns PARSE_ERROR_MISSING_RECORD_HEADER ([], g)"
  "parse_ego_item env s s2 ([], g) = Returns PARSE_ERROR_MISSING_RECORD_HEADER ([], g)"
  "parse_ego_combat r r2 r3 ([], g) = Returns PARSE_ERROR_MISSING_RECORD_HEADER ([], g)"
  "parse_ego_min n n2 n3 ([], g) = Returns PARSE_ERROR_MISSING_RECORD_HEADER ([], g)"
  "parse_ego_flags env so ([], g) = Returns PARSE_ERROR_MISSING_RECORD_HEADER ([], g)"
  "parse_ego_values env so ([], g) = Returns PARSE_ERROR_MISSING_RECORD_HEADER ([], g)"
  "parse_ego_min_val env so ([], g) = Returns PARSE_ERROR_MISSING_RECORD_HEADER ([], g)"
  "parse_ego_slay s ([], g) = Returns PARSE_ERROR_MISSING_RECORD_HEADER ([], g)"
  "parse_ego_brand s ([], g) = Returns PARSE_ERROR_MISSING_RECORD_HEADER ([], g)"
  "parse_ego_act s ([], g) = Returns PARSE_ERROR_MISSING_RECORD_HEADER ([], g)"
  "parse_ego_desc env s ([], g) = Returns PARSE_ERROR_MISSING_RECORD_HEADER ([], g)"
  by (simp_all add: parse_ego_info_def parse_ego_type_def parse_ego_item_def parse_ego_combat_def parse_ego_min_def parse_ego_flags_def parse_ego_values_def parse_ego_min_val_def parse_ego_slay_def parse_ego_brand_def parse_ego_act_def parse_ego_desc_def
      on_kind_effect_def on_kind_def on_act_effect_def on_ego_def on_artifact_def on_property_def Let_def)

lemma no_record_missing_header_artifact:
  "parse_artifact_act env s ([], g) = Returns PARSE_ERROR_MISSING_RECORD_HEADER ([], g)"
  by (simp_all add: parse_artifact_act_def
      on_kind_effect_def on_kind_def on_act_effect_def on_ego_def on_artifact_def on_property_def Let_def)

lemma no_record_missing_header_property:
  "parse_object_property_code env s [] = Returns PARSE_ERROR_MISSING_RECORD_HEADER []"
  "parse_object_property_type s [] = Returns PARSE_ERROR_MISSING_RECORD_HEADER []"
  "parse_object_property_subtype s [] = Returns PARSE_ERROR_MISSING_RECORD_HEADER []"
  "parse_object_property_id_type s [] = Returns PARSE_ERROR_MISSING_RECORD_HEADER []"
  "parse_object_property_power n [] = Returns PARSE_ERROR_MISSING_RECORD_HEADER []"
  "parse_object_property_mult n [] = Returns PARSE_ERROR_MISSING_RECORD_HEADER []"
  "parse_object_property_type_mult env s n [] = Returns PARSE_ERROR_MISSING_RECORD_HEADER []"
  "parse_object_property_adjective s [] = Returns PARSE_ERROR_MISSING_RECORD_HEADER []"
  "parse_object_property_neg_adj s [] = Returns PARSE_ERROR_MISSING_RECORD_HEADER []"
  "parse_object_property_msg s [] = Returns PARSE_ERROR_MISSING_RECORD_HEADER []"
  "parse_object_property_desc s [] = Returns PARSE_ERROR_MISSING_RECORD_HEADER []"
  "parse_object_property_short_desc s [] = Returns PARSE_ERROR_MISSING_RECORD_HEADER []"
  by (simp_all add: parse_object_property_code_def parse_object_property_type_def parse_object_property_subtype_def parse_object_property_id_type_def parse_object_property_power_def parse_object_property_mult_def parse_object_property_type_mult_def parse_object_property_adjective_def parse_object_property_neg_adj_def parse_object_property_msg_def parse_object_property_desc_def parse_object_property_short_desc_def
      on_kind_effect_def on_kind_def on_act_effect_def on_ego_def on_artifact_def on_property_def Let_def)

lemma no_record_missing_header_power:
  "parse_object_power_type env s ([], g) = Returns PARSE_ERROR_MISSING_RECORD_HEADER ([], g)"
  "parse_object_power_item env s s2 ([], g) = Returns PARSE_ERROR_MISSING_RECORD_HEADER ([], g)"
  "parse_object_power_dice env s ([], g) = Returns PARSE_ERROR_MISSING_RECORD_HEADER ([], g)"
  "parse_object_power_expr env s s2 s3 ([], g) = Returns PARSE_ERROR_MISSING_RECORD_HEADER ([], g)"
  "parse_object_power_operation s ([], g) = Returns PARSE_ERROR_MISSING_RECORD_HEADER ([], g)"
  "parse_object_power_iterate env s ([], g) = Returns PARSE_ERROR_MISSING_RECORD_HEADER ([], g)"
  "parse_object_power_apply_to s ([], g) = Returns PARSE_ERROR_MISSING_RECORD_HEADER ([], g)"
  by (simp_all add: parse_object_power_type_def parse_object_power_item_def parse_object_power_dice_def parse_object_power_expr_def parse_object_power_operation_def parse_object_power_iterate_def parse_object_power_apply_to_def
      on_kind_effect_def on_kind_def on_act_effect_def on_ego_def on_artifact_def on_property_def Let_def)

lemma no_record_assertion_projection:
  "parse_projection_message_type env s [] = Fault Assertion_Failed"
  "parse_projection_color env s [] = Fault Assertion_Failed"
  by (simp_all add: parse_projection_message_type_def parse_projection_color_def
      on_kind_effect_def on_kind_def on_act_effect_def on_ego_def on_artifact_def on_property_def Let_def)

lemma no_record_assertion_object_base:
  "parse_object_base_graphics env s (d\<lparr>d_kb := []\<rparr>) = Fault Assertion_Failed"
  "parse_object_base_break n (d\<lparr>d_kb := []\<rparr>) = Fault Assertion_Failed"
  "parse_object_base_max_stack n (d\<lparr>d_kb := []\<rparr>) = Fault Assertion_Failed"
  "parse_object_base_flags env s (d\<lparr>d_kb := []\<rparr>) = Fault Assertion_Failed"
  by (simp_all add: parse_object_base_graphics_def parse_object_base_break_def parse_object_base_max_stack_def parse_object_base_flags_def
      on_kind_effect_def on_kind_def on_act_effect_def on_ego_def on_artifact_def on_property_def Let_def)

lemma no_record_assertion_curse:
  "parse_curse_combat n n2 n3 [] = Fault Assertion_Failed"
  "parse_curse_flags env s [] = Fault Assertion_Failed"
  "parse_curse_values env s [] = Fault Assertion_Failed"
  "parse_curse_msg s [] = Fault Assertion_Failed"
  "parse_curse_time r [] = Fault Assertion_Failed"
  "parse_curse_desc env s [] = Fault Assertion_Failed"
  "parse_curse_conflict env s [] = Fault Assertion_Failed"
  "parse_curse_conflict_flags env s [] = Fault Assertion_Failed"
  by (simp_all add: parse_curse_combat_def parse_curse_flags_def parse_curse_values_def parse_curse_msg_def parse_curse_time_def parse_curse_desc_def parse_curse_conflict_def parse_curse_conflict_flags_def
      on_kind_effect_def on_kind_def on_act_effect_def on_ego_def on_artifact_def on_property_def Let_def)

lemma no_record_assertion_act:
  "parse_act_aim w [] = Fault Assertion_Failed"
  "parse_act_power w [] = Fault Assertion_Failed"
  "parse_act_msg env s [] = Fault Assertion_Failed"
  "parse_act_desc env s [] = Fault Assertion_Failed"
  by (simp_all add: parse_act_aim_def parse_act_power_def parse_act_msg_def parse_act_desc_def
      on_kind_effect_def on_kind_def on_act_effect_def on_ego_def on_artifact_def on_property_def Let_def)

lemma no_record_assertion_object:
  "parse_object_graphics env ch s ([], g) = Fault Assertion_Failed"
  "parse_object_type env s ([], g) = Fault Assertion_Failed"
  "parse_object_level n ([], g) = Fault Assertion_Failed"
  "parse_object_weight n ([], g) = Fault Assertion_Failed"
  "parse_object_cost n ([], g) = Fault Assertion_Failed"
  "parse_object_alloc env n s ([], g) = Fault Assertion_Failed"
  "parse_object_attack r r2 r3 ([], g) = Fault Assertion_Failed"
  "parse_object_armor n r ([], g) = Fault Assertion_Failed"
  "parse_object_charges r ([], g) = Fault Assertion_Failed"
  "parse_object_pile n r ([], g) = Fault Assertion_Failed"
  "parse_object_flags env s ([], g) = Fault Assertion_Failed"
  "parse_object_time r ([], g) = Fault Assertion_Failed"
  "parse_object_pval r ([], g) = Fault Assertion_Failed"
  "parse_object_values env s ([], g) = Fault Assertion_Failed"
  "parse_object_slay s ([], g) = Fault Assertion_Failed"
  "parse_object_brand s ([], g) = Fault Assertion_Failed"
  "parse_object_desc env s ([], g) = Fault Assertion_Failed"
  "parse_object_curse env s n ([], g) = Fault Assertion_Failed"
  by (simp_all add: parse_object_graphics_def parse_object_type_def parse_object_level_def parse_object_weight_def parse_object_cost_def parse_object_alloc_def parse_object_attack_def parse_object_armor_def parse_object_charges_def parse_object_pile_def parse_object_flags_def parse_object_time_def parse_object_pval_def parse_object_values_def parse_object_slay_def parse_object_brand_def parse_object_desc_def parse_object_curse_def
      on_kind_effect_def on_kind_def on_act_effect_def on_ego_def on_artifact_def on_property_def Let_def)

lemma no_record_assertion_ego:
  "parse_ego_time r ([], g) = Fault Assertion_Failed"
  "parse_ego_curse env s n ([], g) = Fault Assertion_Failed"
  by (simp_all add: parse_ego_time_def parse_ego_curse_def
      on_kind_effect_def on_kind_def on_act_effect_def on_ego_def on_artifact_def on_property_def Let_def)

lemma no_record_assertion_artifact:
  "parse_artifact_base_object env s s2 ([], g) = Fault Assertion_Failed"
  "parse_artifact_level env n ([], g) = Fault Assertion_Failed"
  "parse_artifact_weight env n ([], g) = Fault Assertion_Failed"
  "parse_artifact_alloc env n s ([], g) = Fault Assertion_Failed"
  "parse_artifact_attack r n n2 ([], g) = Fault Assertion_Failed"
  "parse_artifact_armor n n2 ([], g) = Fault Assertion_Failed"
  "parse_artifact_flags env so ([], g) = Fault Assertion_Failed"
  "parse_artifact_time env r ([], g) = Fault Assertion_Failed"
  "parse_artifact_msg env s ([], g) = Fault Assertion_Failed"
  "parse_artifact_values env s ([], g) = Fault Assertion_Failed"
  "parse_artifact_slay s ([], g) = Fault Assertion_Failed"
  "parse_artifact_brand s ([], g) = Fault Assertion_Failed"
  "parse_artifact_desc env s ([], g) = Fault Assertion_Failed"
  "parse_artifact_curse env s n ([], g) = Fault Assertion_Failed"
  by (simp_all add: parse_artifact_base_object_def parse_artifact_level_def parse_artifact_weight_def parse_artifact_alloc_def parse_artifact_attack_def parse_artifact_armor_def parse_artifact_flags_def parse_artifact_time_def parse_artifact_msg_def parse_artifact_values_def parse_artifact_slay_def parse_artifact_brand_def parse_artifact_desc_def parse_artifact_curse_def
      on_kind_effect_def on_kind_def on_act_effect_def on_ego_def on_artifact_def on_property_def Let_def)

text \<open>The \<^verbatim>\<open>default\<close> directive of the object bases works on the defaults of the parse
  data and needs no base.\<close>

lemma no_record_needed:
  "parse_object_base_defaults ''break-chance'' n (d\<lparr>d_kb := []\<rparr>) =
     Returns PARSE_ERROR_NONE (d\<lparr>d_kb := [], d_defaults := (d_defaults d)\<lparr>kb_break_perc := n\<rparr>\<rparr>)"
  "parse_object_base_defaults ''max-stack'' n (d\<lparr>d_kb := []\<rparr>) =
     Returns PARSE_ERROR_NONE (d\<lparr>d_kb := [], d_defaults := (d_defaults d)\<lparr>kb_max_stack := n\<rparr>\<rparr>)"
  by (simp_all add: parse_object_base_defaults_def)

text \<open>Two callbacks read a field of the record before any guard:
  \<^verbatim>\<open>parse_ego_alloc\<close> has no check at all and \<^verbatim>\<open>parse_artifact_graphics\<close> calls
  \<^verbatim>\<open>lookup_kind(a->tval, a->sval)\<close> before its assertion.\<close>

lemma no_record_unchecked:
  "parse_ego_alloc env n s ([], g) = Fault Null_Dereference"
  "parse_artifact_graphics env ch s ([], g) = Fault Null_Dereference"
  by (simp_all add: parse_ego_alloc_def parse_artifact_graphics_def)

text \<open>C6 as stated fails for the callbacks guarded by \<^verbatim>\<open>my_assert\<close>:
  \<^verbatim>\<open>parse_object_time\<close> and \<^verbatim>\<open>parse_artifact_desc\<close>, run before any record exists, stop
  at the failed assertion and return no error code at all.\<close>

theorem assert_guarded_field_returns_no_error:
  "parse_object_time random_value_zero ([], example_globals) = Fault Assertion_Failed
 \<and> parse_object_time random_value_zero ([], example_globals)
     \<noteq> Returns PARSE_ERROR_MISSING_RECORD_HEADER ([], example_globals)
 \<and> parse_artifact_desc example_env ''text'' ([], example_globals) = Fault Assertion_Failed
 \<and> parse_artifact_desc example_env ''text'' ([], example_globals)
     \<noteq> Returns PARSE_ERROR_MISSING_RECORD_HEADER ([], example_globals)"
  by (simp add: parse_object_time_def parse_artifact_desc_def on_kind_def on_artifact_def)

text \<open>C6 (amended): with \<^verbatim>\<open>my_assert\<close> taken as an active assertion (its definition
  is outside the sources at hand), a field directive that appears before any record has
  been created behaves by the guard of its callback.  The first eighty callbacks below,
  written with an explicit null test, among them every field callback of slays, brands,
  object properties and power calculations, return the missing-record-header error with
  the parser state unchanged.  The next fifty-two are guarded by \<^verbatim>\<open>my_assert\<close>: they
  stop at the failed assertion, return no error code and mutate nothing; for object
  bases the record tested is the current base, the parse data itself always being
  present.  The \<^verbatim>\<open>default\<close> directive of object bases needs no record: it sets the
  default it names and returns no error.  \<^verbatim>\<open>parse_ego_alloc\<close> and
  \<^verbatim>\<open>parse_artifact_graphics\<close>, which read the record before any test, are not covered
  by the statement.\<close>

theorem field_directive_without_record:
  "(parse_projection_name s [] = Returns PARSE_ERROR_MISSING_RECORD_HEADER [])
 \<and> (parse_projection_type s [] = Returns PARSE_ERROR_MISSING_RECORD_HEADER [])
 \<and> (parse_projection_desc s [] = Returns PARSE_ERROR_MISSING_RECORD_HEADER [])
 \<and> (parse_projection_blind_desc s [] = Returns PARSE_ERROR_MISSING_RECORD_HEADER [])
 \<and> (parse_projection_lash_desc s [] = Returns PARSE_ERROR_MISSING_RECORD_HEADER [])
 \<and> (parse_projection_numerator w [] = Returns PARSE_ERROR_MISSING_RECORD_HEADER [])
 \<and> (parse_projection_denominator r [] = Returns PARSE_ERROR_MISSING_RECORD_HEADER [])
 \<and> (parse_projection_divisor w [] = Returns PARSE_ERROR_MISSING_RECORD_HEADER [])
 \<and> (parse_projection_damage_cap w [] = Returns PARSE_ERROR_MISSING_RECORD_HEADER [])
 \<and> (parse_projection_obvious w [] = Returns PARSE_ERROR_MISSING_RECORD_HEADER [])
 \<and> (parse_projection_pvp_flags so [] = Returns PARSE_ERROR_MISSING_RECORD_HEADER [])
 \<and> (parse_projection_threat s [] = Returns PARSE_ERROR_MISSING_RECORD_HEADER [])
 \<and> (parse_projection_threat_flag env s [] = Returns PARSE_ERROR_MISSING_RECORD_HEADER [])
 \<and> (parse_slay_name s [] = Returns PARSE_ERROR_MISSING_RECORD_HEADER [])
 \<and> (parse_slay_race_flag env s [] = Returns PARSE_ERROR_MISSING_RECORD_HEADER [])
 \<and> (parse_slay_base env s [] = Returns PARSE_ERROR_MISSING_RECORD_HEADER [])
 \<and> (parse_slay_multiplier w [] = Returns PARSE_ERROR_MISSING_RECORD_HEADER [])
 \<and> (parse_slay_power w [] = Returns PARSE_ERROR_MISSING_RECORD_HEADER [])
 \<and> (parse_slay_melee_verb s [] = Returns PARSE_ERROR_MISSING_RECORD_HEADER [])
 \<and> (parse_slay_range_verb s [] = Returns PARSE_ERROR_MISSING_RECORD_HEADER [])
 \<and> (parse_slay_esp_chance w [] = Returns PARSE_ERROR_MISSING_RECORD_HEADER [])
 \<and> (parse_slay_esp_flag env s [] = Returns PARSE_ERROR_MISSING_RECORD_HEADER [])
 \<and> (parse_brand_name s [] = Returns PARSE_ERROR_MISSING_RECORD_HEADER [])
 \<and> (parse_brand_verb s [] = Returns PARSE_ERROR_MISSING_RECORD_HEADER [])
 \<and> (parse_brand_multiplier w [] = Returns PARSE_ERROR_MISSING_RECORD_HEADER [])
 \<and> (parse_brand_power w [] = Returns PARSE_ERROR_MISSING_RECORD_HEADER [])
 \<and> (parse_brand_resist_flag env s [] = Returns PARSE_ERROR_MISSING_RECORD_HEADER [])
 \<and> (parse_brand_active_verb s [] = Returns PARSE_ERROR_MISSING_RECORD_HEADER [])
 \<and> (parse_brand_active_verb_plural s [] = Returns PARSE_ERROR_MISSING_RECORD_HEADER [])
 \<and> (parse_brand_desc_adjective s [] = Returns PARSE_ERROR_MISSING_RECORD_HEADER [])
 \<and> (parse_curse_type env s [] = Returns PARSE_ERROR_MISSING_RECORD_HEADER [])
 \<and> (parse_curse_effect env ea [] = Returns PARSE_ERROR_MISSING_RECORD_HEADER [])
 \<and> (parse_curse_effect_yx n n2 [] = Returns PARSE_ERROR_MISSING_RECORD_HEADER [])
 \<and> (parse_curse_dice env s [] = Returns PARSE_ERROR_MISSING_RECORD_HEADER [])
 \<and> (parse_curse_expr env s s2 s3 [] = Returns PARSE_ERROR_MISSING_RECORD_HEADER [])
 \<and> (parse_act_effect env ea [] = Returns PARSE_ERROR_MISSING_RECORD_HEADER [])
 \<and> (parse_act_effect_yx n n2 [] = Returns PARSE_ERROR_MISSING_RECORD_HEADER [])
 \<and> (parse_act_dice env s [] = Returns PARSE_ERROR_MISSING_RECORD_HEADER [])
 \<and> (parse_act_expr env s s2 s3 [] = Returns PARSE_ERROR_MISSING_RECORD_HEADER [])
 \<and> (parse_act_msg_self s [] = Returns PARSE_ERROR_MISSING_RECORD_HEADER [])
 \<and> (parse_act_msg_other s [] = Returns PARSE_ERROR_MISSING_RECORD_HEADER [])
 \<and> (parse_object_effect env ea ([], g) = Returns PARSE_ERROR_MISSING_RECORD_HEADER ([], g))
 \<and> (parse_object_effect_yx n n2 ([], g) = Returns PARSE_ERROR_MISSING_RECORD_HEADER ([], g))
 \<and> (parse_object_dice env s ([], g) = Returns PARSE_ERROR_MISSING_RECORD_HEADER ([], g))
 \<and> (parse_object_expr env s s2 s3 ([], g) = Returns PARSE_ERROR_MISSING_RECORD_HEADER ([], g))
 \<and> (parse_object_msg_self s ([], g) = Returns PARSE_ERROR_MISSING_RECORD_HEADER ([], g))
 \<and> (parse_object_msg_other s ([], g) = Returns PARSE_ERROR_MISSING_RECORD_HEADER ([], g))
 \<and> (parse_object_act s ([], g) = Returns PARSE_ERROR_MISSING_RECORD_HEADER ([], g))
 \<and> (parse_ego_info n n2 ([], g) = Returns PARSE_ERROR_MISSING_RECORD_HEADER ([], g))
 \<and> (parse_ego_type env s ([], g) = Returns PARSE_ERROR_MISSING_RECORD_HEADER ([], g))
 \<and> (parse_ego_item env s s2 ([], g) = Returns PARSE_ERROR_MISSING_RECORD_HEADER ([], g))
 \<and> (parse_ego_combat r r2 r3 ([], g) = Returns PARSE_ERROR_MISSING_RECORD_HEADER ([], g))
 \<and> (parse_ego_min n n2 n3 ([], g) = Returns PARSE_ERROR_MISSING_RECORD_HEADER ([], g))
 \<and> (parse_ego_flags env so ([], g) = Returns PARSE_ERROR_MISSING_RECORD_HEADER ([], g))
 \<and> (parse_ego_values env so ([], g) = Returns PARSE_ERROR_MISSING_RECORD_HEADER ([], g))
 \<and> (parse_ego_min_val env so ([], g) = Returns PARSE_ERROR_MISSING_RECORD_HEADER ([], g))
 \<and> (parse_ego_slay s ([], g) = Returns PARSE_ERROR_MISSING_RECORD_HEADER ([], g))
 \<and> (parse_ego_brand s ([], g) = Returns PARSE_ERROR_MISSING_RECORD_HEADER ([], g))
 \<and> (parse_ego_act s ([], g) = Returns PARSE_ERROR_MISSING_RECORD_HEADER ([], g))
 \<and> (parse_ego_desc env s ([], g) = Returns PARSE_ERROR_MISSING_RECORD_HEADER ([], g))
 \<and> (parse_artifact_act env s ([], g) = Returns PARSE_ERROR_MISSING_RECORD_HEADER ([], g))
 \<and> (parse_object_property_code env s [] = Returns PARSE_ERROR_MISSING_RECORD_HEADER [])
 \<and> (parse_object_property_type s [] = Returns PARSE_ERROR_MISSING_RECORD_HEADER [])
 \<and> (parse_object_property_subtype s [] = Returns PARSE_ERROR_MISSING_RECORD_HEADER [])
 \<and> (parse_object_property_id_type s [] = Returns PARSE_ERROR_MISSING_RECORD_HEADER [])
 \<and> (parse_object_property_power n [] = Returns PARSE_ERROR_MISSING_RECORD_HEADER [])
 \<and> (parse_object_property_mult n [] = Returns PARSE_ERROR_MISSING_RECORD_HEADER [])
 \<and> (parse_object_property_type_mult env s n [] = Returns PARSE_ERROR_MISSING_RECORD_HEADER [])
 \<and> (parse_object_property_adjective s [] = Returns PARSE_ERROR_MISSING_RECORD_HEADER [])
 \<and> (parse_object_property_neg_adj s [] = Returns PARSE_ERROR_MISSING_RECORD_HEADER [])
 \<and> (parse_object_property_msg s [] = Returns PARSE_ERROR_MISSING_RECORD_HEADER [])
 \<and> (parse_object_property_desc s [] = Returns PARSE_ERROR_MISSING_RECORD_HEADER [])
 \<and> (parse_object_property_short_desc s [] = Returns PARSE_ERROR_MISSING_RECORD_HEADER [])
 \<and> (parse_object_power_type env s ([], g) = Returns PARSE_ERROR_MISSING_RECORD_HEADER ([], g))
 \<and> (parse_object_power_item env s s2 ([], g) = Returns PARSE_ERROR_MISSING_RECORD_HEADER ([], g))
 \<and> (parse_object_power_dice env s ([], g) = Returns PARSE_ERROR_MISSING_RECORD_HEADER ([], g))
 \<and> (parse_object_power_expr env s s2 s3 ([], g) = Returns PARSE_ERROR_MISSING_RECORD_HEADER ([], g))
 \<and> (parse_object_power_operation s ([], g) = Returns PARSE_ERROR_MISSING_RECORD_HEADER ([], g))
 \<and> (parse_object_power_iterate env s ([], g) = Returns PARSE_ERROR_MISSING_RECORD_HEADER ([], g))
 \<and> (parse_object_power_apply_to s ([], g) = Returns PARSE_ERROR_MISSING_RECORD_HEADER ([], g))
 \<and> (parse_projection_message_type env s [] = Fault Assertion_Failed)
 \<and> (parse_projection_color env s [] = Fault Assertion_Failed)
 \<and> (parse_object_base_graphics env s (d\<lparr>d_kb := []\<rparr>) = Fault Assertion_Failed)
 \<and> (parse_object_base_break n (d\<lparr>d_kb := []\<rparr>) = Fault Assertion_Failed)
 \<and> (parse_object_base_max_stack n (d\<lparr>d_kb := []\<rparr>) = Fault Assertion_Failed)
 \<and> (parse_object_base_flags env s (d\<lparr>d_kb := []\<rparr>) = Fault Assertion_Failed)
 \<and> (parse_curse_combat n n2 n3 [] = Fault Assertion_Failed)
 \<and> (parse_curse_flags env s [] = Fault Assertion_Failed)
 \<and> (parse_curse_values env s [] = Fault Assertion_Failed)
 \<and> (parse_curse_msg s [] = Fault Assertion_Failed)
 \<and> (parse_curse_time r [] = Fault Assertion_Failed)
 \<and> (parse_curse_desc env s [] = Fault Assertion_Failed)
 \<and> (parse_curse_conflict env s [] = Fault Assertion_Failed)
 \<and> (parse_curse_conflict_flags env s [] = Fault Assertion_Failed)
 \<and> (parse_act_aim w [] = Fault Assertion_Failed)
 \<and> (parse_act_power w [] = Fault Assertion_Failed)
 \<and> (parse_act_msg env s [] = Fault Assertion_Failed)
 \<and> (parse_act_desc env s [] = Fault Assertion_Failed)
 \<and> (parse_object_graphics env ch s ([], g) = Fault Assertion_Failed)
 \<and> (parse_object_type env s ([], g) = Fault Assertion_Failed)
 \<and> (parse_object_level n ([], g) = Fault Assertion_Failed)
 \<and> (parse_object_weight n ([], g) = Fault Assertion_Failed)
 \<and> (parse_object_cost n ([], g) = Fault Assertion_Failed)
 \<and> (parse_object_alloc env n s ([], g) = Fault Assertion_Failed)
 \<and> (parse_object_attack r r2 r3 ([], g) = Fault Assertion_Failed)
 \<and> (parse_object_armor n r ([], g) = Fault Assertion_Failed)
 \<and> (parse_object_charges r ([], g) = Fault Assertion_Failed)
 \<and> (parse_object_pile n r ([], g) = Fault Assertion_Failed)
 \<and> (parse_object_flags env s ([], g) = Fault Assertion_Failed)
 \<and> (parse_object_time r ([], g) = Fault Assertion_Failed)
 \<and> (parse_object_pval r ([], g) = Fault Assertion_Failed)
 \<and> (parse_object_values env s ([], g) = Fault Assertion_Failed)
 \<and> (parse_object_slay s ([], g) = Fault Assertion_Failed)
 \<and> (parse_object_brand s ([], g) = Fault Assertion_Failed)
 \<and> (parse_object_desc env s ([], g) = Fault Assertion_Failed)
 \<and> (parse_object_curse env s n ([], g) = Fault Assertion_Failed)
 \<and> (parse_ego_time r ([], g) = Fault Assertion_Failed)
 \<and> (parse_ego_curse env s n ([], g) = Fault Assertion_Failed)
 \<and> (parse_artifact_base_object env s s2 ([], g) = Fault Assertion_Failed)
 \<and> (parse_artifact_level env n ([], g) = Fault Assertion_Failed)
 \<and> (parse_artifact_weight env n ([], g) = Fault Assertion_Failed)
 \<and> (parse_artifact_alloc env n s ([], g) = Fault Assertion_Failed)
 \<and> (parse_artifact_attack r n n2 ([], g) = Fault Assertion_Failed)
 \<and> (parse_artifact_armor n n2 ([], g) = Fault Assertion_Failed)
 \<and> (parse_artifact_flags env so ([], g) = Fault Assertion_Failed)
 \<and> (parse_artifact_time env r ([], g) = Fault Assertion_Failed)
 \<and> (parse_artifact_msg env s ([], g) = Fault Assertion_Failed)
 \<and> (parse_artifact_values env s ([], g) = Fault Assertion_Failed)
 \<and> (parse_artifact_slay s ([], g) = Fault Assertion_Failed)
 \<and> (parse_artifact_brand s ([], g) = Fault Assertion_Failed)
 \<and> (parse_artifact_desc env s ([], g) = Fault Assertion_Failed)
 \<and> (parse_artifact_curse env s n ([], g) = Fault Assertion_Failed)
 \<and> (parse_object_base_defaults ''break-chance'' n (d\<lparr>d_kb := []\<rparr>) =
      Returns PARSE_ERROR_NONE (d\<lparr>d_kb := [], d_defaults := (d_defaults d)\<lparr>kb_break_perc := n\<rparr>\<rparr>))
 \<and> (parse_object_base_defaults ''max-stack'' n (d\<lparr>d_kb := []\<rparr>) =
      Returns PARSE_ERROR_NONE (d\<lparr>d_kb := [], d_defaults := (d_defaults d)\<lparr>kb_max_stack := n\<rparr>\<rparr>))"
  by (intro conjI) (simp_all only: no_record_needed no_record_missing_header_projection no_record_missing_header_slay no_record_missing_header_brand no_record_missing_header_curse no_record_missing_header_act no_record_missing_header_object no_record_missing_header_ego no_record_missing_header_artifact no_record_missing_header_property no_record_missing_header_power
      no_record_assertion_projection no_record_assertion_object_base no_record_assertion_curse no_record_assertion_act no_record_assertion_object no_record_assertion_ego no_record_assertion_artifact)

section \<open>References to the finished tables\<close>

text \<open>The search of a table for a code that none of its rows has ends at the table's length.\<close>

lemma code_search_absent:
  "\<forall>c \<in> set codes. c \<noteq> None \<and> c \<noteq> Some s \<Longrightarrow> code_search s codes i = Inr (i + length codes)"
  by (induction codes arbitrary: i) (auto split: option.splits)

text \<open>
  A slay, brand or curse directive that names nothing in the finished table returns the
  matching error and leaves the record as it was, for object kinds, ego items and
  artifacts alike.
\<close>

lemma slay_absent:
  assumes "\<forall>c \<in> set (map sl_code (g_slays g)). c \<noteq> None \<and> c \<noteq> Some s"
  shows "parse_object_slay s (k # ks, g) = Returns PARSE_ERROR_UNRECOGNISED_SLAY (k # ks, g)"
    and "parse_ego_slay s (e # es, g) = Returns PARSE_ERROR_UNRECOGNISED_SLAY (e # es, g)"
    and "parse_artifact_slay s (a # as, g) = Returns PARSE_ERROR_UNRECOGNISED_SLAY (a # as, g)"
  using code_search_absent[OF assms, of 0]
  by (simp_all add: parse_object_slay_def parse_ego_slay_def parse_artifact_slay_def)

lemma brand_absent:
  assumes "\<forall>c \<in> set (map br_code (g_brands g)). c \<noteq> None \<and> c \<noteq> Some s"
  shows "parse_object_brand s (k # ks, g) = Returns PARSE_ERROR_UNRECOGNISED_BRAND (k # ks, g)"
    and "parse_ego_brand s (e # es, g) = Returns PARSE_ERROR_UNRECOGNISED_BRAND (e # es, g)"
    and "parse_artifact_brand s (a # as, g) = Returns PARSE_ERROR_UNRECOGNISED_BRAND (a # as, g)"
  using code_search_absent[OF assms, of 0]
  by (simp_all add: parse_object_brand_def parse_ego_brand_def parse_artifact_brand_def)

lemma curse_absent:
  assumes "lookup_curse env (g_curses g) s = int (length (g_curses g))"
  shows "parse_object_curse env s pw (k # ks, g) = Returns PARSE_ERROR_UNRECOGNISED_CURSE (k # ks, g)"
    and "parse_ego_curse env s pw (e # es, g) = Returns PARSE_ERROR_UNRECOGNISED_CURSE (e # es, g)"
    and "parse_artifact_curse env s pw (a # as, g) = Returns PARSE_ERROR_UNRECOGNISED_CURSE (a # as, g)"
  using assms
  by (simp_all add: parse_object_curse_def parse_ego_curse_def parse_artifact_curse_def Let_def)

text \<open>An item directive with a tval name that \<open>tval_find_idx\<close> does not know is refused
  before anything is looked up or stored.\<close>

lemma item_unknown_tval:
  assumes "tval_find_idx env tv < 0"
  shows "parse_ego_item env tv sv (e # es, g) = Returns PARSE_ERROR_UNRECOGNISED_TVAL (e # es, g)"
  using assms by (simp add: parse_ego_item_def Let_def)

text \<open>
  Once the tval is known there is no further test of the names: whatever \<open>lookup_sval\<close>
  and \<open>lookup_kind\<close> answer, the callback either follows a null pointer or pushes an item
  on the list, so it cannot return with the record as it was.
\<close>

lemma item_known_tval_no_unrecognised:
  assumes "0 \<le> tval_find_idx env tv"
  shows "parse_ego_item env tv sv (e # es, g) \<noteq> Returns err (e # es, g)"
proof -
  have neq: "e\<lparr>e_poss_items := kidx # e_poss_items e\<rparr> \<noteq> e" for kidx
  proof
    assume "e\<lparr>e_poss_items := kidx # e_poss_items e\<rparr> = e"
    then have "e_poss_items (e\<lparr>e_poss_items := kidx # e_poss_items e\<rparr>) = e_poss_items e"
      by simp
    then show False by simp
  qed
  show ?thesis
    using assms neq
    by (auto simp add: parse_ego_item_def Let_def split: option.splits)
qed

lemma item_known_tval_outcomes:
  assumes "0 \<le> tval_find_idx env tv"
  shows "parse_ego_item env tv sv (e # es, g) = Fault Null_Dereference
       \<or> (\<exists>kidx. returned_state (parse_ego_item env tv sv (e # es, g))
                   = Some (e\<lparr>e_poss_items := kidx # e_poss_items e\<rparr> # es, g))"
  using assms
  by (auto simp add: parse_ego_item_def returned_state_def Let_def split: option.splits)

text \<open>C3: an ego item directive whose tval is known and whose sval names no kind of the
  finished kind table should return an unrecognised error and leave the list of possible
  items as it was.  The callback has no test between \<^verbatim>\<open>lookup_sval\<close> and
  \<^verbatim>\<open>lookup_kind(tval, sval)->kidx\<close>: in the example tables, where no sword is called
  Katana and the lookup of the kind finds nothing, it follows the null pointer and returns
  no error code.\<close>

theorem ego_item_absent_sval:
  "tval_find_idx example_env ''sword'' = 1
 \<and> lookup_sval example_env (g_k_info example_tables) 1 ''Katana'' = -1
 \<and> lookup_kind example_env (g_k_info example_tables) 1 (-1) = None
 \<and> parse_ego_item example_env ''sword'' ''Katana'' ([example_ego], example_tables)
     = Fault Null_Dereference"
  by (simp add: parse_ego_item_def item_kidx_def example_env_def example_tables_def
      example_kinds_def object_kind_zero_def Let_def)

text \<open>The other references of the example state are refused as the claim says.\<close>

lemma example_references_refused:
  "parse_ego_slay ''ANIMAL_2'' ([example_ego], example_tables)
     = Returns PARSE_ERROR_UNRECOGNISED_SLAY ([example_ego], example_tables)"
  "parse_ego_brand ''COLD_2'' ([example_ego], example_tables)
     = Returns PARSE_ERROR_UNRECOGNISED_BRAND ([example_ego], example_tables)"
  "parse_artifact_curse example_env ''teleportation'' 10 ([example_artifact], example_tables)
     = Returns PARSE_ERROR_UNRECOGNISED_CURSE ([example_artifact], example_tables)"
  "parse_ego_item example_env ''shield'' ''Katana'' ([example_ego], example_tables)
     = Returns PARSE_ERROR_UNRECOGNISED_TVAL ([example_ego], example_tables)"
  "parse_ego_item example_env ''sword'' ''Long Sword'' ([example_ego], example_tables)
     = Returns PARSE_ERROR_NONE
         ([example_ego\<lparr>e_poss_items := [1]\<rparr>], example_tables)"
proof -
  show "parse_ego_slay ''ANIMAL_2'' ([example_ego], example_tables)
     = Returns PARSE_ERROR_UNRECOGNISED_SLAY ([example_ego], example_tables)"
    by (rule slay_absent) (simp add: example_tables_def slay_zero_def)
  show "parse_ego_brand ''COLD_2'' ([example_ego], example_tables)
     = Returns PARSE_ERROR_UNRECOGNISED_BRAND ([example_ego], example_tables)"
    by (rule brand_absent) (simp add: example_tables_def brand_zero_def)
  show "parse_artifact_curse example_env ''teleportation'' 10 ([example_artifact], example_tables)
     = Returns PARSE_ERROR_UNRECOGNISED_CURSE ([example_artifact], example_tables)"
    by (rule curse_absent) (simp add: example_tables_def example_env_def curse_zero_def)
  show "parse_ego_item example_env ''shield'' ''Katana'' ([example_ego], example_tables)
     = Returns PARSE_ERROR_UNRECOGNISED_TVAL ([example_ego], example_tables)"
    by (rule item_unknown_tval) (simp add: example_env_def)
  show "parse_ego_item example_env ''sword'' ''Long Sword'' ([example_ego], example_tables)
     = Returns PARSE_ERROR_NONE
         ([example_ego\<lparr>e_poss_items := [1]\<rparr>], example_tables)"
    by (simp add: parse_ego_item_def item_kidx_def example_env_def example_tables_def
        example_kinds_def object_kind_zero_def example_ego_def ego_item_zero_def Let_def)
qed

section \<open>Cleanup and the table pointer\<close>










section \<open>Artifacts without a base object kind\<close>

lemma resize_k_info_grow:
  "resize_k_info env (Suc (length k_info)) k_info = k_info @ [object_kind_zero env]"
  by (simp add: resize_k_info_def)

lemma write_dummy_object_record_ok:
  assumes mem: "mem_realloc_ok env"
    and kmax: "g_k_max g = int (length (g_k_info g))"
    and base: "first_base_of_tval (a_tval art) 0 (take (TV_MAX env) (g_kb_info g)) = Some i"
  shows "\<exists>dummy.
      write_dummy_object_record env name art g =
        (PARSE_ERROR_NONE, art\<lparr>a_sval := k_sval dummy\<rparr>,
         g\<lparr>g_k_max := g_k_max g + 1, g_k_info := g_k_info g @ [dummy],
           g_kb_info := (g_kb_info g)
             [i := (g_kb_info g ! i)\<lparr>kb_num_svals := kb_num_svals (g_kb_info g ! i) + 1\<rparr>]\<rparr>)
    \<and> k_kidx dummy = int (length (g_k_info g))
    \<and> kf_has (k_kind_flags dummy) (KF_INSTA_ART env)
    \<and> k_tval dummy = a_tval art
    \<and> k_sval dummy = kb_num_svals (g_kb_info g ! i) + 1
    \<and> k_level dummy = -1 \<and> k_weight dummy = -1
    \<and> k_name dummy = Some (take 99 (''& '' @ name @ ''~''))"
proof -
  let ?base = "(g_kb_info g ! i)\<lparr>kb_num_svals := kb_num_svals (g_kb_info g ! i) + 1\<rparr>"
  let ?dummy = "(object_kind_zero env)
      \<lparr>k_tval := a_tval art, k_base := Some (nat (a_tval art)),
        k_name := Some (take 99 (''& '' @ name @ ''~'')),
        k_kidx := int (length (g_k_info g)),
        k_sval := kb_num_svals ?base, k_d_char := CHR ''*'', k_d_attr := COLOUR_RED env,
        k_level := -1, k_weight := -1,
        k_kind_flags := kf_on (k_kind_flags (object_kind_zero env)) (KF_INSTA_ART env)\<rparr>"
  have n: "nat (int (length (g_k_info g)) + 1) = Suc (length (g_k_info g))"
    by simp
  have "write_dummy_object_record env name art g =
        (PARSE_ERROR_NONE, art\<lparr>a_sval := k_sval ?dummy\<rparr>,
         g\<lparr>g_k_max := g_k_max g + 1, g_k_info := g_k_info g @ [?dummy],
           g_kb_info := (g_kb_info g)[i := ?base]\<rparr>)"
    using mem base
    by (simp add: write_dummy_object_record_def Let_def kmax n resize_k_info_grow del: take_append)
  moreover have "k_kidx ?dummy = int (length (g_k_info g))
    \<and> kf_has (k_kind_flags ?dummy) (KF_INSTA_ART env)
    \<and> k_tval ?dummy = a_tval art
    \<and> k_sval ?dummy = kb_num_svals (g_kb_info g ! i) + 1
    \<and> k_level ?dummy = -1 \<and> k_weight ?dummy = -1
    \<and> k_name ?dummy = Some (take 99 (''& '' @ name @ ''~''))"
    by (simp add: kf_has_def kf_on_def)
  ultimately show ?thesis by blast
qed

text \<open>
  C2 (amended).  When the base-object directive of an artifact names a tval that exists
  and has an object base, and \<open>lookup_sval_silent\<close> finds no kind of that name, and the
  reallocation succeeds on a table whose \<open>k_max\<close> is its number of rows, the callback
  returns \<open>PARSE_ERROR_NONE\<close>; \<open>k_info\<close> is the old table with exactly one row appended
  and \<open>k_max\<close> is one more; the new row carries its own index as \<open>kidx\<close>, the
  \<open>KF_INSTA_ART\<close> kind flag, the tval, the name \<open>"& <name>~"\<close> and level and weight
  \<open>-1\<close>; the sval of the new row is the incremented \<open>num_svals\<close> of the base of the
  tval, and the sval of the artifact is that sval of the new row (not the index of the
  row).
\<close>

theorem artifact_dummy_kind:
  assumes tv: "tval_find_idx env tv = tval" "0 \<le> tval"
    and sv: "lookup_sval_silent env (g_k_info g) tval sval_name < 0"
    and mem: "mem_realloc_ok env"
    and kmax: "g_k_max g = int (length (g_k_info g))"
    and base: "first_base_of_tval tval 0 (take (TV_MAX env) (g_kb_info g)) = Some i"
  shows "\<exists>dummy.
      parse_artifact_base_object env tv sval_name (a # rest, g) =
        Returns PARSE_ERROR_NONE
          (a\<lparr>a_tval := tval, a_sval := k_sval dummy\<rparr> # rest,
           g\<lparr>g_k_max := g_k_max g + 1, g_k_info := g_k_info g @ [dummy],
             g_kb_info := (g_kb_info g)
               [i := (g_kb_info g ! i)\<lparr>kb_num_svals := kb_num_svals (g_kb_info g ! i) + 1\<rparr>]\<rparr>)
    \<and> k_kidx dummy = int (length (g_k_info g))
    \<and> kf_has (k_kind_flags dummy) (KF_INSTA_ART env)
    \<and> k_tval dummy = tval
    \<and> k_sval dummy = kb_num_svals (g_kb_info g ! i) + 1
    \<and> k_level dummy = -1 \<and> k_weight dummy = -1
    \<and> k_name dummy = Some (take 99 (''& '' @ sval_name @ ''~''))"
proof -
  let ?a1 = "a\<lparr>a_tval := tval\<rparr>"
  have b: "first_base_of_tval (a_tval ?a1) 0 (take (TV_MAX env) (g_kb_info g)) = Some i"
    using base by simp
  from write_dummy_object_record_ok[OF mem kmax b, of sval_name]
  obtain dummy where
    w: "write_dummy_object_record env sval_name ?a1 g =
        (PARSE_ERROR_NONE, ?a1\<lparr>a_sval := k_sval dummy\<rparr>,
         g\<lparr>g_k_max := g_k_max g + 1, g_k_info := g_k_info g @ [dummy],
           g_kb_info := (g_kb_info g)
             [i := (g_kb_info g ! i)\<lparr>kb_num_svals := kb_num_svals (g_kb_info g ! i) + 1\<rparr>]\<rparr>)"
    and p: "k_kidx dummy = int (length (g_k_info g))"
      "kf_has (k_kind_flags dummy) (KF_INSTA_ART env)"
      "k_tval dummy = tval"
      "k_sval dummy = kb_num_svals (g_kb_info g ! i) + 1"
      "k_level dummy = -1" "k_weight dummy = -1"
      "k_name dummy = Some (take 99 (''& '' @ sval_name @ ''~''))"
    by auto
  have "parse_artifact_base_object env tv sval_name (a # rest, g) =
        Returns PARSE_ERROR_NONE
          (a\<lparr>a_tval := tval, a_sval := k_sval dummy\<rparr> # rest,
           g\<lparr>g_k_max := g_k_max g + 1, g_k_info := g_k_info g @ [dummy],
             g_kb_info := (g_kb_info g)
               [i := (g_kb_info g ! i)\<lparr>kb_num_svals := kb_num_svals (g_kb_info g ! i) + 1\<rparr>]\<rparr>)"
    using tv sv w by (simp add: parse_artifact_base_object_def Let_def)
  then show ?thesis using p by blast
qed

lemma example_base_object_facts:
  "tval_find_idx example_env ''sword'' = 1"
  "lookup_sval_silent example_env (g_k_info example_kinds) 1 ''Ringil'' < 0"
  "mem_realloc_ok example_env"
  "g_k_max example_kinds = int (length (g_k_info example_kinds))"
  "first_base_of_tval 1 0 (take (TV_MAX example_env) (g_kb_info example_kinds)) = Some 1"
  by (simp_all add: example_env_def example_kinds_def object_base_zero_def object_kind_zero_def)

text \<open>
  C2 as stated fails: with three kinds in the table and one sword kind, an artifact whose
  base object is an unknown sword gets the new row 3 and the sval 2.
\<close>

theorem artifact_sval_is_not_row_index:
  "returned_code (parse_artifact_base_object example_env ''sword'' ''Ringil''
      ([example_artifact], example_kinds)) = Some PARSE_ERROR_NONE
 \<and> (case returned_state (parse_artifact_base_object example_env ''sword'' ''Ringil''
        ([example_artifact], example_kinds)) of
      Some (a # rest, g) \<Rightarrow>
        length (g_k_info g) = 4 \<and> k_kidx (g_k_info g ! 3) = 3 \<and> a_sval a = 2 \<and> a_sval a \<noteq> 3
    | _ \<Rightarrow> False)"
proof -
  have a: "first_base_of_tval (a_tval (example_artifact\<lparr>a_tval := 1\<rparr>)) 0
             (take (TV_MAX example_env) (g_kb_info example_kinds)) = Some 1"
    using example_base_object_facts(5) by simp
  from write_dummy_object_record_ok[OF example_base_object_facts(3,4) a, of "''Ringil''"]
  obtain dummy where
    w: "write_dummy_object_record example_env ''Ringil'' (example_artifact\<lparr>a_tval := 1\<rparr>) example_kinds =
        (PARSE_ERROR_NONE, example_artifact\<lparr>a_tval := 1, a_sval := k_sval dummy\<rparr>,
         example_kinds\<lparr>g_k_max := g_k_max example_kinds + 1,
           g_k_info := g_k_info example_kinds @ [dummy],
           g_kb_info := (g_kb_info example_kinds)
             [1 := (g_kb_info example_kinds ! 1)
                \<lparr>kb_num_svals := kb_num_svals (g_kb_info example_kinds ! 1) + 1\<rparr>]\<rparr>)"
    and kidx: "k_kidx dummy = int (length (g_k_info example_kinds))"
    and sval: "k_sval dummy = kb_num_svals (g_kb_info example_kinds ! 1) + 1"
    by auto
  have len: "length (g_k_info example_kinds) = 3" "kb_num_svals (g_kb_info example_kinds ! 1) = 1"
    by (simp_all add: example_kinds_def)
  have run: "parse_artifact_base_object example_env ''sword'' ''Ringil''
      ([example_artifact], example_kinds) =
      Returns PARSE_ERROR_NONE ([example_artifact\<lparr>a_tval := 1, a_sval := k_sval dummy\<rparr>],
         example_kinds\<lparr>g_k_max := g_k_max example_kinds + 1,
           g_k_info := g_k_info example_kinds @ [dummy],
           g_kb_info := (g_kb_info example_kinds)
             [1 := (g_kb_info example_kinds ! 1)
                \<lparr>kb_num_svals := kb_num_svals (g_kb_info example_kinds ! 1) + 1\<rparr>]\<rparr>)"
    using example_base_object_facts(1,2) w
    by (simp add: parse_artifact_base_object_def Let_def)
  show ?thesis
    unfolding run using kidx sval len
    by (simp add: returned_code_def returned_state_def nth_append)
qed

theorem artifact_dummy_kind_witness:
  "tval_find_idx example_env ''sword'' = 1 \<and> (0::int) \<le> 1
 \<and> lookup_sval_silent example_env (g_k_info example_kinds) 1 ''Ringil'' < 0
 \<and> mem_realloc_ok example_env
 \<and> g_k_max example_kinds = int (length (g_k_info example_kinds))
 \<and> first_base_of_tval 1 0 (take (TV_MAX example_env) (g_kb_info example_kinds)) = Some 1
 \<and> (\<exists>dummy.
      parse_artifact_base_object example_env ''sword'' ''Ringil'' ([example_artifact], example_kinds) =
        Returns PARSE_ERROR_NONE
          ([example_artifact\<lparr>a_tval := 1, a_sval := k_sval dummy\<rparr>],
           example_kinds\<lparr>g_k_max := 4, g_k_info := g_k_info example_kinds @ [dummy],
             g_kb_info := (g_kb_info example_kinds)
               [1 := (g_kb_info example_kinds ! 1)\<lparr>kb_num_svals := 2\<rparr>]\<rparr>)
    \<and> k_kidx dummy = 3
    \<and> kf_has (k_kind_flags dummy) (KF_INSTA_ART example_env)
    \<and> k_tval dummy = 1 \<and> k_sval dummy = 2 \<and> k_level dummy = -1 \<and> k_weight dummy = -1
    \<and> k_name dummy = Some ''& Ringil~'')"
proof -
  have len: "length (g_k_info example_kinds) = 3" "kb_num_svals (g_kb_info example_kinds ! 1) = 1"
    "g_k_max example_kinds = 3"
    by (simp_all add: example_kinds_def)
  note t = artifact_dummy_kind[OF example_base_object_facts(1) _ example_base_object_facts(2-5),
      where a = example_artifact and rest = "[]"]
  from t obtain dummy where
    "parse_artifact_base_object example_env ''sword'' ''Ringil'' ([example_artifact], example_kinds) =
        Returns PARSE_ERROR_NONE
          ([example_artifact\<lparr>a_tval := 1, a_sval := k_sval dummy\<rparr>],
           example_kinds\<lparr>g_k_max := 4, g_k_info := g_k_info example_kinds @ [dummy],
             g_kb_info := (g_kb_info example_kinds)
               [1 := (g_kb_info example_kinds ! 1)\<lparr>kb_num_svals := 2\<rparr>]\<rparr>)"
    "k_kidx dummy = 3"
    "kf_has (k_kind_flags dummy) (KF_INSTA_ART example_env)"
    "k_tval dummy = 1" "k_sval dummy = 2" "k_level dummy = -1" "k_weight dummy = -1"
    "k_name dummy = Some ''& Ringil~''"
    unfolding len by auto
  then show ?thesis
    using example_base_object_facts by (intro conjI exI[of _ dummy]) simp_all
qed

lemma write_dummy_object_record_none:
  assumes "write_dummy_object_record env name art g = (PARSE_ERROR_NONE, art', g')"
  shows "mem_realloc_ok env
       \<and> (\<exists>i. first_base_of_tval (a_tval art) 0 (take (TV_MAX env) (g_kb_info g)) = Some i)"
  using assms
  by (auto simp: write_dummy_object_record_def Let_def split: if_splits option.splits)

text \<open>
  C8.  The level and weight directives of an artifact store their value in the artifact
  and look at the kind \<open>lookup_kind(a->tval, a->sval)\<close> returns: when its level (weight)
  is the sentinel \<open>-1\<close> the value is stored there too, replacing the sentinel, and
  otherwise the table of kinds stays as it is.  The row that
  \<open>write_dummy_object_record\<close> appends carries the sentinel in both fields and the tval
  and sval it gives the artifact.
\<close>

theorem artifact_level_weight_sentinel:
  "(lookup_kind env (g_k_info g) (a_tval a) (a_sval a) = Some j \<and> j < length (g_k_info g)
      \<and> k_level (g_k_info g ! j) = -1 \<longrightarrow>
      parse_artifact_level env v (a # rest, g) =
        Returns PARSE_ERROR_NONE
          (a\<lparr>a_level := v\<rparr> # rest,
           g\<lparr>g_k_info := (g_k_info g)[j := (g_k_info g ! j)\<lparr>k_level := v\<rparr>]\<rparr>))
 \<and> (lookup_kind env (g_k_info g) (a_tval a) (a_sval a) = Some j \<and> j < length (g_k_info g)
      \<and> k_level (g_k_info g ! j) \<noteq> -1 \<longrightarrow>
      parse_artifact_level env v (a # rest, g) =
        Returns PARSE_ERROR_NONE (a\<lparr>a_level := v\<rparr> # rest, g))
 \<and> (lookup_kind env (g_k_info g) (a_tval a) (a_sval a) = Some j \<and> j < length (g_k_info g)
      \<and> k_weight (g_k_info g ! j) = -1 \<longrightarrow>
      parse_artifact_weight env v (a # rest, g) =
        Returns PARSE_ERROR_NONE
          (a\<lparr>a_weight := v\<rparr> # rest,
           g\<lparr>g_k_info := (g_k_info g)[j := (g_k_info g ! j)\<lparr>k_weight := v\<rparr>]\<rparr>))
 \<and> (lookup_kind env (g_k_info g) (a_tval a) (a_sval a) = Some j \<and> j < length (g_k_info g)
      \<and> k_weight (g_k_info g ! j) \<noteq> -1 \<longrightarrow>
      parse_artifact_weight env v (a # rest, g) =
        Returns PARSE_ERROR_NONE (a\<lparr>a_weight := v\<rparr> # rest, g))
 \<and> (write_dummy_object_record env name art g0 = (PARSE_ERROR_NONE, art', g')
      \<and> g_k_max g0 = int (length (g_k_info g0)) \<longrightarrow>
      length (g_k_info g') = Suc (length (g_k_info g0))
    \<and> k_level (last (g_k_info g')) = -1 \<and> k_weight (last (g_k_info g')) = -1
    \<and> k_tval (last (g_k_info g')) = a_tval art' \<and> k_sval (last (g_k_info g')) = a_sval art')"
proof -
  have l1: "parse_artifact_level env v (a # rest, g) =
        Returns PARSE_ERROR_NONE
          (a\<lparr>a_level := v\<rparr> # rest,
           g\<lparr>g_k_info := (g_k_info g)[j := (g_k_info g ! j)\<lparr>k_level := v\<rparr>]\<rparr>)"
    if "lookup_kind env (g_k_info g) (a_tval a) (a_sval a) = Some j" "j < length (g_k_info g)"
       "k_level (g_k_info g ! j) = -1"
    using that by (simp add: parse_artifact_level_def artifact_kind_def update_kind_def)
  have l2: "parse_artifact_level env v (a # rest, g) =
        Returns PARSE_ERROR_NONE (a\<lparr>a_level := v\<rparr> # rest, g)"
    if "lookup_kind env (g_k_info g) (a_tval a) (a_sval a) = Some j" "j < length (g_k_info g)"
       "k_level (g_k_info g ! j) \<noteq> -1"
    using that by (simp add: parse_artifact_level_def artifact_kind_def)
  have w1: "parse_artifact_weight env v (a # rest, g) =
        Returns PARSE_ERROR_NONE
          (a\<lparr>a_weight := v\<rparr> # rest,
           g\<lparr>g_k_info := (g_k_info g)[j := (g_k_info g ! j)\<lparr>k_weight := v\<rparr>]\<rparr>)"
    if "lookup_kind env (g_k_info g) (a_tval a) (a_sval a) = Some j" "j < length (g_k_info g)"
       "k_weight (g_k_info g ! j) = -1"
    using that by (simp add: parse_artifact_weight_def artifact_kind_def update_kind_def)
  have w2: "parse_artifact_weight env v (a # rest, g) =
        Returns PARSE_ERROR_NONE (a\<lparr>a_weight := v\<rparr> # rest, g)"
    if "lookup_kind env (g_k_info g) (a_tval a) (a_sval a) = Some j" "j < length (g_k_info g)"
       "k_weight (g_k_info g ! j) \<noteq> -1"
    using that by (simp add: parse_artifact_weight_def artifact_kind_def)
  have d: "length (g_k_info g') = Suc (length (g_k_info g0))
    \<and> k_level (last (g_k_info g')) = -1 \<and> k_weight (last (g_k_info g')) = -1
    \<and> k_tval (last (g_k_info g')) = a_tval art' \<and> k_sval (last (g_k_info g')) = a_sval art'"
    if w: "write_dummy_object_record env name art g0 = (PARSE_ERROR_NONE, art', g')"
      and kmax: "g_k_max g0 = int (length (g_k_info g0))"
  proof -
    from write_dummy_object_record_none[OF w] obtain i where
      mem: "mem_realloc_ok env" and
      base: "first_base_of_tval (a_tval art) 0 (take (TV_MAX env) (g_kb_info g0)) = Some i"
      by blast
    from write_dummy_object_record_ok[OF mem kmax base, of name] w
    obtain dummy where
      "art' = art\<lparr>a_sval := k_sval dummy\<rparr>"
      "g' = g0\<lparr>g_k_max := g_k_max g0 + 1, g_k_info := g_k_info g0 @ [dummy],
           g_kb_info := (g_kb_info g0)
             [i := (g_kb_info g0 ! i)\<lparr>kb_num_svals := kb_num_svals (g_kb_info g0 ! i) + 1\<rparr>]\<rparr>"
      "k_tval dummy = a_tval art" "k_level dummy = -1" "k_weight dummy = -1"
      by auto
    then show ?thesis by simp
  qed
  show ?thesis
    using l1 l2 w1 w2 d by blast
qed

theorem artifact_level_weight_sentinel_witness:
  "parse_artifact_level example_env 30
      ([example_artifact\<lparr>a_tval := 1, a_sval := 2\<rparr>], example_kinds_with_dummy) =
     Returns PARSE_ERROR_NONE
       ([example_artifact\<lparr>a_tval := 1, a_sval := 2, a_level := 30\<rparr>],
        example_kinds_with_dummy
          \<lparr>g_k_info := (g_k_info example_kinds_with_dummy)
             [3 := (g_k_info example_kinds_with_dummy ! 3)\<lparr>k_level := 30\<rparr>]\<rparr>)
 \<and> parse_artifact_weight example_env 75
      ([example_artifact\<lparr>a_tval := 1, a_sval := 2\<rparr>], example_kinds_with_dummy) =
     Returns PARSE_ERROR_NONE
       ([example_artifact\<lparr>a_tval := 1, a_sval := 2, a_weight := 75\<rparr>],
        example_kinds_with_dummy
          \<lparr>g_k_info := (g_k_info example_kinds_with_dummy)
             [3 := (g_k_info example_kinds_with_dummy ! 3)\<lparr>k_weight := 75\<rparr>]\<rparr>)
 \<and> parse_artifact_level example_env 30
      ([example_artifact\<lparr>a_tval := 1, a_sval := 1\<rparr>], example_kinds_with_dummy) =
     Returns PARSE_ERROR_NONE
       ([example_artifact\<lparr>a_tval := 1, a_sval := 1, a_level := 30\<rparr>], example_kinds_with_dummy)
 \<and> parse_artifact_weight example_env 75
      ([example_artifact\<lparr>a_tval := 1, a_sval := 1\<rparr>], example_kinds_with_dummy) =
     Returns PARSE_ERROR_NONE
       ([example_artifact\<lparr>a_tval := 1, a_sval := 1, a_weight := 75\<rparr>], example_kinds_with_dummy)
 \<and> k_level (last (g_k_info (snd (snd (write_dummy_object_record example_env ''Ringil''
        (example_artifact\<lparr>a_tval := 1\<rparr>) example_kinds))))) = -1
 \<and> k_weight (last (g_k_info (snd (snd (write_dummy_object_record example_env ''Ringil''
        (example_artifact\<lparr>a_tval := 1\<rparr>) example_kinds))))) = -1"
proof -
  have look: "lookup_kind example_env (g_k_info example_kinds_with_dummy) 1 2 = Some 3"
    "lookup_kind example_env (g_k_info example_kinds_with_dummy) 1 1 = Some 1"
    "length (g_k_info example_kinds_with_dummy) = 4"
    "k_level (g_k_info example_kinds_with_dummy ! 3) = -1"
    "k_weight (g_k_info example_kinds_with_dummy ! 3) = -1"
    "k_level (g_k_info example_kinds_with_dummy ! 1) = 10"
    "k_weight (g_k_info example_kinds_with_dummy ! 1) = 130"
    by (simp_all add: example_kinds_with_dummy_def example_kinds_def example_env_def
        object_kind_zero_def)
  note s = artifact_level_weight_sentinel
    [where env = example_env and g = example_kinds_with_dummy
       and a = "example_artifact\<lparr>a_tval := 1, a_sval := 2\<rparr>" and j = 3 and rest = "[]"]
  note n = artifact_level_weight_sentinel
    [where env = example_env and g = example_kinds_with_dummy
       and a = "example_artifact\<lparr>a_tval := 1, a_sval := 1\<rparr>" and j = 1 and rest = "[]"]
  have a: "first_base_of_tval (a_tval (example_artifact\<lparr>a_tval := 1\<rparr>)) 0
             (take (TV_MAX example_env) (g_kb_info example_kinds)) = Some 1"
    using example_base_object_facts(5) by simp
  from write_dummy_object_record_ok[OF example_base_object_facts(3,4) a, of "''Ringil''"]
  obtain art' g' where
    w: "write_dummy_object_record example_env ''Ringil'' (example_artifact\<lparr>a_tval := 1\<rparr>) example_kinds
        = (PARSE_ERROR_NONE, art', g')"
    by blast
  note e = artifact_level_weight_sentinel
    [where env = example_env and name = "''Ringil''" and art = "example_artifact\<lparr>a_tval := 1\<rparr>"
       and ?g0.0 = example_kinds and art' = art' and g' = g']
  from e w example_base_object_facts(4)
  have fresh: "k_level (last (g_k_info g')) = -1" "k_weight (last (g_k_info g')) = -1"
    by blast+
  show ?thesis
    using s[of 30] s[of 75] n[of 30] n[of 75] look fresh w by simp
qed

section \<open>The finished object-kind table\<close>

text \<open>
  C10.  After \<open>finish_parse_object\<close>, run on a list whose tvals all index \<open>kb_info\<close>, the
  table has one row per parsed kind; row \<open>i\<close> is the kind parsed \<open>i\<close>-th, its \<open>kidx\<close> is
  \<open>i\<close>, its kind flags are its own united with those of its tval's base (so they include
  the base's), and its \<open>next\<close> is row \<open>i + 1\<close>, or null in the last row.
\<close>

theorem finish_parse_object_rows:
  assumes "list_all (\<lambda>k. 0 \<le> k_tval k \<and> nat (k_tval k) < length kb_info) priv"
  shows "\<exists>tab. finish_parse_object env kb_info priv = Returns PARSE_ERROR_NONE (length priv, tab)
           \<and> length tab = length priv
           \<and> (\<forall>i < length tab.
                 k_kidx (tab ! i) = int i
               \<and> k_tval (tab ! i) = k_tval (rev priv ! i)
               \<and> k_kind_flags (tab ! i) =
                   k_kind_flags (rev priv ! i) \<union> kb_kind_flags (kb_info ! nat (k_tval (tab ! i)))
               \<and> kb_kind_flags (kb_info ! nat (k_tval (tab ! i))) \<subseteq> k_kind_flags (tab ! i)
               \<and> k_next (tab ! i) = (if i + 1 < length tab then Some (i + 1) else None))"
proof -
  let ?r = "finish_table (object_fixup kb_info) (object_kind_zero env) 0 priv"
  have run: "finish_parse_object env kb_info priv = Returns PARSE_ERROR_NONE (length priv, snd ?r)"
    using assms finish_table_max[of "object_fixup kb_info" "object_kind_zero env" 0 priv]
    by (simp add: finish_parse_object_def prod_eq_iff)
  have len: "length (snd ?r) = length priv"
    by (simp add: finish_table_length)
  have rows: "k_kidx (snd ?r ! i) = int i
               \<and> k_tval (snd ?r ! i) = k_tval (rev priv ! i)
               \<and> k_kind_flags (snd ?r ! i) =
                   k_kind_flags (rev priv ! i) \<union> kb_kind_flags (kb_info ! nat (k_tval (snd ?r ! i)))
               \<and> kb_kind_flags (kb_info ! nat (k_tval (snd ?r ! i))) \<subseteq> k_kind_flags (snd ?r ! i)
               \<and> k_next (snd ?r ! i) = (if i + 1 < length (snd ?r) then Some (i + 1) else None)"
    if "i < length (snd ?r)" for i
  proof -
    have i: "i < length priv" using that len by simp
    have row: "snd ?r ! i = object_fixup kb_info (length priv) (int i) (rev priv ! i)"
      using i by (simp add: finish_table_nth)
    show ?thesis
      unfolding row len using i
      by (auto simp: object_fixup_def kf_union_def)
  qed
  show ?thesis
    using run len rows by blast
qed

theorem finish_parse_object_rows_witness:
  "list_all (\<lambda>k. 0 \<le> k_tval k \<and> nat (k_tval k) < length
       [object_base_zero example_env, (object_base_zero example_env)\<lparr>kb_tval := 1, kb_kind_flags := {7}\<rparr>])
     [(object_kind_zero example_env)\<lparr>k_tval := 1, k_kind_flags := {3}\<rparr>,
      (object_kind_zero example_env)\<lparr>k_tval := 1\<rparr>]
   \<and> (\<exists>tab. finish_parse_object example_env
         [object_base_zero example_env, (object_base_zero example_env)\<lparr>kb_tval := 1, kb_kind_flags := {7}\<rparr>]
         [(object_kind_zero example_env)\<lparr>k_tval := 1, k_kind_flags := {3}\<rparr>,
          (object_kind_zero example_env)\<lparr>k_tval := 1\<rparr>] = Returns PARSE_ERROR_NONE (2, tab)
      \<and> length tab = 2
      \<and> k_kidx (tab ! 0) = 0 \<and> k_kind_flags (tab ! 0) = {7} \<and> k_next (tab ! 0) = Some 1
      \<and> k_kidx (tab ! 1) = 1 \<and> k_kind_flags (tab ! 1) = {3, 7} \<and> k_next (tab ! 1) = None)"
proof -
  let ?kb = "[object_base_zero example_env,
              (object_base_zero example_env)\<lparr>kb_tval := 1, kb_kind_flags := {7}\<rparr>]"
  let ?priv = "[(object_kind_zero example_env)\<lparr>k_tval := 1, k_kind_flags := {3}\<rparr>,
                (object_kind_zero example_env)\<lparr>k_tval := 1\<rparr>]"
  have h: "list_all (\<lambda>k. 0 \<le> k_tval k \<and> nat (k_tval k) < length ?kb) ?priv"
    by simp
  from finish_parse_object_rows[OF h, of example_env]
  obtain tab where run: "finish_parse_object example_env ?kb ?priv = Returns PARSE_ERROR_NONE (length ?priv, tab)"
    and len: "length tab = length ?priv"
    and rows: "\<forall>i < length tab.
                 k_kidx (tab ! i) = int i
               \<and> k_tval (tab ! i) = k_tval (rev ?priv ! i)
               \<and> k_kind_flags (tab ! i) =
                   k_kind_flags (rev ?priv ! i) \<union> kb_kind_flags (?kb ! nat (k_tval (tab ! i)))
               \<and> kb_kind_flags (?kb ! nat (k_tval (tab ! i))) \<subseteq> k_kind_flags (tab ! i)
               \<and> k_next (tab ! i) = (if i + 1 < length tab then Some (i + 1) else None)"
    by blast
  have l2: "length tab = 2" using len by simp
  have r0: "k_kidx (tab ! 0) = 0 \<and> k_kind_flags (tab ! 0) = {7} \<and> k_next (tab ! 0) = Some 1"
    using rows[rule_format, of 0] l2 by (simp add: object_kind_zero_def)
  have r1: "k_kidx (tab ! 1) = 1 \<and> k_kind_flags (tab ! 1) = {3, 7} \<and> k_next (tab ! 1) = None"
    using rows[rule_format, of 1] l2 by (simp add: object_kind_zero_def)
  show ?thesis
    using h run l2 r0 r1 by auto
qed

section \<open>Files and finished tables\<close>



















subsection \<open>The projections\<close>





subsection \<open>The slays\<close>





subsection \<open>The brands\<close>





subsection \<open>The curses\<close>

lemmas curse_callback_defs =
  parse_curse_name_def parse_curse_type_def parse_curse_combat_def parse_curse_effect_def
  parse_curse_effect_yx_def parse_curse_dice_def parse_curse_expr_def parse_curse_msg_def
  parse_curse_time_def parse_curse_flags_def parse_curse_values_def parse_curse_desc_def
  parse_curse_conflict_def parse_curse_conflict_flags_def on_curse_obj_def on_ob_effect_def





subsection \<open>The activations\<close>





subsection \<open>The object kinds\<close>





subsection \<open>The ego items\<close>





subsection \<open>The artifacts\<close>





subsection \<open>The object properties\<close>





subsection \<open>The power calculations\<close>





subsection \<open>From the list to the table\<close>



























subsection \<open>The object bases\<close>











end
